theory Spec2Isabelle
  imports Main "HOL-Library.Word"
begin

section \<open>Data model of km_compat.cpp\<close>

text \<open>
  The KeyMint-to-Keymaster compatibility layer (\<^verbatim>\<open>keystore2/src/km_compat/km_compat.cpp\<close>).
  A \<^verbatim>\<open>std::vector<uint8_t>\<close> is a list of bytes; the enum classes whose enumerators the
  source names are datatypes; error codes are the \<^verbatim>\<open>int32_t\<close> values the source casts them to.
\<close>

type_synonym bytes = "8 word list"

type_synonym V4_0_ErrorCode = int

text \<open>
  Modelled from the spec: the enumerators of \<^verbatim>\<open>V4_0::ErrorCode\<close> and of
  \<^verbatim>\<open>ResponseCode\<close> are declared in headers outside this file. The spec names them
  (ok, unknown-error, too-many-operations, not implemented, generic system-error); the
  numbers are those of the Keymaster HAL and of the keystore2 AIDL. INVALID_KEY_BLOB
  stands for any other code the backend may report. The legacy codes are
  all non-positive, the response code is positive.
\<close>

definition ErrorCode_OK :: V4_0_ErrorCode where
  "ErrorCode_OK = 0"

definition ErrorCode_UNKNOWN_ERROR :: V4_0_ErrorCode where
  "ErrorCode_UNKNOWN_ERROR = - 1000"

definition ErrorCode_TOO_MANY_OPERATIONS :: V4_0_ErrorCode where
  "ErrorCode_TOO_MANY_OPERATIONS = - 31"

definition ErrorCode_UNIMPLEMENTED :: V4_0_ErrorCode where
  "ErrorCode_UNIMPLEMENTED = - 100"

definition ErrorCode_INVALID_KEY_BLOB :: V4_0_ErrorCode where
  "ErrorCode_INVALID_KEY_BLOB = - 33"

definition ResponseCode_SYSTEM_ERROR :: int where
  "ResponseCode_SYSTEM_ERROR = 4"

definition STATUS_NAME_NOT_FOUND :: int where
  "STATUS_NAME_NOT_FOUND = - 2"

lemmas code_defs =
  ErrorCode_OK_def ErrorCode_UNKNOWN_ERROR_def ErrorCode_TOO_MANY_OPERATIONS_def
  ErrorCode_UNIMPLEMENTED_def ErrorCode_INVALID_KEY_BLOB_def ResponseCode_SYSTEM_ERROR_def
  STATUS_NAME_NOT_FOUND_def

datatype ScopedAStatus =
    Status_ok
  | fromServiceSpecificError int
  | fromStatus int

fun isOk :: "ScopedAStatus \<Rightarrow> bool" where
  "isOk Status_ok = True"
| "isOk _ = False"

text \<open>\<^verbatim>\<open>getServiceSpecificError()\<close>: the carried code, 0 for a status that carries none.\<close>

fun getServiceSpecificError :: "ScopedAStatus \<Rightarrow> int" where
  "getServiceSpecificError (fromServiceSpecificError c) = c"
| "getServiceSpecificError _ = 0"

text \<open>
  A HIDL call that reports through a callback: either the transport failed and the
  callback never ran (\<^verbatim>\<open>!result.isOk()\<close>), or the callback ran with the reply.
\<close>

datatype 'a hidl_return = NotDelivered | Delivered 'a

datatype Algorithm = RSA | EC | AES | TRIPLE_DES | HMAC

datatype PaddingMode =
  PaddingMode_NONE | RSA_OAEP | RSA_PSS | RSA_PKCS1_1_5_ENCRYPT | RSA_PKCS1_1_5_SIGN | PKCS7

datatype Digest = Digest_NONE | MD5 | SHA1 | SHA_2_224 | SHA_2_256 | SHA_2_384 | SHA_2_512

datatype KeyPurpose = ENCRYPT | DECRYPT | SIGN | VERIFY | WRAP_KEY

datatype KeyFormat = X509 | PKCS8 | RAW

datatype Tag =
    ALGORITHM | PADDING | DIGEST | PURPOSE | NO_AUTH_REQUIRED | ATTESTATION_CHALLENGE
  | APPLICATION_ID | APPLICATION_DATA | ACTIVE_DATETIME | USAGE_EXPIRE_DATETIME
  | OtherTag nat

datatype KeyParameterValue =
    V_algorithm Algorithm
  | V_paddingMode PaddingMode
  | V_digest Digest
  | V_keyPurpose KeyPurpose
  | V_boolValue bool
  | V_dateTime "64 word"
  | V_blob bytes
  | V_integer "32 word"

record KeyParameter =
  kp_tag :: Tag
  kp_value :: KeyParameterValue

text \<open>
  A typed tag \<^verbatim>\<open>KMV1::TypedTag<type, tag>\<close>: the tag and the accessor of the value field
  of its type. \<^verbatim>\<open>authorizationValue(ttag, param)\<close> is empty when the parameter carries
  another tag, and otherwise reads the field.
\<close>

type_synonym 'v TypedTag = "Tag \<times> (KeyParameterValue \<Rightarrow> 'v option)"

definition TAG_ALGORITHM :: "Algorithm TypedTag" where
  "TAG_ALGORITHM = (ALGORITHM, \<lambda>v. case v of V_algorithm a \<Rightarrow> Some a | _ \<Rightarrow> None)"

definition TAG_PADDING :: "PaddingMode TypedTag" where
  "TAG_PADDING = (PADDING, \<lambda>v. case v of V_paddingMode p \<Rightarrow> Some p | _ \<Rightarrow> None)"

definition TAG_DIGEST :: "Digest TypedTag" where
  "TAG_DIGEST = (DIGEST, \<lambda>v. case v of V_digest d \<Rightarrow> Some d | _ \<Rightarrow> None)"

definition TAG_PURPOSE :: "KeyPurpose TypedTag" where
  "TAG_PURPOSE = (PURPOSE, \<lambda>v. case v of V_keyPurpose p \<Rightarrow> Some p | _ \<Rightarrow> None)"

definition TAG_NO_AUTH_REQUIRED :: "bool TypedTag" where
  "TAG_NO_AUTH_REQUIRED = (NO_AUTH_REQUIRED, \<lambda>v. case v of V_boolValue b \<Rightarrow> Some b | _ \<Rightarrow> None)"

definition TAG_ATTESTATION_CHALLENGE :: "bytes TypedTag" where
  "TAG_ATTESTATION_CHALLENGE = (ATTESTATION_CHALLENGE, \<lambda>v. case v of V_blob b \<Rightarrow> Some b | _ \<Rightarrow> None)"

definition TAG_APPLICATION_ID :: "bytes TypedTag" where
  "TAG_APPLICATION_ID = (APPLICATION_ID, \<lambda>v. case v of V_blob b \<Rightarrow> Some b | _ \<Rightarrow> None)"

definition TAG_APPLICATION_DATA :: "bytes TypedTag" where
  "TAG_APPLICATION_DATA = (APPLICATION_DATA, \<lambda>v. case v of V_blob b \<Rightarrow> Some b | _ \<Rightarrow> None)"

definition TAG_ACTIVE_DATETIME :: "64 word TypedTag" where
  "TAG_ACTIVE_DATETIME = (ACTIVE_DATETIME, \<lambda>v. case v of V_dateTime d \<Rightarrow> Some d | _ \<Rightarrow> None)"

definition TAG_USAGE_EXPIRE_DATETIME :: "64 word TypedTag" where
  "TAG_USAGE_EXPIRE_DATETIME =
     (USAGE_EXPIRE_DATETIME, \<lambda>v. case v of V_dateTime d \<Rightarrow> Some d | _ \<Rightarrow> None)"

lemmas TAG_defs =
  TAG_ALGORITHM_def TAG_PADDING_def TAG_DIGEST_def TAG_PURPOSE_def TAG_NO_AUTH_REQUIRED_def
  TAG_ATTESTATION_CHALLENGE_def TAG_APPLICATION_ID_def TAG_APPLICATION_DATA_def
  TAG_ACTIVE_DATETIME_def TAG_USAGE_EXPIRE_DATETIME_def

definition authorizationValue :: "'v TypedTag \<Rightarrow> KeyParameter \<Rightarrow> 'v option" where
  "authorizationValue ttag param =
     (if fst ttag \<noteq> kp_tag param then None else snd ttag (kp_value param))"

record HardwareAuthToken =
  at_challenge :: "64 word"
  at_userId :: "64 word"
  at_authenticatorId :: "64 word"
  at_authenticatorType :: "32 word"
  at_timestamp_milliSeconds :: "64 word"
  at_mac :: bytes

record V4_0_HardwareAuthToken =
  legacyAt_challenge :: "64 word"
  legacyAt_userId :: "64 word"
  legacyAt_authenticatorId :: "64 word"
  legacyAt_authenticatorType :: "32 word"
  legacyAt_timestamp :: "64 word"
  legacyAt_mac :: bytes

record VerificationToken =
  vt_challenge :: "64 word"
  vt_timestamp_milliSeconds :: "64 word"
  vt_securityLevel :: "32 word"
  vt_mac :: bytes

record V4_0_VerificationToken =
  legacyVt_challenge :: "64 word"
  legacyVt_timestamp :: "64 word"
  legacyVt_securityLevel :: "32 word"
  legacyVt_mac :: bytes

definition convertAuthTokenToLegacy :: "HardwareAuthToken \<Rightarrow> V4_0_HardwareAuthToken" where
  "convertAuthTokenToLegacy a =
     \<lparr> legacyAt_challenge = at_challenge a,
       legacyAt_userId = at_userId a,
       legacyAt_authenticatorId = at_authenticatorId a,
       legacyAt_authenticatorType = at_authenticatorType a,
       legacyAt_timestamp = at_timestamp_milliSeconds a,
       legacyAt_mac = at_mac a \<rparr>"

definition convertVerificationTokenToLegacy :: "VerificationToken \<Rightarrow> V4_0_VerificationToken" where
  "convertVerificationTokenToLegacy vt =
     \<lparr> legacyVt_challenge = vt_challenge vt,
       legacyVt_timestamp = vt_timestamp_milliSeconds vt,
       legacyVt_securityLevel = vt_securityLevel vt,
       legacyVt_mac = vt_mac vt \<rparr>"

text \<open>Security levels are the numbers the \<^verbatim>\<open>static_assert\<close> of \<^verbatim>\<open>Devices\<close> fixes.\<close>

type_synonym SecurityLevel = nat

definition SOFTWARE :: SecurityLevel where
  "SOFTWARE = 0"

definition TRUSTED_ENVIRONMENT :: SecurityLevel where
  "TRUSTED_ENVIRONMENT = 1"

definition STRONGBOX :: SecurityLevel where
  "STRONGBOX = 2"

lemmas level_defs = SOFTWARE_def TRUSTED_ENVIRONMENT_def STRONGBOX_def

record 'lp V4_0_KeyCharacteristics =
  softwareEnforced :: "'lp list"
  hardwareEnforced :: "'lp list"

text \<open>
  \<^verbatim>\<open>securityLevel_\<close> of the device is written by \<^verbatim>\<open>getHardwareInfo\<close> only, so the level
  a characteristics record carries is \<open>None\<close> until then.
\<close>

record KeyCharacteristics =
  kc_securityLevel :: "SecurityLevel option"
  authorizations :: "KeyParameter list"

record Certificate =
  encodedCertificate :: bytes

record KeyCreationResult =
  keyBlob :: bytes
  keyCharacteristics :: "KeyCharacteristics list"
  certificateChain :: "Certificate list"

record KeyMintHardwareInfo =
  hi_securityLevel :: SecurityLevel
  keyMintName :: string
  keyMintAuthorName :: string

section \<open>The legacy backend and the other collaborators\<close>

text \<open>
  Every call this layer issues on \<^verbatim>\<open>mDevice\<close>, with the arguments it passes.
\<close>

datatype 'lp hal_call =
    Call_getHardwareInfo
  | Call_addRngEntropy bytes
  | Call_generateKey "'lp list"
  | Call_importKey "'lp list" KeyFormat bytes
  | Call_importWrappedKey bytes bytes bytes "'lp list" "64 word" "64 word"
  | Call_upgradeKey bytes "'lp list"
  | Call_deleteKey bytes
  | Call_deleteAllKeys
  | Call_exportKey KeyFormat bytes bytes bytes
  | Call_attestKey bytes "'lp list"
  | Call_begin KeyPurpose bytes "'lp list" V4_0_HardwareAuthToken
  | Call_update "64 word" "'lp list" bytes V4_0_HardwareAuthToken V4_0_VerificationToken
  | Call_finish "64 word" "'lp list" bytes bytes V4_0_HardwareAuthToken V4_0_VerificationToken
  | Call_abort "64 word"

datatype Algo = Algo_RSA | Algo_ECDSA

datatype Padding = Padding_PKCS1_5 | Padding_PSS | Padding_Ignored

datatype keystore_Digest =
  Digest_SHA1 | Digest_SHA224 | Digest_SHA256 | Digest_SHA384 | Digest_SHA512

type_synonym CertUtilsError = nat

text \<open>
  Everything the file calls and does not define is a parameter. The backend is
  deterministic in the history of the calls made on it: each \<open>km_\<close> field takes the
  calls issued so far and the present call, and gives the reply. Calls the source reads
  as a plain error code (\<^verbatim>\<open>deleteKey\<close>, \<^verbatim>\<open>deleteAllKeys\<close>, \<^verbatim>\<open>abort\<close>,
  \<^verbatim>\<open>addRngEntropy\<close>) have no transport branch in the source and none here.

  \<^verbatim>\<open>keystore::signCertWith\<close> takes the signing callback. It is split in two fields: what
  it does before the callback (fail, or hand over the bytes to be signed) and after it
  (fail, or install the signature); the callback runs at most once in between.

  The last three fields are the contents of locals the source leaves uninitialised.
\<close>

record ('lp, 'x, 'pk) collaborators =
  convertKeyParameterToLegacy :: "KeyParameter \<Rightarrow> 'lp"
  convertKeyParameterFromLegacy :: "'lp \<Rightarrow> KeyParameter"
  km_getHardwareInfo ::
    "'lp hal_call list \<Rightarrow> 'lp hal_call \<Rightarrow> (SecurityLevel \<times> string \<times> string) hidl_return"
  km_addRngEntropy :: "'lp hal_call list \<Rightarrow> 'lp hal_call \<Rightarrow> V4_0_ErrorCode"
  km_generateKey ::
    "'lp hal_call list \<Rightarrow> 'lp hal_call \<Rightarrow>
       (V4_0_ErrorCode \<times> bytes \<times> 'lp V4_0_KeyCharacteristics) hidl_return"
  km_importKey ::
    "'lp hal_call list \<Rightarrow> 'lp hal_call \<Rightarrow>
       (V4_0_ErrorCode \<times> bytes \<times> 'lp V4_0_KeyCharacteristics) hidl_return"
  km_importWrappedKey ::
    "'lp hal_call list \<Rightarrow> 'lp hal_call \<Rightarrow>
       (V4_0_ErrorCode \<times> bytes \<times> 'lp V4_0_KeyCharacteristics) hidl_return"
  km_upgradeKey :: "'lp hal_call list \<Rightarrow> 'lp hal_call \<Rightarrow> (V4_0_ErrorCode \<times> bytes) hidl_return"
  km_deleteKey :: "'lp hal_call list \<Rightarrow> 'lp hal_call \<Rightarrow> V4_0_ErrorCode"
  km_deleteAllKeys :: "'lp hal_call list \<Rightarrow> 'lp hal_call \<Rightarrow> V4_0_ErrorCode"
  km_exportKey :: "'lp hal_call list \<Rightarrow> 'lp hal_call \<Rightarrow> (V4_0_ErrorCode \<times> bytes) hidl_return"
  km_attestKey ::
    "'lp hal_call list \<Rightarrow> 'lp hal_call \<Rightarrow> (V4_0_ErrorCode \<times> bytes list) hidl_return"
  km_begin ::
    "'lp hal_call list \<Rightarrow> 'lp hal_call \<Rightarrow> (V4_0_ErrorCode \<times> 'lp list \<times> 64 word) hidl_return"
  km_update ::
    "'lp hal_call list \<Rightarrow> 'lp hal_call \<Rightarrow>
       (V4_0_ErrorCode \<times> 32 word \<times> 'lp list \<times> bytes) hidl_return"
  km_finish ::
    "'lp hal_call list \<Rightarrow> 'lp hal_call \<Rightarrow> (V4_0_ErrorCode \<times> 'lp list \<times> bytes) hidl_return"
  km_abort :: "'lp hal_call list \<Rightarrow> 'lp hal_call \<Rightarrow> V4_0_ErrorCode"
  EVP_parse_public_key :: "bytes \<Rightarrow> 'pk"
  keystore_makeCert :: "'pk \<Rightarrow> nat \<Rightarrow> string \<Rightarrow> 64 word \<Rightarrow> 64 word \<Rightarrow> CertUtilsError + 'x"
  keystore_setIssuer :: "'x \<Rightarrow> 'x \<Rightarrow> bool \<Rightarrow> CertUtilsError + 'x"
  signCertWith_before :: "'x \<Rightarrow> Algo \<Rightarrow> Padding \<Rightarrow> keystore_Digest \<Rightarrow> CertUtilsError + bytes"
  signCertWith_after :: "'x \<Rightarrow> bytes \<Rightarrow> CertUtilsError + 'x"
  EVP_PKEY_keygen :: "'pk"
  keystore_signCert :: "'x \<Rightarrow> 'pk \<Rightarrow> CertUtilsError + 'x"
  keystore_encodeCert :: "'x \<Rightarrow> CertUtilsError + bytes"
  uninit_authToken :: V4_0_HardwareAuthToken
  uninit_verificationToken :: V4_0_VerificationToken
  uninit_status :: "32 word"

definition convertErrorCode :: "V4_0_ErrorCode \<Rightarrow> ScopedAStatus" where
  "convertErrorCode result =
     (if result = ErrorCode_OK then Status_ok else fromServiceSpecificError result)"

definition convertKeyParametersToLegacy ::
  "('lp, 'x, 'pk) collaborators \<Rightarrow> KeyParameter list \<Rightarrow> 'lp list" where
  "convertKeyParametersToLegacy env kps = map (convertKeyParameterToLegacy env) kps"

definition convertKeyParametersFromLegacy ::
  "('lp, 'x, 'pk) collaborators \<Rightarrow> 'lp list \<Rightarrow> KeyParameter list" where
  "convertKeyParametersFromLegacy env legacyKps = map (convertKeyParameterFromLegacy env) legacyKps"

definition convertKeyCharacteristicsFromLegacy ::
  "('lp, 'x, 'pk) collaborators \<Rightarrow> SecurityLevel option \<Rightarrow> 'lp V4_0_KeyCharacteristics \<Rightarrow>
     KeyCharacteristics list" where
  "convertKeyCharacteristicsFromLegacy env securityLevel legacyKc =
     [\<lparr> kc_securityLevel = securityLevel,
        authorizations = convertKeyParametersFromLegacy env (hardwareEnforced legacyKc) \<rparr>]"

section \<open>Operation slots\<close>

text \<open>
  Modelled from the spec: the classes \<^verbatim>\<open>OperationSlots\<close>, \<^verbatim>\<open>OperationSlot\<close>,
  \<^verbatim>\<open>KeyMintOperation\<close>, \<^verbatim>\<open>KeyMintDevice\<close> and \<^verbatim>\<open>KeystoreCompatService\<close> are
  declared in \<^verbatim>\<open>km_compat.h\<close>, which is not among the sources; their members are the
  ones the member functions in \<^verbatim>\<open>km_compat.cpp\<close> read and write. The pool holds an
  integer count of free concurrent-operation resources; the count has the width of the
  argument of \<^verbatim>\<open>setNumFreeSlots\<close>, eight bits without sign, so \<^verbatim>\<open>++\<close> and \<^verbatim>\<open>--\<close>
  wrap around. A session holds an active flag. The mutex of the pool is not modelled:
  its member functions run one after the other.
\<close>

record OperationSlots =
  mNumFreeSlots :: "8 word"

definition setNumFreeSlots :: "8 word \<Rightarrow> OperationSlots \<Rightarrow> OperationSlots" where
  "setNumFreeSlots numFreeSlots s = s\<lparr>mNumFreeSlots := numFreeSlots\<rparr>"

definition claimSlot :: "OperationSlots \<Rightarrow> bool \<times> OperationSlots" where
  "claimSlot s =
     (if mNumFreeSlots s > 0 then (True, s\<lparr>mNumFreeSlots := mNumFreeSlots s - 1\<rparr>)
      else (False, s))"

definition freeSlot :: "OperationSlots \<Rightarrow> OperationSlots" where
  "freeSlot s = s\<lparr>mNumFreeSlots := mNumFreeSlots s + 1\<rparr>"

text \<open>
  One \<^verbatim>\<open>OperationSlot\<close> of an operation; its \<^verbatim>\<open>mOperationSlots\<close> pointer is the pool of
  the device, passed and returned beside it.
\<close>

record OperationSlot =
  mIsActive :: bool

definition OperationSlot_freeSlot ::
  "OperationSlot \<times> OperationSlots \<Rightarrow> OperationSlot \<times> OperationSlots" where
  "OperationSlot_freeSlot sp =
     (if mIsActive (fst sp) then ((fst sp)\<lparr>mIsActive := False\<rparr>, freeSlot (snd sp)) else sp)"

definition hasSlot :: "OperationSlot \<Rightarrow> bool" where
  "hasSlot slot = mIsActive slot"

section \<open>The device and its operations\<close>

text \<open>
  The state of one \<^verbatim>\<open>KeyMintDevice\<close>: the backend handle, the calls issued on it so
  far (what the backend has seen), the slot pool and \<^verbatim>\<open>securityLevel_\<close> (here
  \<open>m_securityLevel\<close>).
\<close>

record ('d, 'lp) KeyMintDevice =
  mDevice :: 'd
  halCalls :: "'lp hal_call list"
  mOperationSlots :: OperationSlots
  m_securityLevel :: "SecurityLevel option"

record KeyMintOperation =
  mOperationHandle :: "64 word"
  mOperationSlot :: OperationSlot

record BeginResult =
  br_challenge :: "64 word"
  br_params :: "KeyParameter list"
  br_operation :: "KeyMintOperation option"

definition issue :: "'lp hal_call \<Rightarrow> ('d, 'lp) KeyMintDevice \<Rightarrow> ('d, 'lp) KeyMintDevice" where
  "issue call dev = dev\<lparr>halCalls := halCalls dev @ [call]\<rparr>"

text \<open>\<^verbatim>\<open>mOperationSlot.freeSlot()\<close> inside an operation of the device.\<close>

definition op_freeSlot ::
  "KeyMintOperation \<Rightarrow> ('d, 'lp) KeyMintDevice \<Rightarrow> KeyMintOperation \<times> ('d, 'lp) KeyMintDevice" where
  "op_freeSlot oper dev =
     (let sp = OperationSlot_freeSlot (mOperationSlot oper, mOperationSlots dev)
      in (oper\<lparr>mOperationSlot := fst sp\<rparr>, dev\<lparr>mOperationSlots := snd sp\<rparr>))"

text \<open>
  Out-parameters are returned: \<open>None\<close> where the source leaves them untouched.
\<close>

definition KeyMintDevice_begin ::
  "('lp, 'x, 'pk) collaborators \<Rightarrow> KeyPurpose \<Rightarrow> bytes \<Rightarrow> KeyParameter list \<Rightarrow>
     HardwareAuthToken \<Rightarrow> ('d, 'lp) KeyMintDevice \<Rightarrow>
     ScopedAStatus \<times> BeginResult option \<times> ('d, 'lp) KeyMintDevice" where
  "KeyMintDevice_begin env in_inPurpose in_inKeyBlob in_inParams in_inAuthToken dev =
     (case claimSlot (mOperationSlots dev) of
        (False, _) \<Rightarrow> (convertErrorCode ErrorCode_TOO_MANY_OPERATIONS, None, dev)
      | (True, slots) \<Rightarrow>
          (let call = Call_begin in_inPurpose in_inKeyBlob
                        (convertKeyParametersToLegacy env in_inParams)
                        (convertAuthTokenToLegacy in_inAuthToken);
               dev0 = dev\<lparr>mOperationSlots := slots\<rparr>;
               dev1 = issue call dev0
           in case km_begin env (halCalls dev0) call of
                NotDelivered \<Rightarrow>
                  (fromServiceSpecificError ResponseCode_SYSTEM_ERROR, None,
                   dev1\<lparr>mOperationSlots := freeSlot (mOperationSlots dev1)\<rparr>)
              | Delivered (errorCode, outParams, operationHandle) \<Rightarrow>
                  (convertErrorCode errorCode,
                   Some \<lparr> br_challenge = operationHandle,
                          br_params = convertKeyParametersFromLegacy env outParams,
                          br_operation =
                            Some \<lparr> mOperationHandle = operationHandle,
                                   mOperationSlot = \<lparr> mIsActive = (errorCode = ErrorCode_OK) \<rparr> \<rparr> \<rparr>,
                   if errorCode \<noteq> ErrorCode_OK
                   then dev1\<lparr>mOperationSlots := freeSlot (mOperationSlots dev1)\<rparr>
                   else dev1)))"

definition KeyMintOperation_update ::
  "('lp, 'x, 'pk) collaborators \<Rightarrow> KeyParameter list option \<Rightarrow> bytes option \<Rightarrow>
     HardwareAuthToken option \<Rightarrow> VerificationToken option \<Rightarrow>
     KeyMintOperation \<Rightarrow> ('d, 'lp) KeyMintDevice \<Rightarrow>
     ScopedAStatus \<times> (KeyParameter list \<times> bytes \<times> 32 word) option \<times>
       KeyMintOperation \<times> ('d, 'lp) KeyMintDevice" where
  "KeyMintOperation_update env in_inParams in_input in_inAuthToken in_inVerificationToken oper dev =
     (let legacyParams =
            (case in_inParams of Some ps \<Rightarrow> convertKeyParametersToLegacy env ps | None \<Rightarrow> []);
          input = (case in_input of Some i \<Rightarrow> i | None \<Rightarrow> []);
          authToken =
            (case in_inAuthToken of Some t \<Rightarrow> convertAuthTokenToLegacy t
             | None \<Rightarrow> uninit_authToken env);
          verificationToken =
            (case in_inVerificationToken of Some t \<Rightarrow> convertVerificationTokenToLegacy t
             | None \<Rightarrow> uninit_verificationToken env);
          call = Call_update (mOperationHandle oper) legacyParams input authToken verificationToken;
          dev1 = issue call dev
      in case km_update env (halCalls dev) call of
           NotDelivered \<Rightarrow>
             (let od = op_freeSlot oper dev1
              in (fromServiceSpecificError ResponseCode_SYSTEM_ERROR, None, fst od, snd od))
         | Delivered (errorCode, inputConsumed, outParams, output) \<Rightarrow>
             (let od = (if errorCode \<noteq> ErrorCode_OK then op_freeSlot oper dev1 else (oper, dev1))
              in (convertErrorCode errorCode,
                  Some (convertKeyParametersFromLegacy env outParams, output, inputConsumed),
                  fst od, snd od)))"

definition KeyMintOperation_finish ::
  "('lp, 'x, 'pk) collaborators \<Rightarrow> KeyParameter list option \<Rightarrow> bytes option \<Rightarrow> bytes option \<Rightarrow>
     HardwareAuthToken option \<Rightarrow> VerificationToken option \<Rightarrow>
     KeyMintOperation \<Rightarrow> ('d, 'lp) KeyMintDevice \<Rightarrow>
     ScopedAStatus \<times> (KeyParameter list \<times> bytes) option \<times>
       KeyMintOperation \<times> ('d, 'lp) KeyMintDevice" where
  "KeyMintOperation_finish env in_inParams in_input in_inSignature in_authToken
       in_inVerificationToken oper dev =
     (let legacyParams =
            (case in_inParams of Some ps \<Rightarrow> convertKeyParametersToLegacy env ps | None \<Rightarrow> []);
          input = (case in_input of Some i \<Rightarrow> i | None \<Rightarrow> []);
          signature = (case in_inSignature of Some s \<Rightarrow> s | None \<Rightarrow> []);
          authToken =
            (case in_authToken of Some t \<Rightarrow> convertAuthTokenToLegacy t
             | None \<Rightarrow> uninit_authToken env);
          verificationToken =
            (case in_inVerificationToken of Some t \<Rightarrow> convertVerificationTokenToLegacy t
             | None \<Rightarrow> uninit_verificationToken env);
          call = Call_finish (mOperationHandle oper) legacyParams input signature authToken
                   verificationToken;
          result = km_finish env (halCalls dev) call;
          od = op_freeSlot oper (issue call dev)
      in case result of
           NotDelivered \<Rightarrow>
             (fromServiceSpecificError ResponseCode_SYSTEM_ERROR, None, fst od, snd od)
         | Delivered (errorCode, outParams, output) \<Rightarrow>
             (convertErrorCode errorCode,
              Some (convertKeyParametersFromLegacy env outParams, output),
              fst od, snd od))"

definition KeyMintOperation_abort ::
  "('lp, 'x, 'pk) collaborators \<Rightarrow> KeyMintOperation \<Rightarrow> ('d, 'lp) KeyMintDevice \<Rightarrow>
     ScopedAStatus \<times> KeyMintOperation \<times> ('d, 'lp) KeyMintDevice" where
  "KeyMintOperation_abort env oper dev =
     (let call = Call_abort (mOperationHandle oper);
          errorCode = km_abort env (halCalls dev) call;
          od = op_freeSlot oper (issue call dev)
      in (convertErrorCode errorCode, fst od, snd od))"

text \<open>\<^verbatim>\<open>~KeyMintOperation\<close>: the error of the implicit abort is logged and dropped.\<close>

definition KeyMintOperation_destructor ::
  "('lp, 'x, 'pk) collaborators \<Rightarrow> KeyMintOperation \<Rightarrow> ('d, 'lp) KeyMintDevice \<Rightarrow>
     KeyMintOperation \<times> ('d, 'lp) KeyMintDevice" where
  "KeyMintOperation_destructor env oper dev =
     (if hasSlot (mOperationSlot oper)
      then (let r = KeyMintOperation_abort env oper dev in (fst (snd r), snd (snd r)))
      else (oper, dev))"

text \<open>
  The calls a client can make on one operation object, and a session as a sequence of
  them. The values returned to the client are dropped: a session is followed for what
  it does to the operation and to the device.
\<close>

datatype session_call =
    Session_update "KeyParameter list option" "bytes option" "HardwareAuthToken option"
      "VerificationToken option"
  | Session_finish "KeyParameter list option" "bytes option" "bytes option"
      "HardwareAuthToken option" "VerificationToken option"
  | Session_abort
  | Session_destroy

fun is_terminal :: "session_call \<Rightarrow> bool" where
  "is_terminal (Session_update _ _ _ _) = False"
| "is_terminal _ = True"

fun session_step ::
  "('lp, 'x, 'pk) collaborators \<Rightarrow> session_call \<Rightarrow> KeyMintOperation \<times> ('d, 'lp) KeyMintDevice \<Rightarrow>
     KeyMintOperation \<times> ('d, 'lp) KeyMintDevice" where
  "session_step env (Session_update p i a v) (oper, dev) =
     snd (snd (KeyMintOperation_update env p i a v oper dev))"
| "session_step env (Session_finish p i s a v) (oper, dev) =
     snd (snd (KeyMintOperation_finish env p i s a v oper dev))"
| "session_step env Session_abort (oper, dev) = snd (KeyMintOperation_abort env oper dev)"
| "session_step env Session_destroy (oper, dev) = KeyMintOperation_destructor env oper dev"

fun session_run ::
  "('lp, 'x, 'pk) collaborators \<Rightarrow> session_call list \<Rightarrow> KeyMintOperation \<times> ('d, 'lp) KeyMintDevice \<Rightarrow>
     KeyMintOperation \<times> ('d, 'lp) KeyMintDevice" where
  "session_run env [] st = st"
| "session_run env (c # cs) st = session_run env cs (session_step env c st)"

text \<open>
  The slots one step gives back to the pool: the change of the pool's counter. A session
  step never claims a slot, so this counts the runs of the pool's \<^verbatim>\<open>freeSlot\<close>.
\<close>

definition step_releases ::
  "('lp, 'x, 'pk) collaborators \<Rightarrow> session_call \<Rightarrow> KeyMintOperation \<times> ('d, 'lp) KeyMintDevice \<Rightarrow> nat" where
  "step_releases env c st =
     unat (mNumFreeSlots (mOperationSlots (snd (session_step env c st))) -
           mNumFreeSlots (mOperationSlots (snd st)))"

fun session_releases ::
  "('lp, 'x, 'pk) collaborators \<Rightarrow> session_call list \<Rightarrow> KeyMintOperation \<times> ('d, 'lp) KeyMintDevice \<Rightarrow> nat" where
  "session_releases env [] st = 0"
| "session_releases env (c # cs) st =
     step_releases env c st + session_releases env cs (session_step env c st)"

text \<open>
  How one call on an operation may change the slot accounting: the operation never
  becomes active again, and the pool's counter grows by one exactly when the operation
  goes from active to inactive, and stays as it is otherwise.
\<close>

definition slot_inv ::
  "KeyMintOperation \<times> ('d, 'lp) KeyMintDevice \<Rightarrow> KeyMintOperation \<times> ('d, 'lp) KeyMintDevice \<Rightarrow> bool" where
  "slot_inv st st' \<longleftrightarrow>
     (mIsActive (mOperationSlot (fst st')) \<longrightarrow> mIsActive (mOperationSlot (fst st))) \<and>
     mNumFreeSlots (mOperationSlots (snd st')) =
       (if mIsActive (mOperationSlot (fst st)) \<and> \<not> mIsActive (mOperationSlot (fst st'))
        then mNumFreeSlots (mOperationSlots (snd st)) + 1
        else mNumFreeSlots (mOperationSlots (snd st)))"

section \<open>Slot pool call sequences\<close>

text \<open>
  Sequences of calls on a pool. \<open>claim_many k\<close> is \<open>k\<close> calls of \<^verbatim>\<open>claimSlot\<close> in a
  row and counts the successful ones. \<open>pool_run\<close> follows any interleaving of claims and
  releases and keeps beside the pool the number of slots claimed and not yet given back;
  \<open>paired\<close> says that every release in the sequence gives back a slot that is held then,
  which is what the callers of \<^verbatim>\<open>freeSlot\<close> guarantee.
\<close>

datatype pool_call = Claim | Free

fun claim_many :: "nat \<Rightarrow> OperationSlots \<Rightarrow> nat \<times> OperationSlots" where
  "claim_many 0 s = (0, s)"
| "claim_many (Suc k) s =
     (let r = claimSlot s; m = claim_many k (snd r)
      in ((if fst r then 1 else 0) + fst m, snd m))"

fun pool_run :: "pool_call list \<Rightarrow> OperationSlots \<times> nat \<Rightarrow> OperationSlots \<times> nat" where
  "pool_run [] st = st"
| "pool_run (Claim # cs) (s, held) =
     (let r = claimSlot s in pool_run cs (snd r, if fst r then Suc held else held))"
| "pool_run (Free # cs) (s, held) = pool_run cs (freeSlot s, held - 1)"

fun paired :: "pool_call list \<Rightarrow> OperationSlots \<times> nat \<Rightarrow> bool" where
  "paired [] st = True"
| "paired (Claim # cs) (s, held) =
     (let r = claimSlot s in paired cs (snd r, if fst r then Suc held else held))"
| "paired (Free # cs) (s, held) = (0 < held \<and> paired cs (freeSlot s, held - 1))"

section \<open>Parameter selection\<close>

fun getParam :: "KeyParameter list \<Rightarrow> 'v TypedTag \<Rightarrow> 'v option" where
  "getParam [] ttag = None"
| "getParam (p # keyParams) ttag =
     (case authorizationValue ttag p of Some v \<Rightarrow> Some v | None \<Rightarrow> getParam keyParams ttag)"

definition containsParam :: "KeyParameter list \<Rightarrow> 'v TypedTag \<Rightarrow> bool" where
  "containsParam keyParams ttag = (getParam keyParams ttag \<noteq> None)"

text \<open>
  Iterators into \<^verbatim>\<open>sortedOptions\<close> are positions, \<^verbatim>\<open>end()\<close> being the length.
  \<^verbatim>\<open>std::find\<close> gives the first position holding the value, or the end;
  \<^verbatim>\<open>std::distance(i, j)\<close> is \<open>j - i\<close>, a signed number.
\<close>

fun std_find :: "'a list \<Rightarrow> 'a \<Rightarrow> nat" where
  "std_find [] v = 0"
| "std_find (x # xs) v = (if x = v then 0 else Suc (std_find xs v))"

definition std_distance :: "nat \<Rightarrow> nat \<Rightarrow> int" where
  "std_distance i j = int j - int i"

fun getMaximum_loop :: "KeyParameter list \<Rightarrow> 'v TypedTag \<Rightarrow> 'v list \<Rightarrow> nat \<Rightarrow> nat" where
  "getMaximum_loop [] ttag sortedOptions bestSoFar = bestSoFar"
| "getMaximum_loop (kp # keyParams) ttag sortedOptions bestSoFar =
     (case authorizationValue ttag kp of
        Some v \<Rightarrow>
          (let it = std_find sortedOptions v
           in if std_distance it bestSoFar < 0
              then getMaximum_loop keyParams ttag sortedOptions it
              else getMaximum_loop keyParams ttag sortedOptions bestSoFar)
      | None \<Rightarrow> getMaximum_loop keyParams ttag sortedOptions bestSoFar)"

text \<open>
  \<^verbatim>\<open>sortedOptions[0]\<close> of an empty vector, and \<^verbatim>\<open>*bestSoFar\<close> outside the vector, are
  undefined in the source: \<open>None\<close> here.
\<close>

definition getMaximum :: "KeyParameter list \<Rightarrow> 'v TypedTag \<Rightarrow> 'v list \<Rightarrow> 'v option" where
  "getMaximum keyParams ttag sortedOptions =
     (let bestSoFar = getMaximum_loop keyParams ttag sortedOptions (length sortedOptions)
      in if bestSoFar = length sortedOptions
         then (case sortedOptions of [] \<Rightarrow> None | first # _ \<Rightarrow> Some first)
         else if bestSoFar < length sortedOptions then Some (sortedOptions ! bestSoFar)
         else None)"

text \<open>
  What the claim asks of \<open>best_of\<close>: of the values the parameters carry under the tag,
  the one standing earliest in the preference list; the head of the list when none of
  them stands in it.
\<close>

definition best_of_spec :: "KeyParameter list \<Rightarrow> 'v TypedTag \<Rightarrow> 'v list \<Rightarrow> 'v option" where
  "best_of_spec keyParams ttag preference =
     (case filter (\<lambda>c. c \<in> set (List.map_filter (authorizationValue ttag) keyParams)) preference of
        best # _ \<Rightarrow> Some best
      | [] \<Rightarrow> (case preference of [] \<Rightarrow> None | first # _ \<Rightarrow> Some first))"

section \<open>Certificates\<close>

definition unwrapBlob :: "bytes option \<Rightarrow> bytes" where
  "unwrapBlob b = (case b of Some v \<Rightarrow> v | None \<Rightarrow> [])"

definition makeCert ::
  "('lp, 'x, 'pk) collaborators \<Rightarrow> KeyParameter list \<Rightarrow> bytes \<Rightarrow> ('d, 'lp) KeyMintDevice \<Rightarrow>
     (V4_0_ErrorCode + 'x) \<times> ('d, 'lp) KeyMintDevice" where
  "makeCert env keyParams blob dev =
     (let call = Call_exportKey X509 blob
                   (unwrapBlob (getParam keyParams TAG_APPLICATION_ID))
                   (unwrapBlob (getParam keyParams TAG_APPLICATION_DATA));
          dev1 = issue call dev
      in case km_exportKey env (halCalls dev) call of
           NotDelivered \<Rightarrow> (Inl ErrorCode_UNKNOWN_ERROR, dev1)
         | Delivered (errorCode, keyMaterial) \<Rightarrow>
             if errorCode \<noteq> ErrorCode_OK then (Inl errorCode, dev1)
             else
               (let pkey = EVP_parse_public_key env keyMaterial;
                    activation =
                      (case getParam keyParams TAG_ACTIVE_DATETIME of Some date \<Rightarrow> date | None \<Rightarrow> 0);
                    expiration =
                      (case getParam keyParams TAG_USAGE_EXPIRE_DATETIME of
                         Some date \<Rightarrow> date | None \<Rightarrow> - 1)
                in case keystore_makeCert env pkey 42 ''TODO'' activation expiration of
                     Inl _ \<Rightarrow> (Inl ErrorCode_UNKNOWN_ERROR, dev1)
                   | Inr cert \<Rightarrow> (Inr cert, dev1)))"

fun getKeystoreAlgorithm :: "Algorithm \<Rightarrow> V4_0_ErrorCode + Algo" where
  "getKeystoreAlgorithm RSA = Inr Algo_RSA"
| "getKeystoreAlgorithm EC = Inr Algo_ECDSA"
| "getKeystoreAlgorithm _ = Inl ErrorCode_UNKNOWN_ERROR"

fun getKeystorePadding :: "PaddingMode \<Rightarrow> V4_0_ErrorCode + Padding" where
  "getKeystorePadding RSA_PKCS1_1_5_SIGN = Inr Padding_PKCS1_5"
| "getKeystorePadding RSA_PSS = Inr Padding_PSS"
| "getKeystorePadding _ = Inr Padding_Ignored"

fun getKeystoreDigest :: "Digest \<Rightarrow> V4_0_ErrorCode + keystore_Digest" where
  "getKeystoreDigest SHA1 = Inr Digest_SHA1"
| "getKeystoreDigest SHA_2_224 = Inr Digest_SHA224"
| "getKeystoreDigest SHA_2_256 = Inr Digest_SHA256"
| "getKeystoreDigest Digest_NONE = Inr Digest_SHA256"
| "getKeystoreDigest SHA_2_384 = Inr Digest_SHA384"
| "getKeystoreDigest SHA_2_512 = Inr Digest_SHA512"
| "getKeystoreDigest _ = Inl ErrorCode_UNKNOWN_ERROR"

definition makeKeyParameter :: "Tag \<Rightarrow> KeyParameterValue \<Rightarrow> KeyParameter" where
  "makeKeyParameter t v = \<lparr> kp_tag = t, kp_value = v \<rparr>"

text \<open>The value-initialised tokens \<^verbatim>\<open>HardwareAuthToken()\<close> and \<^verbatim>\<open>VerificationToken()\<close>.\<close>

definition HardwareAuthToken0 :: HardwareAuthToken where
  "HardwareAuthToken0 =
     \<lparr> at_challenge = 0, at_userId = 0, at_authenticatorId = 0, at_authenticatorType = 0,
       at_timestamp_milliSeconds = 0, at_mac = [] \<rparr>"

definition VerificationToken0 :: VerificationToken where
  "VerificationToken0 =
     \<lparr> vt_challenge = 0, vt_timestamp_milliSeconds = 0, vt_securityLevel = 0, vt_mac = [] \<rparr>"

text \<open>
  The end of a scope that owns the only reference to an operation: its destructor runs.
\<close>

definition scope_exit ::
  "('lp, 'x, 'pk) collaborators \<Rightarrow> KeyMintOperation option \<Rightarrow> ('d, 'lp) KeyMintDevice \<Rightarrow>
     ('d, 'lp) KeyMintDevice" where
  "scope_exit env operation dev =
     (case operation of None \<Rightarrow> dev
      | Some oper \<Rightarrow> snd (KeyMintOperation_destructor env oper dev))"

text \<open>
  The signing callback of \<^verbatim>\<open>signCertificate\<close>. It captures \<^verbatim>\<open>errorCode\<close> by reference:
  the code is passed in and returned beside the signature. An ok status of \<^verbatim>\<open>begin\<close>
  always comes with an operation; the branches without one are not reached and leave
  everything as it is.
\<close>

definition sign_callback ::
  "('lp, 'x, 'pk) collaborators \<Rightarrow> bytes \<Rightarrow> PaddingMode \<Rightarrow> Digest \<Rightarrow> bytes \<Rightarrow> V4_0_ErrorCode \<Rightarrow>
     ('d, 'lp) KeyMintDevice \<Rightarrow> bytes \<times> V4_0_ErrorCode \<times> ('d, 'lp) KeyMintDevice" where
  "sign_callback env blob origPadding origDigest dataVec errorCode dev =
     (let kps = [makeKeyParameter PADDING (V_paddingMode origPadding),
                 makeKeyParameter DIGEST (V_digest origDigest)];
          b = KeyMintDevice_begin env SIGN blob kps HardwareAuthToken0 dev;
          operation = (case fst (snd b) of None \<Rightarrow> None | Some beginResult \<Rightarrow> br_operation beginResult);
          dev1 = snd (snd b)
      in if \<not> isOk (fst b)
         then ([], getServiceSpecificError (fst b), scope_exit env operation dev1)
         else
           (case operation of
              None \<Rightarrow> ([], errorCode, dev1)
            | Some oper \<Rightarrow>
                (let u = KeyMintOperation_update env None (Some dataVec) (Some HardwareAuthToken0)
                           (Some VerificationToken0) oper dev1;
                     status = (case fst (snd u) of Some (_, _, inputConsumed) \<Rightarrow> inputConsumed
                               | None \<Rightarrow> uninit_status env);
                     oper2 = fst (snd (snd u));
                     dev2 = snd (snd (snd u))
                 in if status = 0 then ([], errorCode, scope_exit env (Some oper2) dev2)
                    else
                      (let f = KeyMintOperation_finish env None None None None None oper2 dev2;
                           result = (case fst (snd f) of Some (_, output) \<Rightarrow> output | None \<Rightarrow> []);
                           dev3 = scope_exit env (Some (fst (snd (snd f)))) (snd (snd (snd f)))
                       in if \<not> isOk (fst f)
                          then ([], getServiceSpecificError (fst f), dev3)
                          else (result, errorCode, dev3)))))"

text \<open>
  \<^verbatim>\<open>signCertificate\<close> returns the error, if any, and the certificate it worked on.
  It dereferences the algorithm parameter unchecked; \<^verbatim>\<open>getCertificate\<close> calls it only
  when the parameter is there, and the other branch here is not reached.
\<close>

definition signCertificate ::
  "('lp, 'x, 'pk) collaborators \<Rightarrow> KeyParameter list \<Rightarrow> bytes \<Rightarrow> 'x \<Rightarrow> ('d, 'lp) KeyMintDevice \<Rightarrow>
     V4_0_ErrorCode option \<times> 'x \<times> ('d, 'lp) KeyMintDevice" where
  "signCertificate env keyParams blob cert dev =
     (case getParam keyParams TAG_ALGORITHM of
        None \<Rightarrow> (Some ErrorCode_UNKNOWN_ERROR, cert, dev)
      | Some algorithm \<Rightarrow>
     (case getKeystoreAlgorithm algorithm of
        Inl e \<Rightarrow> (Some e, cert, dev)
      | Inr algo \<Rightarrow>
     (case getMaximum keyParams TAG_PADDING [RSA_PSS, RSA_PKCS1_1_5_SIGN] of
        None \<Rightarrow> (Some ErrorCode_UNKNOWN_ERROR, cert, dev)
      | Some origPadding \<Rightarrow>
     (case getKeystorePadding origPadding of
        Inl e \<Rightarrow> (Some e, cert, dev)
      | Inr padding \<Rightarrow>
     (case getMaximum keyParams TAG_DIGEST [SHA_2_256, SHA_2_512, SHA_2_384, SHA_2_224, SHA1] of
        None \<Rightarrow> (Some ErrorCode_UNKNOWN_ERROR, cert, dev)
      | Some origDigest \<Rightarrow>
     (case getKeystoreDigest origDigest of
        Inl e \<Rightarrow> (Some e, cert, dev)
      | Inr digest \<Rightarrow>
     (case signCertWith_before env cert algo padding digest of
        Inl _ \<Rightarrow> (Some ErrorCode_UNKNOWN_ERROR, cert, dev)
      | Inr tbs \<Rightarrow>
          (let r = sign_callback env blob origPadding origDigest tbs ErrorCode_OK dev;
               errorCode = fst (snd r);
               dev1 = snd (snd r)
           in case signCertWith_after env cert (fst r) of
                Inl _ \<Rightarrow> (Some ErrorCode_UNKNOWN_ERROR, cert, dev1)
              | Inr cert1 \<Rightarrow>
                  if errorCode \<noteq> ErrorCode_OK then (Some errorCode, cert1, dev1)
                  else (None, cert1, dev1)))))))))"

definition canSelfSign :: "KeyParameter list \<Rightarrow> bool" where
  "canSelfSign keyParams =
     (\<exists>kp \<in> set keyParams.
        case authorizationValue TAG_PURPOSE kp of Some v \<Rightarrow> v = SIGN | None \<Rightarrow> False)"

definition getCertificate ::
  "('lp, 'x, 'pk) collaborators \<Rightarrow> KeyParameter list \<Rightarrow> bytes \<Rightarrow> ('d, 'lp) KeyMintDevice \<Rightarrow>
     (V4_0_ErrorCode + Certificate list) \<times> ('d, 'lp) KeyMintDevice" where
  "getCertificate env keyParams blob dev =
     (case getParam keyParams TAG_ALGORITHM of
        None \<Rightarrow> (Inl ErrorCode_UNKNOWN_ERROR, dev)
      | Some algorithm \<Rightarrow>
          if algorithm \<noteq> RSA \<and> algorithm \<noteq> EC then (Inl ErrorCode_OK, dev)
          else if containsParam keyParams TAG_ATTESTATION_CHALLENGE then
            (let call = Call_attestKey blob (convertKeyParametersToLegacy env keyParams);
                 dev1 = issue call dev
             in case km_attestKey env (halCalls dev) call of
                  NotDelivered \<Rightarrow> (Inl ErrorCode_UNKNOWN_ERROR, dev1)
                | Delivered (errorCode, certChain) \<Rightarrow>
                    if errorCode \<noteq> ErrorCode_OK then (Inl errorCode, dev1)
                    else (Inr (map (\<lambda>cert. \<lparr> encodedCertificate = cert \<rparr>) certChain), dev1))
          else
            (case makeCert env keyParams blob dev of
               (Inl e, dev1) \<Rightarrow> (Inl e, dev1)
             | (Inr cert, dev1) \<Rightarrow>
            (case keystore_setIssuer env cert cert False of
               Inl _ \<Rightarrow> (Inl ErrorCode_UNKNOWN_ERROR, dev1)
             | Inr cert1 \<Rightarrow>
                 (let signed =
                        (if canSelfSign keyParams \<and> containsParam keyParams TAG_NO_AUTH_REQUIRED
                         then (case signCertificate env keyParams blob cert1 dev1 of
                                 (Some errorCode, _, dev2) \<Rightarrow> (Inl errorCode, dev2)
                               | (None, cert2, dev2) \<Rightarrow> (Inr cert2, dev2))
                         else (case keystore_signCert env cert1 (EVP_PKEY_keygen env) of
                                 Inl _ \<Rightarrow> (Inl ErrorCode_UNKNOWN_ERROR, dev1)
                               | Inr cert2 \<Rightarrow> (Inr cert2, dev1)))
                  in case signed of
                       (Inl e, dev2) \<Rightarrow> (Inl e, dev2)
                     | (Inr cert2, dev2) \<Rightarrow>
                         (case keystore_encodeCert env cert2 of
                            Inl _ \<Rightarrow> (Inl ErrorCode_UNKNOWN_ERROR, dev2)
                          | Inr encoded \<Rightarrow> (Inr [\<lparr> encodedCertificate = encoded \<rparr>], dev2))))))"

section \<open>Key management entry points\<close>

definition KeyMintDevice_getHardwareInfo ::
  "('lp, 'x, 'pk) collaborators \<Rightarrow> ('d, 'lp) KeyMintDevice \<Rightarrow>
     ScopedAStatus \<times> KeyMintHardwareInfo option \<times> ('d, 'lp) KeyMintDevice" where
  "KeyMintDevice_getHardwareInfo env dev =
     (let call = Call_getHardwareInfo;
          dev1 = issue call dev
      in case km_getHardwareInfo env (halCalls dev) call of
           NotDelivered \<Rightarrow> (fromServiceSpecificError ResponseCode_SYSTEM_ERROR, None, dev1)
         | Delivered (securityLevel, keymasterName, keymasterAuthorName) \<Rightarrow>
             (Status_ok,
              Some \<lparr> hi_securityLevel = securityLevel, keyMintName = keymasterName,
                     keyMintAuthorName = keymasterAuthorName \<rparr>,
              dev1\<lparr>m_securityLevel := Some securityLevel\<rparr>))"

definition KeyMintDevice_verifyAuthorization :: ScopedAStatus where
  "KeyMintDevice_verifyAuthorization = fromServiceSpecificError ErrorCode_UNIMPLEMENTED"

definition KeyMintDevice_destroyAttestationIds :: ScopedAStatus where
  "KeyMintDevice_destroyAttestationIds = fromServiceSpecificError ErrorCode_UNIMPLEMENTED"

definition KeyMintDevice_addRngEntropy ::
  "('lp, 'x, 'pk) collaborators \<Rightarrow> bytes \<Rightarrow> ('d, 'lp) KeyMintDevice \<Rightarrow>
     ScopedAStatus \<times> ('d, 'lp) KeyMintDevice" where
  "KeyMintDevice_addRngEntropy env in_data dev =
     (let call = Call_addRngEntropy in_data
      in (convertErrorCode (km_addRngEntropy env (halCalls dev) call), issue call dev))"

definition KeyMintDevice_deleteKey ::
  "('lp, 'x, 'pk) collaborators \<Rightarrow> bytes \<Rightarrow> ('d, 'lp) KeyMintDevice \<Rightarrow>
     ScopedAStatus \<times> ('d, 'lp) KeyMintDevice" where
  "KeyMintDevice_deleteKey env in_inKeyBlob dev =
     (let call = Call_deleteKey in_inKeyBlob
      in (convertErrorCode (km_deleteKey env (halCalls dev) call), issue call dev))"

definition KeyMintDevice_deleteAllKeys ::
  "('lp, 'x, 'pk) collaborators \<Rightarrow> ('d, 'lp) KeyMintDevice \<Rightarrow>
     ScopedAStatus \<times> ('d, 'lp) KeyMintDevice" where
  "KeyMintDevice_deleteAllKeys env dev =
     (let call = Call_deleteAllKeys
      in (convertErrorCode (km_deleteAllKeys env (halCalls dev) call), issue call dev))"

text \<open>
  What \<^verbatim>\<open>generateKey\<close> and \<^verbatim>\<open>importKey\<close> share after a delivered reply: the
  certificate of a key the backend created, and the deletion of the key when there is
  none to be had. \<open>out\<close> is \<^verbatim>\<open>*out_creationResult\<close>, read and written in place.
\<close>

definition certify_created_key ::
  "('lp, 'x, 'pk) collaborators \<Rightarrow> KeyParameter list \<Rightarrow> V4_0_ErrorCode \<Rightarrow> KeyCreationResult \<Rightarrow>
     ('d, 'lp) KeyMintDevice \<Rightarrow> ScopedAStatus \<times> KeyCreationResult \<times> ('d, 'lp) KeyMintDevice" where
  "certify_created_key env keyParams errorCode out dev =
     (if errorCode = ErrorCode_OK then
        (case getCertificate env keyParams (keyBlob out) dev of
           (Inl code, dev1) \<Rightarrow>
             if code \<noteq> ErrorCode_OK
             then (convertErrorCode code, out, snd (KeyMintDevice_deleteKey env (keyBlob out) dev1))
             else (convertErrorCode errorCode, out, dev1)
         | (Inr certs, dev1) \<Rightarrow> (convertErrorCode errorCode, out\<lparr>certificateChain := certs\<rparr>, dev1))
      else (convertErrorCode errorCode, out, dev))"

definition KeyMintDevice_generateKey ::
  "('lp, 'x, 'pk) collaborators \<Rightarrow> KeyParameter list \<Rightarrow> KeyCreationResult \<Rightarrow>
     ('d, 'lp) KeyMintDevice \<Rightarrow> ScopedAStatus \<times> KeyCreationResult \<times> ('d, 'lp) KeyMintDevice" where
  "KeyMintDevice_generateKey env in_keyParams out_creationResult dev =
     (let call = Call_generateKey (convertKeyParametersToLegacy env in_keyParams);
          dev1 = issue call dev
      in case km_generateKey env (halCalls dev) call of
           NotDelivered \<Rightarrow>
             (fromServiceSpecificError ResponseCode_SYSTEM_ERROR, out_creationResult, dev1)
         | Delivered (errorCode, blob, characteristics) \<Rightarrow>
             certify_created_key env in_keyParams errorCode
               (out_creationResult
                  \<lparr> keyBlob := blob,
                    keyCharacteristics :=
                      convertKeyCharacteristicsFromLegacy env (m_securityLevel dev) characteristics \<rparr>)
               dev1)"

definition KeyMintDevice_importKey ::
  "('lp, 'x, 'pk) collaborators \<Rightarrow> KeyParameter list \<Rightarrow> KeyFormat \<Rightarrow> bytes \<Rightarrow> KeyCreationResult \<Rightarrow>
     ('d, 'lp) KeyMintDevice \<Rightarrow> ScopedAStatus \<times> KeyCreationResult \<times> ('d, 'lp) KeyMintDevice" where
  "KeyMintDevice_importKey env in_inKeyParams in_inKeyFormat in_inKeyData out_creationResult dev =
     (let call = Call_importKey (convertKeyParametersToLegacy env in_inKeyParams) in_inKeyFormat
                   in_inKeyData;
          dev1 = issue call dev
      in case km_importKey env (halCalls dev) call of
           NotDelivered \<Rightarrow>
             (fromServiceSpecificError ResponseCode_SYSTEM_ERROR, out_creationResult, dev1)
         | Delivered (errorCode, blob, characteristics) \<Rightarrow>
             certify_created_key env in_inKeyParams errorCode
               (out_creationResult
                  \<lparr> keyBlob := blob,
                    keyCharacteristics :=
                      convertKeyCharacteristicsFromLegacy env (m_securityLevel dev) characteristics \<rparr>)
               dev1)"

definition KeyMintDevice_importWrappedKey ::
  "('lp, 'x, 'pk) collaborators \<Rightarrow> bytes \<Rightarrow> bytes \<Rightarrow> bytes \<Rightarrow> KeyParameter list \<Rightarrow>
     64 word \<Rightarrow> 64 word \<Rightarrow> KeyCreationResult \<Rightarrow> ('d, 'lp) KeyMintDevice \<Rightarrow>
     ScopedAStatus \<times> KeyCreationResult \<times> ('d, 'lp) KeyMintDevice" where
  "KeyMintDevice_importWrappedKey env in_inWrappedKeyData in_inWrappingKeyBlob in_inMaskingKey
       in_inUnwrappingParams in_inPasswordSid in_inBiometricSid out_creationResult dev =
     (let call = Call_importWrappedKey in_inWrappedKeyData in_inWrappingKeyBlob in_inMaskingKey
                   (convertKeyParametersToLegacy env in_inUnwrappingParams)
                   in_inPasswordSid in_inBiometricSid;
          dev1 = issue call dev
      in case km_importWrappedKey env (halCalls dev) call of
           NotDelivered \<Rightarrow>
             (fromServiceSpecificError ResponseCode_SYSTEM_ERROR, out_creationResult, dev1)
         | Delivered (errorCode, blob, characteristics) \<Rightarrow>
             (convertErrorCode errorCode,
              out_creationResult
                \<lparr> keyBlob := blob,
                  keyCharacteristics :=
                    convertKeyCharacteristicsFromLegacy env (m_securityLevel dev) characteristics \<rparr>,
              dev1))"

definition KeyMintDevice_upgradeKey ::
  "('lp, 'x, 'pk) collaborators \<Rightarrow> bytes \<Rightarrow> KeyParameter list \<Rightarrow> ('d, 'lp) KeyMintDevice \<Rightarrow>
     ScopedAStatus \<times> bytes option \<times> ('d, 'lp) KeyMintDevice" where
  "KeyMintDevice_upgradeKey env in_inKeyBlobToUpgrade in_inUpgradeParams dev =
     (let call = Call_upgradeKey in_inKeyBlobToUpgrade
                   (convertKeyParametersToLegacy env in_inUpgradeParams);
          dev1 = issue call dev
      in case km_upgradeKey env (halCalls dev) call of
           NotDelivered \<Rightarrow> (fromServiceSpecificError ResponseCode_SYSTEM_ERROR, None, dev1)
         | Delivered (errorCode, upgradedKeyBlob) \<Rightarrow>
             (convertErrorCode errorCode, Some upgradedKeyBlob, dev1))"

section \<open>The steps of certificate synthesis\<close>

text \<open>
  Names for stating what the steps of \<^verbatim>\<open>getCertificate\<close> do: the two backend calls it
  issues itself, the branch conditions it tests, the unsigned certificate
  \<^verbatim>\<open>makeCert\<close> builds from the exported key material, and the three calls of the
  signing callback with the arguments the callback gives them. \<^verbatim>\<open>getMaximum\<close> returns
  the first of its options, so the callback signs with RSA_PSS and SHA_2_256.
\<close>

definition attestKey_call :: "('lp, 'x, 'pk) collaborators \<Rightarrow> KeyParameter list \<Rightarrow> bytes \<Rightarrow> 'lp hal_call" where
  "attestKey_call env keyParams blob =
     Call_attestKey blob (convertKeyParametersToLegacy env keyParams)"

definition exportKey_call :: "KeyParameter list \<Rightarrow> bytes \<Rightarrow> 'lp hal_call" where
  "exportKey_call keyParams blob =
     Call_exportKey X509 blob
       (unwrapBlob (getParam keyParams TAG_APPLICATION_ID))
       (unwrapBlob (getParam keyParams TAG_APPLICATION_DATA))"

definition asymmetric :: "KeyParameter list \<Rightarrow> bool" where
  "asymmetric keyParams =
     (getParam keyParams TAG_ALGORITHM = Some RSA \<or> getParam keyParams TAG_ALGORITHM = Some EC)"

definition attestation_requested :: "KeyParameter list \<Rightarrow> bool" where
  "attestation_requested keyParams = containsParam keyParams TAG_ATTESTATION_CHALLENGE"

definition self_signing :: "KeyParameter list \<Rightarrow> bool" where
  "self_signing keyParams =
     (canSelfSign keyParams \<and> containsParam keyParams TAG_NO_AUTH_REQUIRED)"

definition unsigned_cert ::
  "('lp, 'x, 'pk) collaborators \<Rightarrow> KeyParameter list \<Rightarrow> bytes \<Rightarrow> CertUtilsError + 'x" where
  "unsigned_cert env keyParams keyMaterial =
     keystore_makeCert env (EVP_parse_public_key env keyMaterial) 42 ''TODO''
       (case getParam keyParams TAG_ACTIVE_DATETIME of Some date \<Rightarrow> date | None \<Rightarrow> 0)
       (case getParam keyParams TAG_USAGE_EXPIRE_DATETIME of Some date \<Rightarrow> date | None \<Rightarrow> - 1)"

definition sign_algo :: "KeyParameter list \<Rightarrow> Algo" where
  "sign_algo keyParams =
     (if getParam keyParams TAG_ALGORITHM = Some RSA then Algo_RSA else Algo_ECDSA)"

definition self_sign_begin ::
  "('lp, 'x, 'pk) collaborators \<Rightarrow> bytes \<Rightarrow> ('d, 'lp) KeyMintDevice \<Rightarrow>
     ScopedAStatus \<times> BeginResult option \<times> ('d, 'lp) KeyMintDevice" where
  "self_sign_begin env blob dev =
     KeyMintDevice_begin env SIGN blob
       [makeKeyParameter PADDING (V_paddingMode RSA_PSS),
        makeKeyParameter DIGEST (V_digest SHA_2_256)]
       HardwareAuthToken0 dev"

definition begun_operation ::
  "ScopedAStatus \<times> BeginResult option \<times> ('d, 'lp) KeyMintDevice \<Rightarrow> KeyMintOperation option" where
  "begun_operation b =
     (case fst (snd b) of None \<Rightarrow> None | Some beginResult \<Rightarrow> br_operation beginResult)"

definition self_sign_update ::
  "('lp, 'x, 'pk) collaborators \<Rightarrow> bytes \<Rightarrow> KeyMintOperation \<Rightarrow> ('d, 'lp) KeyMintDevice \<Rightarrow>
     ScopedAStatus \<times> (KeyParameter list \<times> bytes \<times> 32 word) option \<times>
       KeyMintOperation \<times> ('d, 'lp) KeyMintDevice" where
  "self_sign_update env dataVec oper dev =
     KeyMintOperation_update env None (Some dataVec) (Some HardwareAuthToken0)
       (Some VerificationToken0) oper dev"

text \<open>
  \<^verbatim>\<open>status\<close> after the update call of the callback: the consumed input when the
  backend's reply was delivered, the uninitialised content otherwise.
\<close>

definition self_sign_status ::
  "('lp, 'x, 'pk) collaborators \<Rightarrow>
     ScopedAStatus \<times> (KeyParameter list \<times> bytes \<times> 32 word) option \<times>
       KeyMintOperation \<times> ('d, 'lp) KeyMintDevice \<Rightarrow> 32 word" where
  "self_sign_status env u =
     (case fst (snd u) of Some (_, _, inputConsumed) \<Rightarrow> inputConsumed | None \<Rightarrow> uninit_status env)"

definition self_sign_finish ::
  "('lp, 'x, 'pk) collaborators \<Rightarrow> KeyMintOperation \<Rightarrow> ('d, 'lp) KeyMintDevice \<Rightarrow>
     ScopedAStatus \<times> (KeyParameter list \<times> bytes) option \<times>
       KeyMintOperation \<times> ('d, 'lp) KeyMintDevice" where
  "self_sign_finish env oper dev =
     KeyMintOperation_finish env None None None None None oper dev"

text \<open>
  The outcome of a key-creation request that has deleted the key it created: the status
  carries the code, the creation result is as the backend filled it, and
  \<^verbatim>\<open>deleteKey\<close> on the new blob is the last call the backend has seen.
\<close>

definition key_deleted ::
  "V4_0_ErrorCode \<Rightarrow> KeyCreationResult \<Rightarrow> ('d, 'lp) KeyMintDevice \<Rightarrow>
     ScopedAStatus \<times> KeyCreationResult \<times> ('d, 'lp) KeyMintDevice" where
  "key_deleted code out dev =
     (fromServiceSpecificError code, out, issue (Call_deleteKey (keyBlob out)) dev)"

text \<open>The calls \<^verbatim>\<open>update\<close> and \<^verbatim>\<open>finish\<close> issue on the backend.\<close>

definition update_call ::
  "('lp, 'x, 'pk) collaborators \<Rightarrow> KeyParameter list option \<Rightarrow> bytes option \<Rightarrow>
     HardwareAuthToken option \<Rightarrow> VerificationToken option \<Rightarrow> KeyMintOperation \<Rightarrow> 'lp hal_call" where
  "update_call env in_inParams in_input in_inAuthToken in_inVerificationToken oper =
     Call_update (mOperationHandle oper)
       (case in_inParams of Some ps \<Rightarrow> convertKeyParametersToLegacy env ps | None \<Rightarrow> [])
       (case in_input of Some i \<Rightarrow> i | None \<Rightarrow> [])
       (case in_inAuthToken of Some t \<Rightarrow> convertAuthTokenToLegacy t
        | None \<Rightarrow> uninit_authToken env)
       (case in_inVerificationToken of Some t \<Rightarrow> convertVerificationTokenToLegacy t
        | None \<Rightarrow> uninit_verificationToken env)"

definition finish_call ::
  "('lp, 'x, 'pk) collaborators \<Rightarrow> KeyParameter list option \<Rightarrow> bytes option \<Rightarrow> bytes option \<Rightarrow>
     HardwareAuthToken option \<Rightarrow> VerificationToken option \<Rightarrow> KeyMintOperation \<Rightarrow> 'lp hal_call" where
  "finish_call env in_inParams in_input in_inSignature in_authToken in_inVerificationToken oper =
     Call_finish (mOperationHandle oper)
       (case in_inParams of Some ps \<Rightarrow> convertKeyParametersToLegacy env ps | None \<Rightarrow> [])
       (case in_input of Some i \<Rightarrow> i | None \<Rightarrow> [])
       (case in_inSignature of Some s \<Rightarrow> s | None \<Rightarrow> [])
       (case in_authToken of Some t \<Rightarrow> convertAuthTokenToLegacy t
        | None \<Rightarrow> uninit_authToken env)
       (case in_inVerificationToken of Some t \<Rightarrow> convertVerificationTokenToLegacy t
        | None \<Rightarrow> uninit_verificationToken env)"

definition begin_call ::
  "('lp, 'x, 'pk) collaborators \<Rightarrow> KeyPurpose \<Rightarrow> bytes \<Rightarrow> KeyParameter list \<Rightarrow>
     HardwareAuthToken \<Rightarrow> 'lp hal_call" where
  "begin_call env in_inPurpose in_inKeyBlob in_inParams in_inAuthToken =
     Call_begin in_inPurpose in_inKeyBlob (convertKeyParametersToLegacy env in_inParams)
       (convertAuthTokenToLegacy in_inAuthToken)"

section \<open>Backend discovery and the device cache\<close>

text \<open>
  \<^verbatim>\<open>KeymasterDevices\<close> is an array of three nullable device pointers indexed by security
  level: a map whose keys are below 3. What the service manager lists and hands out for
  one wrapper (\<^verbatim>\<open>Keymaster4\<close> or \<^verbatim>\<open>Keymaster3\<close>) is a parameter. A failed
  \<^verbatim>\<open>CHECK\<close> ends the process: \<open>None\<close>.
\<close>

type_synonym 'd KeymasterDevices = "SecurityLevel \<Rightarrow> 'd option"

record 'd hal_services =
  listManifestByInterface :: "string list hidl_return"
  getService :: "string \<Rightarrow> 'd option"
  halVersion_securityLevel :: "'d \<Rightarrow> nat"

record 'd service_manager =
  IServiceManager_getService :: bool
  Keymaster4_services :: "'d hal_services"
  Keymaster3_services :: "'d hal_services"

definition try_get_device ::
  "'d hal_services \<Rightarrow> string \<Rightarrow> bool \<Rightarrow> 'd KeymasterDevices \<Rightarrow> 'd KeymasterDevices option" where
  "try_get_device hal name fail_silent result =
     (case getService hal name of
        None \<Rightarrow> if fail_silent then Some result else None
      | Some kmDevice \<Rightarrow>
          (let securityLevel = halVersion_securityLevel hal kmDevice
           in if \<not> securityLevel < 3 then None
              else if result securityLevel \<noteq> None then Some result
              else Some (result(securityLevel \<mapsto> kmDevice))))"

fun try_get_devices ::
  "'d hal_services \<Rightarrow> string list \<Rightarrow> 'd KeymasterDevices \<Rightarrow> 'd KeymasterDevices option" where
  "try_get_devices hal [] result = Some result"
| "try_get_devices hal (n # names) result =
     (case try_get_device hal n False result of
        None \<Rightarrow> None
      | Some result1 \<Rightarrow> try_get_devices hal names result1)"

definition enumerateKeymasterDevices :: "'d hal_services \<Rightarrow> 'd KeymasterDevices option" where
  "enumerateKeymasterDevices hal =
     (case listManifestByInterface hal of
        NotDelivered \<Rightarrow> Some (\<lambda>_. None)
      | Delivered names \<Rightarrow>
          (case try_get_devices hal names (\<lambda>_. None) of
             None \<Rightarrow> None
           | Some result \<Rightarrow>
               if ''default'' \<notin> set names then try_get_device hal ''default'' True result
               else Some result))"

definition initializeKeymasters :: "'d service_manager \<Rightarrow> 'd KeymasterDevices option" where
  "initializeKeymasters sm =
     (if \<not> IServiceManager_getService sm then None
      else
        (case enumerateKeymasterDevices (Keymaster4_services sm) of
           None \<Rightarrow> None
         | Some result4 \<Rightarrow>
             (let softKeymaster = result4 SOFTWARE
              in case (if result4 TRUSTED_ENVIRONMENT = None
                       then enumerateKeymasterDevices (Keymaster3_services sm)
                       else Some result4) of
                   None \<Rightarrow> None
                 | Some result \<Rightarrow>
                     (let result1 = (if softKeymaster \<noteq> None
                                     then result(SOFTWARE := softKeymaster) else result)
                      in if result1 SOFTWARE \<noteq> None \<and> result1 TRUSTED_ENVIRONMENT = None
                         then Some (result1(TRUSTED_ENVIRONMENT := result1 SOFTWARE, SOFTWARE := None))
                         else Some result1))))"

text \<open>
  The constructor sets the backend and the number of slots; \<^verbatim>\<open>securityLevel_\<close> is left
  for \<^verbatim>\<open>getHardwareInfo\<close>.
\<close>

definition KeyMintDevice_new :: "'d \<Rightarrow> SecurityLevel \<Rightarrow> ('d, 'lp) KeyMintDevice" where
  "KeyMintDevice_new device securityLevel =
     \<lparr> mDevice = device,
       halCalls = [],
       mOperationSlots =
         (if securityLevel = STRONGBOX then setNumFreeSlots 3 \<lparr> mNumFreeSlots = 0 \<rparr>
          else setNumFreeSlots 15 \<lparr> mNumFreeSlots = 0 \<rparr>),
       m_securityLevel = None \<rparr>"

text \<open>
  \<^verbatim>\<open>createKeyMintDevice\<close> keeps its result in the function-local static
  \<^verbatim>\<open>device_ptr\<close>, passed in and returned (second component) here. Shared pointers are the devices they point
  to. \<^verbatim>\<open>devices[secLevel]\<close> is \<^verbatim>\<open>std::array::at\<close>, which throws beyond the array:
  \<open>None\<close>, as for a failed \<^verbatim>\<open>CHECK\<close>.
\<close>

definition createKeyMintDevice ::
  "'d service_manager \<Rightarrow> SecurityLevel \<Rightarrow> ('d, 'lp) KeyMintDevice option \<Rightarrow>
     (('d, 'lp) KeyMintDevice option \<times> ('d, 'lp) KeyMintDevice option) option" where
  "createKeyMintDevice sm securityLevel device_ptr =
     (case device_ptr of
        Some d \<Rightarrow> Some (device_ptr, device_ptr)
      | None \<Rightarrow>
          (case initializeKeymasters sm of
             None \<Rightarrow> None
           | Some devices \<Rightarrow>
               if \<not> securityLevel < 3 then None
               else (case devices securityLevel of
                       None \<Rightarrow> Some (None, None)
                     | Some device \<Rightarrow>
                         (let made = Some (KeyMintDevice_new device securityLevel)
                          in Some (made, made)))))"

record ('d, 'lp) KeystoreCompatService =
  mDeviceCache :: "SecurityLevel \<Rightarrow> ('d, 'lp) KeyMintDevice option"

text \<open>
  \<^verbatim>\<open>getKeyMintDevice\<close> works on the service's own cache and, through
  \<^verbatim>\<open>createKeyMintDevice\<close>, on the static \<^verbatim>\<open>device_ptr\<close> of the process.
\<close>

definition getKeyMintDevice ::
  "'d service_manager \<Rightarrow> SecurityLevel \<Rightarrow>
     ('d, 'lp) KeystoreCompatService \<times> ('d, 'lp) KeyMintDevice option \<Rightarrow>
     (ScopedAStatus \<times> ('d, 'lp) KeyMintDevice option \<times>
        ('d, 'lp) KeystoreCompatService \<times> ('d, 'lp) KeyMintDevice option) option" where
  "getKeyMintDevice sm in_securityLevel st =
     (let svc = fst st; device_ptr = snd st
      in if mDeviceCache svc in_securityLevel = None then
           (case createKeyMintDevice sm in_securityLevel device_ptr of
              None \<Rightarrow> None
            | Some (None, ptr) \<Rightarrow> Some (fromStatus STATUS_NAME_NOT_FOUND, None, svc, ptr)
            | Some (Some device, ptr) \<Rightarrow>
                Some (Status_ok, Some device,
                      svc\<lparr>mDeviceCache := (mDeviceCache svc)(in_securityLevel \<mapsto> device)\<rparr>, ptr))
         else Some (Status_ok, mDeviceCache svc in_securityLevel, svc, device_ptr))"

text \<open>
  Requests for the devices of several levels, one after the other, with the devices
  they return.
\<close>

fun request_devices ::
  "'d service_manager \<Rightarrow> SecurityLevel list \<Rightarrow>
     ('d, 'lp) KeystoreCompatService \<times> ('d, 'lp) KeyMintDevice option \<Rightarrow>
     ('d, 'lp) KeyMintDevice option list option" where
  "request_devices sm [] st = Some []"
| "request_devices sm (level # levels) st =
     (case getKeyMintDevice sm level st of
        None \<Rightarrow> None
      | Some r \<Rightarrow>
          (case request_devices sm levels (snd (snd r)) of
             None \<Rightarrow> None
           | Some ds \<Rightarrow> Some (fst (snd r) # ds)))"

section \<open>A sample backend\<close>

text \<open>
  A backend and helper library that succeed at everything, the identity as parameter
  translation, and byte strings as certificates and keys: the concrete inputs at which
  the theorems below are instantiated. Variants of it fail one call.
\<close>

definition sample_env :: "(KeyParameter, bytes, bytes) collaborators" where
  "sample_env =
     \<lparr> convertKeyParameterToLegacy = (\<lambda>kp. kp),
       convertKeyParameterFromLegacy = (\<lambda>kp. kp),
       km_getHardwareInfo = (\<lambda>_ _. Delivered (TRUSTED_ENVIRONMENT, ''keymaster'', ''vendor'')),
       km_addRngEntropy = (\<lambda>_ _. ErrorCode_OK),
       km_generateKey =
         (\<lambda>_ _. Delivered (ErrorCode_OK, [1], \<lparr> softwareEnforced = [], hardwareEnforced = [] \<rparr>)),
       km_importKey =
         (\<lambda>_ _. Delivered (ErrorCode_OK, [2], \<lparr> softwareEnforced = [], hardwareEnforced = [] \<rparr>)),
       km_importWrappedKey =
         (\<lambda>_ _. Delivered (ErrorCode_OK, [3], \<lparr> softwareEnforced = [], hardwareEnforced = [] \<rparr>)),
       km_upgradeKey = (\<lambda>_ _. Delivered (ErrorCode_OK, [4])),
       km_deleteKey = (\<lambda>_ _. ErrorCode_OK),
       km_deleteAllKeys = (\<lambda>_ _. ErrorCode_OK),
       km_exportKey = (\<lambda>_ _. Delivered (ErrorCode_OK, [5])),
       km_attestKey = (\<lambda>_ _. Delivered (ErrorCode_OK, [[6], [7]])),
       km_begin = (\<lambda>_ _. Delivered (ErrorCode_OK, [], 9)),
       km_update = (\<lambda>_ _. Delivered (ErrorCode_OK, 1, [], [])),
       km_finish = (\<lambda>_ _. Delivered (ErrorCode_OK, [], [8])),
       km_abort = (\<lambda>_ _. ErrorCode_OK),
       EVP_parse_public_key = (\<lambda>key. key),
       keystore_makeCert = (\<lambda>pkey _ _ _ _. Inr pkey),
       keystore_setIssuer = (\<lambda>cert _ _. Inr cert),
       signCertWith_before = (\<lambda>cert _ _ _. Inr cert),
       signCertWith_after = (\<lambda>cert signature. if signature = [] then Inl 1 else Inr (cert @ signature)),
       EVP_PKEY_keygen = [],
       keystore_signCert = (\<lambda>cert _. Inr cert),
       keystore_encodeCert = (\<lambda>cert. Inr cert),
       uninit_authToken = convertAuthTokenToLegacy HardwareAuthToken0,
       uninit_verificationToken = convertVerificationTokenToLegacy VerificationToken0,
       uninit_status = 0 \<rparr>"

definition sample_device :: "8 word \<Rightarrow> (unit, KeyParameter) KeyMintDevice" where
  "sample_device n =
     \<lparr> mDevice = (), halCalls = [], mOperationSlots = \<lparr> mNumFreeSlots = n \<rparr>,
       m_securityLevel = None \<rparr>"

definition empty_result :: KeyCreationResult where
  "empty_result = \<lparr> keyBlob = [], keyCharacteristics = [], certificateChain = [] \<rparr>"

definition algorithm_param :: "Algorithm \<Rightarrow> KeyParameter" where
  "algorithm_param a = makeKeyParameter ALGORITHM (V_algorithm a)"

text \<open>
  A service manager that lists a trusted-execution and an isolated-hardware instance
  of the newer protocol, and one that knows a software-only instance alone.
\<close>

definition two_tier_manager :: "string service_manager" where
  "two_tier_manager =
     \<lparr> IServiceManager_getService = True,
       Keymaster4_services =
         \<lparr> listManifestByInterface = Delivered [''default'', ''strongbox''],
           getService = (\<lambda>name. if name = ''default'' \<or> name = ''strongbox'' then Some name else None),
           halVersion_securityLevel =
             (\<lambda>d. if d = ''strongbox'' then STRONGBOX else TRUSTED_ENVIRONMENT) \<rparr>,
       Keymaster3_services =
         \<lparr> listManifestByInterface = Delivered [],
           getService = (\<lambda>name. None),
           halVersion_securityLevel = (\<lambda>d. SOFTWARE) \<rparr> \<rparr>"

definition software_only_manager :: "string service_manager" where
  "software_only_manager =
     \<lparr> IServiceManager_getService = True,
       Keymaster4_services =
         \<lparr> listManifestByInterface = Delivered [],
           getService = (\<lambda>name. None),
           halVersion_securityLevel = (\<lambda>d. SOFTWARE) \<rparr>,
       Keymaster3_services =
         \<lparr> listManifestByInterface = Delivered [''default''],
           getService = (\<lambda>name. if name = ''default'' then Some ''soft'' else None),
           halVersion_securityLevel = (\<lambda>d. SOFTWARE) \<rparr> \<rparr>"

text \<open>The sample backend with every callback call undeliverable.\<close>

definition unreachable_env :: "(KeyParameter, bytes, bytes) collaborators" where
  "unreachable_env =
     sample_env
       \<lparr> km_getHardwareInfo := (\<lambda>_ _. NotDelivered),
         km_generateKey := (\<lambda>_ _. NotDelivered),
         km_importKey := (\<lambda>_ _. NotDelivered),
         km_importWrappedKey := (\<lambda>_ _. NotDelivered),
         km_upgradeKey := (\<lambda>_ _. NotDelivered),
         km_exportKey := (\<lambda>_ _. NotDelivered),
         km_attestKey := (\<lambda>_ _. NotDelivered),
         km_begin := (\<lambda>_ _. NotDelivered),
         km_update := (\<lambda>_ _. NotDelivered),
         km_finish := (\<lambda>_ _. NotDelivered) \<rparr>"

text \<open>
  Parameters of an RSA key that may sign without authentication, and of an RSA key
  for which attestation is requested.
\<close>

definition self_signing_params :: "KeyParameter list" where
  "self_signing_params =
     [algorithm_param RSA, makeKeyParameter PURPOSE (V_keyPurpose SIGN),
      makeKeyParameter NO_AUTH_REQUIRED (V_boolValue True)]"

definition attested_params :: "KeyParameter list" where
  "attested_params =
     [algorithm_param RSA, makeKeyParameter ATTESTATION_CHALLENGE (V_blob [1])]"

text \<open>The creation result and the device once the sample backend has generated a key.\<close>

definition generated_result :: KeyCreationResult where
  "generated_result =
     empty_result
       \<lparr> keyBlob := [1],
         keyCharacteristics := [\<lparr> kc_securityLevel = None, authorizations = [] \<rparr>] \<rparr>"

definition generated_device :: "KeyParameter list \<Rightarrow> (unit, KeyParameter) KeyMintDevice" where
  "generated_device keyParams = issue (Call_generateKey keyParams) (sample_device 15)"

section \<open>Operation sessions and their slot\<close>

lemma OperationSlot_freeSlot_cases:
  "OperationSlot_freeSlot (slot, pool) =
     (if mIsActive slot then (slot\<lparr>mIsActive := False\<rparr>, pool\<lparr>mNumFreeSlots := mNumFreeSlots pool + 1\<rparr>)
      else (slot, pool))"
  by (simp add: OperationSlot_freeSlot_def freeSlot_def)

lemma op_freeSlot_active:
  "mIsActive (mOperationSlot (fst (op_freeSlot oper dev))) = False"
  by (simp add: op_freeSlot_def OperationSlot_freeSlot_def)

lemma op_freeSlot_count:
  "mNumFreeSlots (mOperationSlots (snd (op_freeSlot oper dev))) =
     (if mIsActive (mOperationSlot oper) then mNumFreeSlots (mOperationSlots dev) + 1
      else mNumFreeSlots (mOperationSlots dev))"
  by (simp add: op_freeSlot_def OperationSlot_freeSlot_def freeSlot_def)

lemma op_freeSlot_calls:
  "halCalls (snd (op_freeSlot oper dev)) = halCalls dev"
  by (simp add: op_freeSlot_def Let_def)

lemma issue_slots: "mOperationSlots (issue c dev) = mOperationSlots dev"
  by (simp add: issue_def)

lemma update_inv: "slot_inv (oper, dev) (snd (snd (KeyMintOperation_update env p i a v oper dev)))"
  by (simp add: slot_inv_def KeyMintOperation_update_def Let_def op_freeSlot_active op_freeSlot_count issue_slots
      split: hidl_return.splits prod.splits)

lemma finish_inv: "slot_inv (oper, dev) (snd (snd (KeyMintOperation_finish env p i s a v oper dev)))"
  by (simp add: slot_inv_def KeyMintOperation_finish_def Let_def op_freeSlot_active op_freeSlot_count issue_slots
      split: hidl_return.splits prod.splits)

lemma abort_inv: "slot_inv (oper, dev) (snd (KeyMintOperation_abort env oper dev))"
  by (simp add: slot_inv_def KeyMintOperation_abort_def Let_def op_freeSlot_active op_freeSlot_count issue_slots)

lemma destructor_inv: "slot_inv (oper, dev) (KeyMintOperation_destructor env oper dev)"
  using abort_inv [of oper dev env]
  by (simp add: KeyMintOperation_destructor_def hasSlot_def Let_def) (simp add: slot_inv_def)

lemma step_inv: "slot_inv st (session_step env c st)"
  by (cases st; cases c) (simp_all add: update_inv finish_inv abort_inv destructor_inv)

lemma terminal_inactive:
  "is_terminal c \<Longrightarrow> \<not> mIsActive (mOperationSlot (fst (session_step env c st)))"
  by (cases st; cases c)
     (simp_all add: KeyMintOperation_finish_def KeyMintOperation_abort_def
        KeyMintOperation_destructor_def hasSlot_def Let_def op_freeSlot_active
        split: hidl_return.splits prod.splits)


lemma step_releases_eq:
  "step_releases env c st =
     (if mIsActive (mOperationSlot (fst st)) \<and>
         \<not> mIsActive (mOperationSlot (fst (session_step env c st))) then 1 else 0)"
  using step_inv [of st env c] by (simp add: step_releases_def slot_inv_def)

lemma run_inactive:
  "\<not> mIsActive (mOperationSlot (fst st)) \<Longrightarrow>
   \<not> mIsActive (mOperationSlot (fst (session_run env cs st)))"
proof (induction cs arbitrary: st)
  case Nil
  then show ?case by simp
next
  case (Cons c cs)
  from Cons.prems step_inv [of st env c]
  have "\<not> mIsActive (mOperationSlot (fst (session_step env c st)))"
    by (simp add: slot_inv_def)
  then show ?case using Cons.IH by simp
qed

lemma run_terminal_inactive:
  "\<exists>c \<in> set cs. is_terminal c \<Longrightarrow>
   \<not> mIsActive (mOperationSlot (fst (session_run env cs st)))"
proof (induction cs arbitrary: st)
  case Nil
  then show ?case by simp
next
  case (Cons c cs)
  show ?case
  proof (cases "is_terminal c")
    case True
    then show ?thesis using terminal_inactive run_inactive by (metis session_run.simps(2))
  next
    case False
    with Cons.prems have "\<exists>c \<in> set cs. is_terminal c" by simp
    then show ?thesis using Cons.IH by simp
  qed
qed

lemma session_releases_eq:
  "session_releases env cs st =
     (if mIsActive (mOperationSlot (fst st)) \<and>
         \<not> mIsActive (mOperationSlot (fst (session_run env cs st))) then 1 else 0)"
proof (induction cs arbitrary: st)
  case Nil
  then show ?case by simp
next
  case (Cons c cs)
  show ?case
    using Cons.IH [of "session_step env c st"] step_inv [of st env c]
      run_inactive [of "session_step env c st" env cs]
    by (auto simp: step_releases_eq slot_inv_def)
qed

lemma session_run_count:
  "mNumFreeSlots (mOperationSlots (snd (session_run env cs st))) =
     mNumFreeSlots (mOperationSlots (snd st)) + of_nat (session_releases env cs st)"
proof (induction cs arbitrary: st)
  case Nil
  then show ?case by simp
next
  case (Cons c cs)
  show ?case
    using Cons.IH [of "session_step env c st"] step_inv [of st env c]
    by (auto simp: step_releases_eq slot_inv_def)
qed

lemma begin_ok:
  assumes "KeyMintDevice_begin env purpose blob params authToken dev = (Status_ok, Some br, dev1)"
    and "br_operation br = Some oper"
  shows "mNumFreeSlots (mOperationSlots dev) \<noteq> 0"
    and "mNumFreeSlots (mOperationSlots dev1) = mNumFreeSlots (mOperationSlots dev) - 1"
    and "mIsActive (mOperationSlot oper)"
  using assms
  by (auto simp: KeyMintDevice_begin_def claimSlot_def Let_def issue_def convertErrorCode_def
      word_greater_zero_iff split: if_splits hidl_return.splits prod.splits)

text \<open>
  Claim C1. A session that a successful \<^verbatim>\<open>begin\<close> created holds one slot: the pool's
  counter is one below its value before \<^verbatim>\<open>begin\<close>. Over any sequence of update,
  finish, abort and destructor calls that contains a finish, an abort or the destructor,
  the pool's \<^verbatim>\<open>freeSlot\<close> runs exactly once: the counter ends at its value before
  \<^verbatim>\<open>begin\<close>, the session ends inactive, whatever calls follow release nothing more,
  and \<^verbatim>\<open>OperationSlot::freeSlot\<close> is idempotent.
\<close>

theorem session_slot_released_exactly_once:
  assumes "KeyMintDevice_begin env purpose blob params authToken dev = (st, Some br, dev1)"
    and "isOk st"
    and "br_operation br = Some oper"
    and "\<exists>c \<in> set cs. is_terminal c"
  shows "unat (mNumFreeSlots (mOperationSlots dev1)) + 1 = unat (mNumFreeSlots (mOperationSlots dev)) \<and>
         session_releases env cs (oper, dev1) = 1 \<and>
         mNumFreeSlots (mOperationSlots (snd (session_run env cs (oper, dev1)))) =
           mNumFreeSlots (mOperationSlots dev) \<and>
         \<not> mIsActive (mOperationSlot (fst (session_run env cs (oper, dev1)))) \<and>
         (\<forall>more. session_releases env (cs @ more) (oper, dev1) = 1) \<and>
         (\<forall>sp. OperationSlot_freeSlot (OperationSlot_freeSlot sp) = OperationSlot_freeSlot sp)"
proof -
  from assms(1,2) have ok: "KeyMintDevice_begin env purpose blob params authToken dev = (Status_ok, Some br, dev1)"
    by (cases st) simp_all
  note b = begin_ok [OF ok assms(3)]
  have fin: "\<not> mIsActive (mOperationSlot (fst (session_run env cs (oper, dev1))))"
    by (rule run_terminal_inactive [OF assms(4)])
  have rel: "session_releases env cs (oper, dev1) = 1"
    using fin b(3) by (simp add: session_releases_eq)
  have cnt: "mNumFreeSlots (mOperationSlots (snd (session_run env cs (oper, dev1)))) =
      mNumFreeSlots (mOperationSlots dev)"
    using session_run_count [of env cs "(oper, dev1)"] rel b(2) by simp
  have more: "session_releases env (cs @ more) (oper, dev1) = 1" for more
  proof -
    from assms(4) have "\<exists>c \<in> set (cs @ more). is_terminal c" by auto
    from run_terminal_inactive [OF this] b(3) show ?thesis
      by (simp add: session_releases_eq)
  qed
  have u: "unat (mNumFreeSlots (mOperationSlots dev1)) + 1 = unat (mNumFreeSlots (mOperationSlots dev))"
    using b(1,2) unat_gt_0 [of "mNumFreeSlots (mOperationSlots dev)"]
    by (simp add: unat_minus_one)
  have idem: "OperationSlot_freeSlot (OperationSlot_freeSlot sp) = OperationSlot_freeSlot sp" for sp
    by (simp add: OperationSlot_freeSlot_def)
  from u rel cnt fin more idem show ?thesis by blast
qed

lemma sample_begin:
  "KeyMintDevice_begin sample_env SIGN [1] [] HardwareAuthToken0 (sample_device 3) =
     (Status_ok,
      Some \<lparr> br_challenge = 9, br_params = [],
             br_operation = Some \<lparr> mOperationHandle = 9, mOperationSlot = \<lparr> mIsActive = True \<rparr> \<rparr> \<rparr>,
      (sample_device 2)
        \<lparr> halCalls := [Call_begin SIGN [1] [] (convertAuthTokenToLegacy HardwareAuthToken0)] \<rparr>)"
  by (simp add: KeyMintDevice_begin_def sample_env_def sample_device_def claimSlot_def issue_def
      convertErrorCode_def convertKeyParametersToLegacy_def convertKeyParametersFromLegacy_def Let_def)

theorem session_slot_released_exactly_once_witness:
  "isOk (fst (KeyMintDevice_begin sample_env SIGN [1] [] HardwareAuthToken0 (sample_device 3))) \<and>
   session_releases sample_env
     [Session_update None (Some [1]) None None, Session_finish None None None None None,
      Session_abort, Session_destroy]
     (\<lparr> mOperationHandle = 9, mOperationSlot = \<lparr> mIsActive = True \<rparr> \<rparr>,
      (sample_device 2)
        \<lparr> halCalls := [Call_begin SIGN [1] [] (convertAuthTokenToLegacy HardwareAuthToken0)] \<rparr>) = 1 \<and>
   mNumFreeSlots (mOperationSlots (snd (session_run sample_env
     [Session_update None (Some [1]) None None, Session_finish None None None None None,
      Session_abort, Session_destroy]
     (\<lparr> mOperationHandle = 9, mOperationSlot = \<lparr> mIsActive = True \<rparr> \<rparr>,
      (sample_device 2)
        \<lparr> halCalls := [Call_begin SIGN [1] [] (convertAuthTokenToLegacy HardwareAuthToken0)] \<rparr>)))) = 3"
proof -
  have t: "\<exists>c \<in> set [Session_update None (Some [1]) None None,
      Session_finish None None None None None, Session_abort, Session_destroy]. is_terminal c"
    by simp
  have ok: "isOk Status_ok" by simp
  have o: "br_operation \<lparr> br_challenge = 9, br_params = [],
      br_operation = Some \<lparr> mOperationHandle = 9, mOperationSlot = \<lparr> mIsActive = True \<rparr> \<rparr> \<rparr> =
      Some \<lparr> mOperationHandle = 9, mOperationSlot = \<lparr> mIsActive = True \<rparr> \<rparr>"
    by simp
  have three: "mNumFreeSlots (mOperationSlots (sample_device 3 :: (unit, KeyParameter) KeyMintDevice)) = 3"
    by (simp add: sample_device_def)
  from session_slot_released_exactly_once [OF sample_begin ok o t]
  show ?thesis by (simp add: sample_begin three del: session_run.simps session_releases.simps)
qed

section \<open>Update\<close>

lemma op_freeSlot_held:
  "mIsActive (mOperationSlot oper) \<Longrightarrow>
   op_freeSlot oper dev =
     (oper\<lparr>mOperationSlot := (mOperationSlot oper)\<lparr>mIsActive := False\<rparr>\<rparr>,
      dev\<lparr>mOperationSlots := freeSlot (mOperationSlots dev)\<rparr>)"
  by (simp add: op_freeSlot_def OperationSlot_freeSlot_def Let_def)

text \<open>
  Claim C7. On an active session, \<^verbatim>\<open>update\<close> issues exactly one backend call,
  \<open>update_call\<close>, and its outcome follows the backend's reply to that call. When the
  call is not delivered the status is SYSTEM_ERROR, when the reply carries a code other
  than OK the status carries that code; in both cases the session is inactive afterwards
  and the pool has one slot more. When the reply carries the code OK the status is ok,
  the session stays active and the pool is unchanged.
\<close>

theorem update_failure_releases_slot:
  fixes env :: "('lp, 'x, 'pk) collaborators"
    and dev :: "('d, 'lp) KeyMintDevice"
    and p i a v oper r oper' dev'
  defines "r \<equiv> KeyMintOperation_update env p i a v oper dev"
    and "oper' \<equiv> fst (snd (snd r))"
    and "dev' \<equiv> snd (snd (snd r))"
  assumes "mIsActive (mOperationSlot oper)"
  shows "halCalls dev' = halCalls dev @ [update_call env p i a v oper] \<and>
         (case km_update env (halCalls dev) (update_call env p i a v oper) of
            NotDelivered \<Rightarrow>
              fst r = fromServiceSpecificError ResponseCode_SYSTEM_ERROR \<and>
              \<not> mIsActive (mOperationSlot oper') \<and>
              mNumFreeSlots (mOperationSlots dev') = mNumFreeSlots (mOperationSlots dev) + 1
          | Delivered (errorCode, inputConsumed, outParams, output) \<Rightarrow>
              if errorCode = ErrorCode_OK
              then fst r = Status_ok \<and>
                   mIsActive (mOperationSlot oper') \<and>
                   mNumFreeSlots (mOperationSlots dev') = mNumFreeSlots (mOperationSlots dev)
              else fst r = fromServiceSpecificError errorCode \<and>
                   \<not> isOk (fst r) \<and>
                   \<not> mIsActive (mOperationSlot oper') \<and>
                   mNumFreeSlots (mOperationSlots dev') =
                     mNumFreeSlots (mOperationSlots dev) + 1)"
  using assms
  by (auto simp: update_call_def KeyMintOperation_update_def Let_def op_freeSlot_held freeSlot_def
      issue_def convertErrorCode_def
      split: hidl_return.splits prod.splits if_splits)

theorem update_failure_releases_slot_witness:
  "fst (KeyMintOperation_update (sample_env\<lparr>km_update := \<lambda>_ _. NotDelivered\<rparr>)
          None (Some [1]) None None
          \<lparr> mOperationHandle = 9, mOperationSlot = \<lparr> mIsActive = True \<rparr> \<rparr> (sample_device 2)) =
     fromServiceSpecificError ResponseCode_SYSTEM_ERROR \<and>
   \<not> mIsActive (mOperationSlot (fst (snd (snd
     (KeyMintOperation_update (sample_env\<lparr>km_update := \<lambda>_ _. NotDelivered\<rparr>)
        None (Some [1]) None None
        \<lparr> mOperationHandle = 9, mOperationSlot = \<lparr> mIsActive = True \<rparr> \<rparr> (sample_device 2)))))) \<and>
   mNumFreeSlots (mOperationSlots (snd (snd (snd
     (KeyMintOperation_update (sample_env\<lparr>km_update := \<lambda>_ _. NotDelivered\<rparr>)
        None (Some [1]) None None
        \<lparr> mOperationHandle = 9, mOperationSlot = \<lparr> mIsActive = True \<rparr> \<rparr> (sample_device 2)))))) = 3 \<and>
   fst (KeyMintOperation_update
          (sample_env\<lparr>km_update := \<lambda>_ _. Delivered (ErrorCode_INVALID_KEY_BLOB, 0, [], [])\<rparr>)
          None (Some [1]) None None
          \<lparr> mOperationHandle = 9, mOperationSlot = \<lparr> mIsActive = True \<rparr> \<rparr> (sample_device 2)) =
     fromServiceSpecificError ErrorCode_INVALID_KEY_BLOB \<and>
   \<not> mIsActive (mOperationSlot (fst (snd (snd
     (KeyMintOperation_update
        (sample_env\<lparr>km_update := \<lambda>_ _. Delivered (ErrorCode_INVALID_KEY_BLOB, 0, [], [])\<rparr>)
        None (Some [1]) None None
        \<lparr> mOperationHandle = 9, mOperationSlot = \<lparr> mIsActive = True \<rparr> \<rparr> (sample_device 2)))))) \<and>
   mNumFreeSlots (mOperationSlots (snd (snd (snd
     (KeyMintOperation_update
        (sample_env\<lparr>km_update := \<lambda>_ _. Delivered (ErrorCode_INVALID_KEY_BLOB, 0, [], [])\<rparr>)
        None (Some [1]) None None
        \<lparr> mOperationHandle = 9, mOperationSlot = \<lparr> mIsActive = True \<rparr> \<rparr> (sample_device 2)))))) = 3 \<and>
   fst (KeyMintOperation_update sample_env None (Some [1]) None None
          \<lparr> mOperationHandle = 9, mOperationSlot = \<lparr> mIsActive = True \<rparr> \<rparr> (sample_device 2)) =
     Status_ok \<and>
   mIsActive (mOperationSlot (fst (snd (snd
     (KeyMintOperation_update sample_env None (Some [1]) None None
        \<lparr> mOperationHandle = 9, mOperationSlot = \<lparr> mIsActive = True \<rparr> \<rparr> (sample_device 2)))))) \<and>
   mNumFreeSlots (mOperationSlots (snd (snd (snd
     (KeyMintOperation_update sample_env None (Some [1]) None None
        \<lparr> mOperationHandle = 9, mOperationSlot = \<lparr> mIsActive = True \<rparr> \<rparr> (sample_device 2)))))) = 2 \<and>
   halCalls (snd (snd (snd
     (KeyMintOperation_update sample_env None (Some [1]) None None
        \<lparr> mOperationHandle = 9, mOperationSlot = \<lparr> mIsActive = True \<rparr> \<rparr> (sample_device 2))))) =
     [update_call sample_env None (Some [1]) None None
        \<lparr> mOperationHandle = 9, mOperationSlot = \<lparr> mIsActive = True \<rparr> \<rparr>]"
proof -
  have undelivered:
    "fst (KeyMintOperation_update (sample_env\<lparr>km_update := \<lambda>_ _. NotDelivered\<rparr>)
            None (Some [1]) None None
            \<lparr> mOperationHandle = 9, mOperationSlot = \<lparr> mIsActive = True \<rparr> \<rparr> (sample_device 2)) =
       fromServiceSpecificError ResponseCode_SYSTEM_ERROR"
    "\<not> mIsActive (mOperationSlot (fst (snd (snd
       (KeyMintOperation_update (sample_env\<lparr>km_update := \<lambda>_ _. NotDelivered\<rparr>)
          None (Some [1]) None None
          \<lparr> mOperationHandle = 9, mOperationSlot = \<lparr> mIsActive = True \<rparr> \<rparr> (sample_device 2))))))"
    "mNumFreeSlots (mOperationSlots (snd (snd (snd
       (KeyMintOperation_update (sample_env\<lparr>km_update := \<lambda>_ _. NotDelivered\<rparr>)
          None (Some [1]) None None
          \<lparr> mOperationHandle = 9, mOperationSlot = \<lparr> mIsActive = True \<rparr> \<rparr> (sample_device 2)))))) = 3"
    using update_failure_releases_slot [where env = "sample_env\<lparr>km_update := \<lambda>_ _. NotDelivered\<rparr>"
        and p = None and i = "Some [1]" and a = None and v = None
        and oper = "\<lparr> mOperationHandle = 9, mOperationSlot = \<lparr> mIsActive = True \<rparr> \<rparr>"
        and dev = "sample_device 2"]
    by (simp_all add: sample_device_def)
  have refused:
    "fst (KeyMintOperation_update
            (sample_env\<lparr>km_update := \<lambda>_ _. Delivered (ErrorCode_INVALID_KEY_BLOB, 0, [], [])\<rparr>)
            None (Some [1]) None None
            \<lparr> mOperationHandle = 9, mOperationSlot = \<lparr> mIsActive = True \<rparr> \<rparr> (sample_device 2)) =
       fromServiceSpecificError ErrorCode_INVALID_KEY_BLOB"
    "\<not> mIsActive (mOperationSlot (fst (snd (snd
       (KeyMintOperation_update
          (sample_env\<lparr>km_update := \<lambda>_ _. Delivered (ErrorCode_INVALID_KEY_BLOB, 0, [], [])\<rparr>)
          None (Some [1]) None None
          \<lparr> mOperationHandle = 9, mOperationSlot = \<lparr> mIsActive = True \<rparr> \<rparr> (sample_device 2))))))"
    "mNumFreeSlots (mOperationSlots (snd (snd (snd
       (KeyMintOperation_update
          (sample_env\<lparr>km_update := \<lambda>_ _. Delivered (ErrorCode_INVALID_KEY_BLOB, 0, [], [])\<rparr>)
          None (Some [1]) None None
          \<lparr> mOperationHandle = 9, mOperationSlot = \<lparr> mIsActive = True \<rparr> \<rparr> (sample_device 2)))))) = 3"
    using update_failure_releases_slot
      [where env = "sample_env\<lparr>km_update := \<lambda>_ _. Delivered (ErrorCode_INVALID_KEY_BLOB, 0, [], [])\<rparr>"
        and p = None and i = "Some [1]" and a = None and v = None
        and oper = "\<lparr> mOperationHandle = 9, mOperationSlot = \<lparr> mIsActive = True \<rparr> \<rparr>"
        and dev = "sample_device 2"]
    by (simp_all add: sample_device_def code_defs)
  have accepted:
    "fst (KeyMintOperation_update sample_env None (Some [1]) None None
            \<lparr> mOperationHandle = 9, mOperationSlot = \<lparr> mIsActive = True \<rparr> \<rparr> (sample_device 2)) =
       Status_ok"
    "mIsActive (mOperationSlot (fst (snd (snd
       (KeyMintOperation_update sample_env None (Some [1]) None None
          \<lparr> mOperationHandle = 9, mOperationSlot = \<lparr> mIsActive = True \<rparr> \<rparr> (sample_device 2))))))"
    "mNumFreeSlots (mOperationSlots (snd (snd (snd
       (KeyMintOperation_update sample_env None (Some [1]) None None
          \<lparr> mOperationHandle = 9, mOperationSlot = \<lparr> mIsActive = True \<rparr> \<rparr> (sample_device 2)))))) = 2"
    "halCalls (snd (snd (snd
       (KeyMintOperation_update sample_env None (Some [1]) None None
          \<lparr> mOperationHandle = 9, mOperationSlot = \<lparr> mIsActive = True \<rparr> \<rparr> (sample_device 2))))) =
       [update_call sample_env None (Some [1]) None None
          \<lparr> mOperationHandle = 9, mOperationSlot = \<lparr> mIsActive = True \<rparr> \<rparr>]"
    using update_failure_releases_slot [where env = sample_env
        and p = None and i = "Some [1]" and a = None and v = None
        and oper = "\<lparr> mOperationHandle = 9, mOperationSlot = \<lparr> mIsActive = True \<rparr> \<rparr>"
        and dev = "sample_device 2"]
    by (simp_all add: sample_device_def sample_env_def)
  show ?thesis
    by (intro conjI) (fact undelivered refused accepted)+
qed

section \<open>The slot pool\<close>

lemma claimSlot_positive:
  "mNumFreeSlots s \<noteq> 0 \<Longrightarrow>
     claimSlot s = (True, s\<lparr>mNumFreeSlots := mNumFreeSlots s - 1\<rparr>) \<and>
     unat (mNumFreeSlots (snd (claimSlot s))) + 1 = unat (mNumFreeSlots s)"
  using unat_gt_0 [of "mNumFreeSlots s"]
  by (simp add: claimSlot_def word_greater_zero_iff unat_minus_one)

lemma claimSlot_zero: "mNumFreeSlots s = 0 \<Longrightarrow> claimSlot s = (False, s)"
  by (simp add: claimSlot_def)

lemma claim_many_count:
  "fst (claim_many k s) = min k (unat (mNumFreeSlots s)) \<and>
   unat (mNumFreeSlots (snd (claim_many k s))) = unat (mNumFreeSlots s) - min k (unat (mNumFreeSlots s))"
proof (induction k arbitrary: s)
  case 0
  then show ?case by simp
next
  case (Suc k)
  show ?case
  proof (cases "mNumFreeSlots s = 0")
    case True
    then show ?thesis using Suc.IH [of s] by (simp add: claimSlot_zero Let_def)
  next
    case False
    from claimSlot_positive [OF False] Suc.IH [of "snd (claimSlot s)"]
    show ?thesis by (auto simp: Let_def min_def)
  qed
qed

lemma pool_run_inv:
  "paired cs (s, held) \<Longrightarrow> unat (mNumFreeSlots s) + held = n \<Longrightarrow> n < 256 \<Longrightarrow>
   unat (mNumFreeSlots (fst (pool_run cs (s, held)))) + snd (pool_run cs (s, held)) = n"
proof (induction cs "(s, held)" arbitrary: s held rule: pool_run.induct)
  case 1
  then show ?case by simp
next
  case (2 cs s held)
  show ?case
  proof (cases "mNumFreeSlots s = 0")
    case True
    then show ?thesis using 2 by (simp add: claimSlot_zero Let_def)
  next
    case False
    from claimSlot_positive [OF False] 2 show ?thesis
      by (auto simp: Let_def)
  qed
next
  case (3 cs s held)
  from 3(2) have h: "0 < held" and p: "paired cs (freeSlot s, held - 1)" by simp_all
  from 3(3,4) h have "unat (mNumFreeSlots s) < 255" by simp
  then have "unat (mNumFreeSlots s + 1) = unat (mNumFreeSlots s) + 1"
    by (simp add: unat_word_ariths)
  then have "unat (mNumFreeSlots (freeSlot s)) + (held - 1) = n"
    using 3(3) h by (simp add: freeSlot_def)
  from 3(1) [OF p this 3(4)] show ?case by simp
qed

text \<open>
  Claim C2. \<^verbatim>\<open>claimSlot\<close> succeeds exactly when the counter is positive, then takes one
  off it, and otherwise leaves the pool as it is. Of \<open>k\<close> claims in a row on a pool set
  to \<open>n\<close> slots exactly \<open>min k n\<close> succeed, so the claim after \<open>n\<close> successes fails;
  one \<^verbatim>\<open>freeSlot\<close> after that lets exactly one more claim succeed. Over any interleaving
  in which each release gives back a slot that is held, the free slots and the held
  slots add up to \<open>n\<close>.
\<close>

theorem slot_pool_admission:
  "(fst (claimSlot s) \<longleftrightarrow> 0 < unat (mNumFreeSlots s)) \<and>
   unat (mNumFreeSlots (snd (claimSlot s))) = unat (mNumFreeSlots s) - 1 \<and>
   snd (claimSlot s) = (if fst (claimSlot s) then s\<lparr>mNumFreeSlots := mNumFreeSlots s - 1\<rparr> else s) \<and>
   fst (claim_many k (setNumFreeSlots n s)) = min k (unat n) \<and>
   \<not> fst (claimSlot (snd (claim_many (unat n) (setNumFreeSlots n s)))) \<and>
   fst (claim_many k (freeSlot (snd (claim_many (unat n) (setNumFreeSlots n s))))) = min k 1 \<and>
   (paired cs (setNumFreeSlots n s, 0) \<longrightarrow>
      unat (mNumFreeSlots (fst (pool_run cs (setNumFreeSlots n s, 0)))) +
        snd (pool_run cs (setNumFreeSlots n s, 0)) = unat n)"
proof -
  let ?s0 = "setNumFreeSlots n s"
  have c0: "mNumFreeSlots ?s0 = n" by (simp add: setNumFreeSlots_def)
  have one_claim:
    "(fst (claimSlot s) \<longleftrightarrow> 0 < unat (mNumFreeSlots s)) \<and>
     unat (mNumFreeSlots (snd (claimSlot s))) = unat (mNumFreeSlots s) - 1 \<and>
     snd (claimSlot s) = (if fst (claimSlot s) then s\<lparr>mNumFreeSlots := mNumFreeSlots s - 1\<rparr> else s)"
  proof (cases "mNumFreeSlots s = 0")
    case True
    then show ?thesis by (simp add: claimSlot_zero)
  next
    case False
    from claimSlot_positive [OF False] False show ?thesis
      by (simp add: unat_gt_0 unat_minus_one)
  qed
  have many: "fst (claim_many k ?s0) = min k (unat n)"
    using claim_many_count [of k ?s0] by (simp add: c0)
  have ex: "mNumFreeSlots (snd (claim_many (unat n) ?s0)) = 0"
    using claim_many_count [of "unat n" ?s0] by (simp add: c0 unat_eq_zero)
  have nxt: "\<not> fst (claimSlot (snd (claim_many (unat n) ?s0)))"
    using ex by (simp add: claimSlot_zero)
  have one: "fst (claim_many k (freeSlot (snd (claim_many (unat n) ?s0)))) = min k 1"
    using claim_many_count [of k "freeSlot (snd (claim_many (unat n) ?s0))"] ex
    by (simp add: freeSlot_def)
  have inter: "paired cs (?s0, 0) \<longrightarrow>
      unat (mNumFreeSlots (fst (pool_run cs (?s0, 0)))) + snd (pool_run cs (?s0, 0)) = unat n"
  proof
    assume p: "paired cs (?s0, 0)"
    have "unat n < 256" using unsigned_less [of n, where ?'a = nat] by simp
    from pool_run_inv [OF p _ this] show
      "unat (mNumFreeSlots (fst (pool_run cs (?s0, 0)))) + snd (pool_run cs (?s0, 0)) = unat n"
      by (simp add: c0)
  qed
  from one_claim many nxt one inter
  show ?thesis by blast
qed

theorem slot_pool_admission_witness:
  "paired [Claim, Claim, Claim, Claim, Free, Claim, Claim]
     (setNumFreeSlots 3 \<lparr> mNumFreeSlots = 0 \<rparr>, 0) \<and>
   fst (claim_many 5 (setNumFreeSlots 3 \<lparr> mNumFreeSlots = 0 \<rparr>)) = 3 \<and>
   fst (claim_many 5 (freeSlot (snd (claim_many 3 (setNumFreeSlots 3 \<lparr> mNumFreeSlots = 0 \<rparr>))))) = 1 \<and>
   unat (mNumFreeSlots (fst (pool_run [Claim, Claim, Claim, Claim, Free, Claim, Claim]
     (setNumFreeSlots 3 \<lparr> mNumFreeSlots = 0 \<rparr>, 0)))) +
     snd (pool_run [Claim, Claim, Claim, Claim, Free, Claim, Claim]
       (setNumFreeSlots 3 \<lparr> mNumFreeSlots = 0 \<rparr>, 0)) = 3"
proof -
  have p: "paired [Claim, Claim, Claim, Claim, Free, Claim, Claim]
     (setNumFreeSlots 3 \<lparr> mNumFreeSlots = 0 \<rparr>, 0)"
    by (simp add: claimSlot_def freeSlot_def setNumFreeSlots_def Let_def)
  from slot_pool_admission [of "\<lparr> mNumFreeSlots = 0 \<rparr>" 5 3
      "[Claim, Claim, Claim, Claim, Free, Claim, Claim]"] p
  show ?thesis by simp
qed

section \<open>Parameter selection: getMaximum\<close>

lemma std_find_le: "std_find xs v \<le> length xs"
  by (induction xs) auto

lemma getMaximum_loop_end:
  "getMaximum_loop keyParams ttag sortedOptions (length sortedOptions) = length sortedOptions"
proof (induction keyParams)
  case Nil
  then show ?case by simp
next
  case (Cons kp keyParams)
  have "\<not> std_distance (std_find sortedOptions v) (length sortedOptions) < 0" for v
    using std_find_le [of sortedOptions v] by (simp add: std_distance_def)
  then show ?case using Cons.IH by (simp add: Let_def split: option.splits)
qed

lemma getMaximum_first: "getMaximum keyParams ttag (x # xs) = Some x"
  using getMaximum_loop_end [of keyParams ttag "x # xs"]
  by (simp add: getMaximum_def Let_def)

text \<open>
  Claim C4. The comparison in the loop of \<^verbatim>\<open>getMaximum\<close> never holds, so the function
  returns the first option whatever the parameters are (lemma \<open>getMaximum_first\<close>). For
  the single padding parameter RSA_PKCS1_1_5_SIGN and the preference list RSA_PSS,
  RSA_PKCS1_1_5_SIGN it returns RSA_PSS, which the parameters do not carry, where the
  claim asks for RSA_PKCS1_1_5_SIGN.
\<close>

theorem getMaximum_returns_first_option:
  "getMaximum [makeKeyParameter PADDING (V_paddingMode RSA_PKCS1_1_5_SIGN)] TAG_PADDING
     [RSA_PSS, RSA_PKCS1_1_5_SIGN] = Some RSA_PSS \<and>
   best_of_spec [makeKeyParameter PADDING (V_paddingMode RSA_PKCS1_1_5_SIGN)] TAG_PADDING
     [RSA_PSS, RSA_PKCS1_1_5_SIGN] = Some RSA_PKCS1_1_5_SIGN"
  by (simp add: getMaximum_def Let_def std_distance_def best_of_spec_def List.map_filter_def
      authorizationValue_def TAG_PADDING_def makeKeyParameter_def)

lemma getParam_no_tag:
  "\<forall>kp \<in> set keyParams. kp_tag kp \<noteq> fst ttag \<Longrightarrow> getParam keyParams ttag = None"
  by (induction keyParams) (auto simp: authorizationValue_def)

section \<open>Key creation and certificates\<close>






text \<open>
  Claim C10. When no parameter carries the algorithm tag, \<^verbatim>\<open>getCertificate\<close> answers
  with UNKNOWN_ERROR; when the backend has created the key, \<^verbatim>\<open>generateKey\<close> then
  issues \<^verbatim>\<open>deleteKey\<close> on the new blob and returns UNKNOWN_ERROR.
\<close>

theorem missing_algorithm_deletes_key:
  assumes "\<forall>kp \<in> set keyParams. kp_tag kp \<noteq> ALGORITHM"
    and "km_generateKey env (halCalls dev)
           (Call_generateKey (convertKeyParametersToLegacy env keyParams)) =
         Delivered (ErrorCode_OK, blob, characteristics)"
  shows "getCertificate env keyParams b dev' = (Inl ErrorCode_UNKNOWN_ERROR, dev') \<and>
         KeyMintDevice_generateKey env keyParams out dev =
           (fromServiceSpecificError ErrorCode_UNKNOWN_ERROR,
            out\<lparr> keyBlob := blob,
                 keyCharacteristics :=
                   convertKeyCharacteristicsFromLegacy env (m_securityLevel dev) characteristics \<rparr>,
            issue (Call_deleteKey blob)
              (issue (Call_generateKey (convertKeyParametersToLegacy env keyParams)) dev))"
proof -
  from assms(1) have n: "getParam keyParams TAG_ALGORITHM = None"
    by (intro getParam_no_tag) (simp add: TAG_ALGORITHM_def)
  then have c: "getCertificate env keyParams b' d = (Inl ErrorCode_UNKNOWN_ERROR, d)" for b' d
    by (simp add: getCertificate_def)
  show ?thesis
    using assms(2)
    by (simp add: c KeyMintDevice_generateKey_def certify_created_key_def
        KeyMintDevice_deleteKey_def convertErrorCode_def Let_def code_defs)
qed

theorem missing_algorithm_deletes_key_witness:
  "KeyMintDevice_generateKey sample_env [makeKeyParameter PURPOSE (V_keyPurpose SIGN)] empty_result
     (sample_device 15) =
     (fromServiceSpecificError ErrorCode_UNKNOWN_ERROR,
      empty_result\<lparr> keyBlob := [1],
        keyCharacteristics :=
          convertKeyCharacteristicsFromLegacy sample_env
            (m_securityLevel (sample_device 15 :: (unit, KeyParameter) KeyMintDevice))
            \<lparr> softwareEnforced = [], hardwareEnforced = [] \<rparr> \<rparr>,
      issue (Call_deleteKey [1])
        (issue (Call_generateKey (convertKeyParametersToLegacy sample_env
           [makeKeyParameter PURPOSE (V_keyPurpose SIGN)])) (sample_device 15)))"
proof -
  have a: "\<forall>kp \<in> set [makeKeyParameter PURPOSE (V_keyPurpose SIGN)]. kp_tag kp \<noteq> ALGORITHM"
    by (simp add: makeKeyParameter_def)
  have g: "km_generateKey sample_env (halCalls (sample_device 15 :: (unit, KeyParameter) KeyMintDevice))
      (Call_generateKey (convertKeyParametersToLegacy sample_env
         [makeKeyParameter PURPOSE (V_keyPurpose SIGN)])) =
      Delivered (ErrorCode_OK, [1], \<lparr> softwareEnforced = [], hardwareEnforced = [] \<rparr>)"
    by (simp add: sample_env_def)
  from missing_algorithm_deletes_key [OF a g, of "[]" "sample_device 15" empty_result]
  show ?thesis by simp
qed


text \<open>
  For an RSA or EC key every error code \<^verbatim>\<open>getCertificate\<close> returns differs from OK:
  the code OK stands for the symmetric case alone, and no failed step is taken for it.
\<close>

lemma signCertificate_error_not_OK:
  "signCertificate env keyParams blob cert dev = (Some e, cert', dev') \<Longrightarrow>
   getParam keyParams TAG_ALGORITHM = Some a \<Longrightarrow> a = RSA \<or> a = EC \<Longrightarrow> e \<noteq> ErrorCode_OK"
  by (auto simp: signCertificate_def getMaximum_first Let_def code_defs
      split: option.splits sum.splits if_splits)

lemma getCertificate_error_not_OK:
  assumes "getCertificate env keyParams blob dev = (Inl code, dev')"
    and "getParam keyParams TAG_ALGORITHM = Some a" and "a = RSA \<or> a = EC"
  shows "code \<noteq> ErrorCode_OK"
proof (cases "containsParam keyParams TAG_ATTESTATION_CHALLENGE")
  case True
  with assms show ?thesis
    by (auto simp: getCertificate_def Let_def code_defs split: hidl_return.splits if_splits)
next
  case False
  have mk: "makeCert env keyParams blob dev = (Inl e, d) \<Longrightarrow> e \<noteq> ErrorCode_OK" for e d
    by (auto simp: makeCert_def Let_def code_defs split: hidl_return.splits if_splits sum.splits)
  note sg = signCertificate_error_not_OK [OF _ assms(2,3)]
  have un: "ErrorCode_UNKNOWN_ERROR \<noteq> ErrorCode_OK" by (simp add: code_defs)
  from assms False show ?thesis
    by (auto simp: getCertificate_def Let_def un
        split: prod.splits sum.splits if_splits option.splits dest: mk sg)
qed

lemmas sample_defs =
  sample_env_def sample_device_def empty_result_def algorithm_param_def makeKeyParameter_def
  authorizationValue_def convertKeyParametersToLegacy_def convertKeyParametersFromLegacy_def
  convertKeyCharacteristicsFromLegacy_def issue_def unwrapBlob_def containsParam_def

section \<open>The steps of certificate synthesis\<close>

lemma unknown_not_OK: "ErrorCode_UNKNOWN_ERROR \<noteq> ErrorCode_OK"
  by (simp add: code_defs)

lemma certify_failed:
  "getCertificate env keyParams (keyBlob out) d = (Inl code, d') \<Longrightarrow> code \<noteq> ErrorCode_OK \<Longrightarrow>
   certify_created_key env keyParams ErrorCode_OK out d = key_deleted code out d'"
  by (simp add: certify_created_key_def key_deleted_def KeyMintDevice_deleteKey_def
      convertErrorCode_def Let_def)

lemmas step_defs =
  attestKey_call_def exportKey_call_def attestation_requested_def self_signing_def
  unsigned_cert_def

lemma getCertificate_no_algorithm:
  "getParam keyParams TAG_ALGORITHM = None \<Longrightarrow>
   getCertificate env keyParams blob d = (Inl ErrorCode_UNKNOWN_ERROR, d)"
  by (simp add: getCertificate_def)

lemma getCertificate_attest:
  assumes "asymmetric keyParams" and "attestation_requested keyParams"
  shows "getCertificate env keyParams blob d =
     (case km_attestKey env (halCalls d) (attestKey_call env keyParams blob) of
        NotDelivered \<Rightarrow> (Inl ErrorCode_UNKNOWN_ERROR, issue (attestKey_call env keyParams blob) d)
      | Delivered (errorCode, certChain) \<Rightarrow>
          if errorCode \<noteq> ErrorCode_OK
          then (Inl errorCode, issue (attestKey_call env keyParams blob) d)
          else (Inr (map (\<lambda>cert. \<lparr> encodedCertificate = cert \<rparr>) certChain),
                issue (attestKey_call env keyParams blob) d))"
  using assms
  by (auto simp: asymmetric_def getCertificate_def step_defs Let_def split: hidl_return.splits)

lemma makeCert_steps:
  "makeCert env keyParams blob d =
     (case km_exportKey env (halCalls d) (exportKey_call keyParams blob) of
        NotDelivered \<Rightarrow> Inl ErrorCode_UNKNOWN_ERROR
      | Delivered (errorCode, keyMaterial) \<Rightarrow>
          if errorCode \<noteq> ErrorCode_OK then Inl errorCode
          else (case unsigned_cert env keyParams keyMaterial of
                  Inl _ \<Rightarrow> Inl ErrorCode_UNKNOWN_ERROR
                | Inr cert \<Rightarrow> Inr cert),
      issue (exportKey_call keyParams blob) d)"
  by (auto simp: makeCert_def step_defs Let_def split: hidl_return.splits sum.splits)

lemma signCertificate_steps:
  assumes "asymmetric keyParams"
  shows "signCertificate env keyParams blob cert d =
     (case signCertWith_before env cert (sign_algo keyParams) Padding_PSS Digest_SHA256 of
        Inl _ \<Rightarrow> (Some ErrorCode_UNKNOWN_ERROR, cert, d)
      | Inr tbs \<Rightarrow>
          (let cb = sign_callback env blob RSA_PSS SHA_2_256 tbs ErrorCode_OK d
           in case signCertWith_after env cert (fst cb) of
                Inl _ \<Rightarrow> (Some ErrorCode_UNKNOWN_ERROR, cert, snd (snd cb))
              | Inr cert1 \<Rightarrow>
                  if fst (snd cb) \<noteq> ErrorCode_OK then (Some (fst (snd cb)), cert1, snd (snd cb))
                  else (None, cert1, snd (snd cb))))"
  using assms
  by (auto simp: asymmetric_def signCertificate_def sign_algo_def getMaximum_first Let_def
      split: sum.splits)

lemma getCertificate_synthesis:
  assumes "asymmetric keyParams" and "\<not> attestation_requested keyParams"
  shows "getCertificate env keyParams blob d =
     (case makeCert env keyParams blob d of
        (Inl e, d1) \<Rightarrow> (Inl e, d1)
      | (Inr cert, d1) \<Rightarrow>
     (case keystore_setIssuer env cert cert False of
        Inl _ \<Rightarrow> (Inl ErrorCode_UNKNOWN_ERROR, d1)
      | Inr cert1 \<Rightarrow>
          (let signed =
                 (if self_signing keyParams
                  then (case signCertificate env keyParams blob cert1 d1 of
                          (Some errorCode, _, d2) \<Rightarrow> (Inl errorCode, d2)
                        | (None, cert2, d2) \<Rightarrow> (Inr cert2, d2))
                  else (case keystore_signCert env cert1 (EVP_PKEY_keygen env) of
                          Inl _ \<Rightarrow> (Inl ErrorCode_UNKNOWN_ERROR, d1)
                        | Inr cert2 \<Rightarrow> (Inr cert2, d1)))
           in case signed of
                (Inl e, d2) \<Rightarrow> (Inl e, d2)
              | (Inr cert2, d2) \<Rightarrow>
                  (case keystore_encodeCert env cert2 of
                     Inl _ \<Rightarrow> (Inl ErrorCode_UNKNOWN_ERROR, d2)
                   | Inr encoded \<Rightarrow> (Inr [\<lparr> encodedCertificate = encoded \<rparr>], d2)))))"
  using assms
  unfolding asymmetric_def attestation_requested_def self_signing_def getCertificate_def
  by auto


lemma begin_failed:
  assumes "\<not> isOk (fst (KeyMintDevice_begin env purpose blob params authToken d))"
  shows "scope_exit env (begun_operation (KeyMintDevice_begin env purpose blob params authToken d))
           (snd (snd (KeyMintDevice_begin env purpose blob params authToken d))) =
         snd (snd (KeyMintDevice_begin env purpose blob params authToken d))"
    and "getServiceSpecificError (fst (KeyMintDevice_begin env purpose blob params authToken d)) \<noteq>
         ErrorCode_OK"
  using assms
  by (auto simp: KeyMintDevice_begin_def claimSlot_def begun_operation_def scope_exit_def
      KeyMintOperation_destructor_def hasSlot_def convertErrorCode_def Let_def code_defs
      split: prod.splits hidl_return.splits if_splits)

lemma finish_failed:
  assumes "\<not> isOk (fst (KeyMintOperation_finish env p i s a v oper d))"
  shows "scope_exit env (Some (fst (snd (snd (KeyMintOperation_finish env p i s a v oper d)))))
           (snd (snd (snd (KeyMintOperation_finish env p i s a v oper d)))) =
         snd (snd (snd (KeyMintOperation_finish env p i s a v oper d)))"
    and "getServiceSpecificError (fst (KeyMintOperation_finish env p i s a v oper d)) \<noteq>
         ErrorCode_OK"
  using assms
  by (auto simp: KeyMintOperation_finish_def scope_exit_def op_freeSlot_active
      KeyMintOperation_destructor_def hasSlot_def convertErrorCode_def Let_def code_defs
      split: prod.splits hidl_return.splits if_splits)

lemma sign_callback_begin_failed:
  assumes "\<not> isOk (fst (self_sign_begin env blob d))"
  shows "sign_callback env blob RSA_PSS SHA_2_256 tbs ec d =
           ([], getServiceSpecificError (fst (self_sign_begin env blob d)),
            snd (snd (self_sign_begin env blob d)))"
  using assms begin_failed(1) [of env SIGN blob _ HardwareAuthToken0 d]
  by (simp add: sign_callback_def self_sign_begin_def begun_operation_def Let_def)

lemma sign_callback_finish_failed:
  assumes "isOk (fst (self_sign_begin env blob d))"
    and "begun_operation (self_sign_begin env blob d) = Some oper"
    and "u = self_sign_update env tbs oper (snd (snd (self_sign_begin env blob d)))"
    and "self_sign_status env u \<noteq> 0"
    and "f = self_sign_finish env (fst (snd (snd u))) (snd (snd (snd u)))"
    and "\<not> isOk (fst f)"
  shows "sign_callback env blob RSA_PSS SHA_2_256 tbs ec d =
           ([], getServiceSpecificError (fst f), snd (snd (snd f)))"
  using assms finish_failed(1) [of env None None None None None "fst (snd (snd u))" "snd (snd (snd u))"]
  by (simp add: sign_callback_def self_sign_begin_def self_sign_update_def self_sign_finish_def
      self_sign_status_def begun_operation_def Let_def)

lemma created_generateKey:
  assumes "km_generateKey env (halCalls dev) (Call_generateKey (convertKeyParametersToLegacy env keyParams)) =
       Delivered (errorCode, blob, characteristics)"
  shows "KeyMintDevice_generateKey env keyParams out dev =
     certify_created_key env keyParams errorCode
       (out\<lparr> keyBlob := blob,
            keyCharacteristics :=
              convertKeyCharacteristicsFromLegacy env (m_securityLevel dev) characteristics \<rparr>)
       (issue (Call_generateKey (convertKeyParametersToLegacy env keyParams)) dev)"
  using assms by (simp add: KeyMintDevice_generateKey_def Let_def)

lemma created_importKey:
  assumes "km_importKey env (halCalls dev)
       (Call_importKey (convertKeyParametersToLegacy env keyParams) keyFormat keyData) =
       Delivered (errorCode, blob, characteristics)"
  shows "KeyMintDevice_importKey env keyParams keyFormat keyData out dev =
     certify_created_key env keyParams errorCode
       (out\<lparr> keyBlob := blob,
            keyCharacteristics :=
              convertKeyCharacteristicsFromLegacy env (m_securityLevel dev) characteristics \<rparr>)
       (issue (Call_importKey (convertKeyParametersToLegacy env keyParams) keyFormat keyData) dev)"
  using assms by (simp add: KeyMintDevice_importKey_def Let_def)

lemma step_no_algorithm:
  assumes "getParam keyParams TAG_ALGORITHM = None"
  shows "certify_created_key env keyParams ErrorCode_OK out d = key_deleted ErrorCode_UNKNOWN_ERROR out d"
  using assms by (simp add: certify_failed getCertificate_no_algorithm unknown_not_OK)

lemma step_attest_undelivered:
  assumes "asymmetric keyParams"
    and "attestation_requested keyParams"
    and "km_attestKey env (halCalls d) (attestKey_call env keyParams (keyBlob out)) = NotDelivered"
  shows "certify_created_key env keyParams ErrorCode_OK out d =
     key_deleted ErrorCode_UNKNOWN_ERROR out (issue (attestKey_call env keyParams (keyBlob out)) d)"
  using assms by (simp add: certify_failed getCertificate_attest unknown_not_OK)

lemma step_attest_error:
  assumes "asymmetric keyParams"
    and "attestation_requested keyParams"
    and "km_attestKey env (halCalls d) (attestKey_call env keyParams (keyBlob out)) = Delivered (errorCode, certChain)"
    and "errorCode \<noteq> ErrorCode_OK"
  shows "certify_created_key env keyParams ErrorCode_OK out d =
     key_deleted errorCode out (issue (attestKey_call env keyParams (keyBlob out)) d)"
  using assms by (simp add: certify_failed getCertificate_attest)

lemma step_export_undelivered:
  assumes "asymmetric keyParams"
    and "\<not> attestation_requested keyParams"
    and "km_exportKey env (halCalls d) (exportKey_call keyParams (keyBlob out)) = NotDelivered"
  shows "certify_created_key env keyParams ErrorCode_OK out d =
     key_deleted ErrorCode_UNKNOWN_ERROR out (issue (exportKey_call keyParams (keyBlob out)) d)"
  using assms
  by (simp add: certify_failed getCertificate_synthesis makeCert_steps unknown_not_OK)

lemma step_export_error:
  assumes "asymmetric keyParams"
    and "\<not> attestation_requested keyParams"
    and "km_exportKey env (halCalls d) (exportKey_call keyParams (keyBlob out)) = Delivered (errorCode, keyMaterial)"
    and "errorCode \<noteq> ErrorCode_OK"
  shows "certify_created_key env keyParams ErrorCode_OK out d = key_deleted errorCode out (issue (exportKey_call keyParams (keyBlob out)) d)"
  using assms
  by (simp add: certify_failed getCertificate_synthesis makeCert_steps)

lemma step_build_failed:
  assumes "asymmetric keyParams"
    and "\<not> attestation_requested keyParams"
    and "km_exportKey env (halCalls d) (exportKey_call keyParams (keyBlob out)) = Delivered (ErrorCode_OK, keyMaterial)"
    and "isl (unsigned_cert env keyParams keyMaterial)"
  shows "certify_created_key env keyParams ErrorCode_OK out d =
     key_deleted ErrorCode_UNKNOWN_ERROR out (issue (exportKey_call keyParams (keyBlob out)) d)"
  using assms
  by (auto simp: certify_failed getCertificate_synthesis makeCert_steps unknown_not_OK isl_def)

lemma step_issuer_failed:
  assumes "asymmetric keyParams"
    and "\<not> attestation_requested keyParams"
    and "km_exportKey env (halCalls d) (exportKey_call keyParams (keyBlob out)) = Delivered (ErrorCode_OK, keyMaterial)"
    and "unsigned_cert env keyParams keyMaterial = Inr cert"
    and "isl (keystore_setIssuer env cert cert False)"
  shows "certify_created_key env keyParams ErrorCode_OK out d =
     key_deleted ErrorCode_UNKNOWN_ERROR out (issue (exportKey_call keyParams (keyBlob out)) d)"
  using assms
  by (auto simp: certify_failed getCertificate_synthesis makeCert_steps unknown_not_OK isl_def)

lemma step_sign_ephemeral_failed:
  assumes "asymmetric keyParams"
    and "\<not> attestation_requested keyParams"
    and "km_exportKey env (halCalls d) (exportKey_call keyParams (keyBlob out)) = Delivered (ErrorCode_OK, keyMaterial)"
    and "unsigned_cert env keyParams keyMaterial = Inr cert"
    and "keystore_setIssuer env cert cert False = Inr cert1"
    and "\<not> self_signing keyParams"
    and "isl (keystore_signCert env cert1 (EVP_PKEY_keygen env))"
  shows "certify_created_key env keyParams ErrorCode_OK out d =
     key_deleted ErrorCode_UNKNOWN_ERROR out (issue (exportKey_call keyParams (keyBlob out)) d)"
  using assms
  by (auto simp: certify_failed getCertificate_synthesis makeCert_steps unknown_not_OK isl_def)

lemma step_encode_ephemeral_failed:
  assumes "asymmetric keyParams"
    and "\<not> attestation_requested keyParams"
    and "km_exportKey env (halCalls d) (exportKey_call keyParams (keyBlob out)) = Delivered (ErrorCode_OK, keyMaterial)"
    and "unsigned_cert env keyParams keyMaterial = Inr cert"
    and "keystore_setIssuer env cert cert False = Inr cert1"
    and "\<not> self_signing keyParams"
    and "keystore_signCert env cert1 (EVP_PKEY_keygen env) = Inr cert2"
    and "isl (keystore_encodeCert env cert2)"
  shows "certify_created_key env keyParams ErrorCode_OK out d =
     key_deleted ErrorCode_UNKNOWN_ERROR out (issue (exportKey_call keyParams (keyBlob out)) d)"
  using assms
  by (auto simp: certify_failed getCertificate_synthesis makeCert_steps unknown_not_OK isl_def)

lemma step_sign_prepare_failed:
  assumes "asymmetric keyParams"
    and "\<not> attestation_requested keyParams"
    and "km_exportKey env (halCalls d) (exportKey_call keyParams (keyBlob out)) = Delivered (ErrorCode_OK, keyMaterial)"
    and "unsigned_cert env keyParams keyMaterial = Inr cert"
    and "keystore_setIssuer env cert cert False = Inr cert1"
    and "self_signing keyParams"
    and "isl (signCertWith_before env cert1 (sign_algo keyParams) Padding_PSS Digest_SHA256)"
  shows "certify_created_key env keyParams ErrorCode_OK out d =
     key_deleted ErrorCode_UNKNOWN_ERROR out (issue (exportKey_call keyParams (keyBlob out)) d)"
  using assms
  by (auto simp: certify_failed getCertificate_synthesis makeCert_steps signCertificate_steps
      unknown_not_OK isl_def)

lemma step_sign_install_failed:
  assumes "asymmetric keyParams"
    and "\<not> attestation_requested keyParams"
    and "km_exportKey env (halCalls d) (exportKey_call keyParams (keyBlob out)) = Delivered (ErrorCode_OK, keyMaterial)"
    and "unsigned_cert env keyParams keyMaterial = Inr cert"
    and "keystore_setIssuer env cert cert False = Inr cert1"
    and "self_signing keyParams"
    and "signCertWith_before env cert1 (sign_algo keyParams) Padding_PSS Digest_SHA256 = Inr tbs"
    and "isl (signCertWith_after env cert1 (fst (sign_callback env (keyBlob out) RSA_PSS SHA_2_256 tbs ErrorCode_OK (issue (exportKey_call keyParams (keyBlob out)) d))))"
  shows "certify_created_key env keyParams ErrorCode_OK out d =
     key_deleted ErrorCode_UNKNOWN_ERROR out (snd (snd (sign_callback env (keyBlob out) RSA_PSS SHA_2_256 tbs ErrorCode_OK (issue (exportKey_call keyParams (keyBlob out)) d))))"
  using assms
  by (auto simp: certify_failed getCertificate_synthesis makeCert_steps signCertificate_steps
      unknown_not_OK isl_def Let_def)

lemma step_sign_code:
  assumes "asymmetric keyParams"
    and "\<not> attestation_requested keyParams"
    and "km_exportKey env (halCalls d) (exportKey_call keyParams (keyBlob out)) = Delivered (ErrorCode_OK, keyMaterial)"
    and "unsigned_cert env keyParams keyMaterial = Inr cert"
    and "keystore_setIssuer env cert cert False = Inr cert1"
    and "self_signing keyParams"
    and "signCertWith_before env cert1 (sign_algo keyParams) Padding_PSS Digest_SHA256 = Inr tbs"
    and "signCertWith_after env cert1 (fst (sign_callback env (keyBlob out) RSA_PSS SHA_2_256 tbs ErrorCode_OK (issue (exportKey_call keyParams (keyBlob out)) d))) = Inr cert2"
    and "fst (snd (sign_callback env (keyBlob out) RSA_PSS SHA_2_256 tbs ErrorCode_OK (issue (exportKey_call keyParams (keyBlob out)) d))) \<noteq> ErrorCode_OK"
  shows "certify_created_key env keyParams ErrorCode_OK out d =
     key_deleted (fst (snd (sign_callback env (keyBlob out) RSA_PSS SHA_2_256 tbs ErrorCode_OK (issue (exportKey_call keyParams (keyBlob out)) d)))) out (snd (snd (sign_callback env (keyBlob out) RSA_PSS SHA_2_256 tbs ErrorCode_OK (issue (exportKey_call keyParams (keyBlob out)) d))))"
  using assms
  by (auto simp: certify_failed getCertificate_synthesis makeCert_steps signCertificate_steps
      Let_def)

lemma step_encode_self_failed:
  assumes "asymmetric keyParams"
    and "\<not> attestation_requested keyParams"
    and "km_exportKey env (halCalls d) (exportKey_call keyParams (keyBlob out)) = Delivered (ErrorCode_OK, keyMaterial)"
    and "unsigned_cert env keyParams keyMaterial = Inr cert"
    and "keystore_setIssuer env cert cert False = Inr cert1"
    and "self_signing keyParams"
    and "signCertWith_before env cert1 (sign_algo keyParams) Padding_PSS Digest_SHA256 = Inr tbs"
    and "signCertWith_after env cert1 (fst (sign_callback env (keyBlob out) RSA_PSS SHA_2_256 tbs ErrorCode_OK (issue (exportKey_call keyParams (keyBlob out)) d))) = Inr cert2"
    and "fst (snd (sign_callback env (keyBlob out) RSA_PSS SHA_2_256 tbs ErrorCode_OK (issue (exportKey_call keyParams (keyBlob out)) d))) = ErrorCode_OK"
    and "isl (keystore_encodeCert env cert2)"
  shows "certify_created_key env keyParams ErrorCode_OK out d =
     key_deleted ErrorCode_UNKNOWN_ERROR out (snd (snd (sign_callback env (keyBlob out) RSA_PSS SHA_2_256 tbs ErrorCode_OK (issue (exportKey_call keyParams (keyBlob out)) d))))"
  using assms
  by (auto simp: certify_failed getCertificate_synthesis makeCert_steps signCertificate_steps
      unknown_not_OK isl_def Let_def)


lemma step_sign_begin_failed:
  assumes "asymmetric keyParams"
    and "\<not> attestation_requested keyParams"
    and "km_exportKey env (halCalls d) (exportKey_call keyParams (keyBlob out)) =
         Delivered (ErrorCode_OK, keyMaterial)"
    and "unsigned_cert env keyParams keyMaterial = Inr cert"
    and "keystore_setIssuer env cert cert False = Inr cert1"
    and "self_signing keyParams"
    and "signCertWith_before env cert1 (sign_algo keyParams) Padding_PSS Digest_SHA256 = Inr tbs"
    and "b = self_sign_begin env (keyBlob out) (issue (exportKey_call keyParams (keyBlob out)) d)"
    and "\<not> isOk (fst b)"
  shows "certify_created_key env keyParams ErrorCode_OK out d =
     key_deleted
       (case signCertWith_after env cert1 [] of
          Inl _ \<Rightarrow> ErrorCode_UNKNOWN_ERROR | Inr _ \<Rightarrow> getServiceSpecificError (fst b))
       out (snd (snd b))"
proof -
  let ?d1 = "issue (exportKey_call keyParams (keyBlob out)) d"
  have cb: "sign_callback env (keyBlob out) RSA_PSS SHA_2_256 tbs ErrorCode_OK ?d1 =
      ([], getServiceSpecificError (fst b), snd (snd b))"
    using assms(8,9) sign_callback_begin_failed [of env "keyBlob out" ?d1 tbs ErrorCode_OK] by simp
  have ne: "getServiceSpecificError (fst b) \<noteq> ErrorCode_OK"
    using assms(8,9) begin_failed(2) by (simp add: self_sign_begin_def)
  show ?thesis
  proof (cases "signCertWith_after env cert1 []")
    case (Inl x)
    then show ?thesis
      using step_sign_install_failed [OF assms(1-7)] by (simp add: cb)
  next
    case (Inr cert2)
    then show ?thesis
      using step_sign_code [OF assms(1-7), of cert2] ne by (simp add: cb)
  qed
qed

lemma step_sign_finish_failed:
  assumes "asymmetric keyParams"
    and "\<not> attestation_requested keyParams"
    and "km_exportKey env (halCalls d) (exportKey_call keyParams (keyBlob out)) =
         Delivered (ErrorCode_OK, keyMaterial)"
    and "unsigned_cert env keyParams keyMaterial = Inr cert"
    and "keystore_setIssuer env cert cert False = Inr cert1"
    and "self_signing keyParams"
    and "signCertWith_before env cert1 (sign_algo keyParams) Padding_PSS Digest_SHA256 = Inr tbs"
    and "b = self_sign_begin env (keyBlob out) (issue (exportKey_call keyParams (keyBlob out)) d)"
    and "isOk (fst b)"
    and "begun_operation b = Some oper"
    and "u = self_sign_update env tbs oper (snd (snd b))"
    and "self_sign_status env u \<noteq> 0"
    and "f = self_sign_finish env (fst (snd (snd u))) (snd (snd (snd u)))"
    and "\<not> isOk (fst f)"
  shows "certify_created_key env keyParams ErrorCode_OK out d =
     key_deleted
       (case signCertWith_after env cert1 [] of
          Inl _ \<Rightarrow> ErrorCode_UNKNOWN_ERROR | Inr _ \<Rightarrow> getServiceSpecificError (fst f))
       out (snd (snd (snd f)))"
proof -
  let ?d1 = "issue (exportKey_call keyParams (keyBlob out)) d"
  have cb: "sign_callback env (keyBlob out) RSA_PSS SHA_2_256 tbs ErrorCode_OK ?d1 =
      ([], getServiceSpecificError (fst f), snd (snd (snd f)))"
    using sign_callback_finish_failed [of env "keyBlob out" ?d1 oper u tbs f ErrorCode_OK]
      assms(8-14) by simp
  have ne: "getServiceSpecificError (fst f) \<noteq> ErrorCode_OK"
    using assms(13,14) finish_failed(2) by (simp add: self_sign_finish_def)
  show ?thesis
  proof (cases "signCertWith_after env cert1 []")
    case (Inl x)
    then show ?thesis
      using step_sign_install_failed [OF assms(1-7)] by (simp add: cb)
  next
    case (Inr cert2)
    then show ?thesis
      using step_sign_code [OF assms(1-7), of cert2] ne by (simp add: cb)
  qed
qed

lemma begin_undelivered:
  assumes "mNumFreeSlots (mOperationSlots dev) \<noteq> 0"
    and "km_begin env (halCalls dev) (begin_call env purpose blob params authToken) = NotDelivered"
  shows "fst (KeyMintDevice_begin env purpose blob params authToken dev) =
         fromServiceSpecificError ResponseCode_SYSTEM_ERROR"
  using assms
  by (simp add: KeyMintDevice_begin_def begin_call_def claimSlot_def word_greater_zero_iff Let_def)

lemma finish_undelivered:
  assumes "km_finish env (halCalls dev) (finish_call env p i s a v oper) = NotDelivered"
  shows "fst (KeyMintOperation_finish env p i s a v oper dev) =
         fromServiceSpecificError ResponseCode_SYSTEM_ERROR"
  using assms by (simp add: KeyMintOperation_finish_def finish_call_def Let_def)

lemma update_undelivered:
  assumes "km_update env (halCalls dev) (update_call env p i a v oper) = NotDelivered"
  shows "fst (KeyMintOperation_update env p i a v oper dev) =
         fromServiceSpecificError ResponseCode_SYSTEM_ERROR"
  using assms by (simp add: KeyMintOperation_update_def update_call_def Let_def)


lemma step_sign_begin_undelivered:
  assumes "asymmetric keyParams"
    and "\<not> attestation_requested keyParams"
    and "km_exportKey env (halCalls d) (exportKey_call keyParams (keyBlob out)) =
         Delivered (ErrorCode_OK, keyMaterial)"
    and "unsigned_cert env keyParams keyMaterial = Inr cert"
    and "keystore_setIssuer env cert cert False = Inr cert1"
    and "self_signing keyParams"
    and "signCertWith_before env cert1 (sign_algo keyParams) Padding_PSS Digest_SHA256 = Inr tbs"
    and "b = self_sign_begin env (keyBlob out) (issue (exportKey_call keyParams (keyBlob out)) d)"
    and "mNumFreeSlots (mOperationSlots d) \<noteq> 0"
    and "km_begin env (halCalls (issue (exportKey_call keyParams (keyBlob out)) d))
           (begin_call env SIGN (keyBlob out)
              [makeKeyParameter PADDING (V_paddingMode RSA_PSS),
               makeKeyParameter DIGEST (V_digest SHA_2_256)] HardwareAuthToken0) = NotDelivered"
  shows "certify_created_key env keyParams ErrorCode_OK out d =
     key_deleted
       (case signCertWith_after env cert1 [] of
          Inl _ \<Rightarrow> ErrorCode_UNKNOWN_ERROR | Inr _ \<Rightarrow> ResponseCode_SYSTEM_ERROR)
       out (snd (snd b))"
proof -
  let ?d1 = "issue (exportKey_call keyParams (keyBlob out)) d"
  have free: "mNumFreeSlots (mOperationSlots ?d1) \<noteq> 0"
    using assms(9) by (simp add: issue_def)
  have st: "fst b = fromServiceSpecificError ResponseCode_SYSTEM_ERROR"
    unfolding assms(8) self_sign_begin_def
    by (rule begin_undelivered [OF free assms(10)])
  have "\<not> isOk (fst b)"
    by (simp add: st)
  from step_sign_begin_failed [OF assms(1-8) this] show ?thesis
    by (simp add: st split: sum.splits)
qed

lemma step_sign_finish_undelivered:
  assumes "asymmetric keyParams"
    and "\<not> attestation_requested keyParams"
    and "km_exportKey env (halCalls d) (exportKey_call keyParams (keyBlob out)) =
         Delivered (ErrorCode_OK, keyMaterial)"
    and "unsigned_cert env keyParams keyMaterial = Inr cert"
    and "keystore_setIssuer env cert cert False = Inr cert1"
    and "self_signing keyParams"
    and "signCertWith_before env cert1 (sign_algo keyParams) Padding_PSS Digest_SHA256 = Inr tbs"
    and "b = self_sign_begin env (keyBlob out) (issue (exportKey_call keyParams (keyBlob out)) d)"
    and "isOk (fst b)"
    and "begun_operation b = Some oper"
    and "u = self_sign_update env tbs oper (snd (snd b))"
    and "self_sign_status env u \<noteq> 0"
    and "f = self_sign_finish env (fst (snd (snd u))) (snd (snd (snd u)))"
    and "km_finish env (halCalls (snd (snd (snd u))))
           (finish_call env None None None None None (fst (snd (snd u)))) = NotDelivered"
  shows "certify_created_key env keyParams ErrorCode_OK out d =
     key_deleted
       (case signCertWith_after env cert1 [] of
          Inl _ \<Rightarrow> ErrorCode_UNKNOWN_ERROR | Inr _ \<Rightarrow> ResponseCode_SYSTEM_ERROR)
       out (snd (snd (snd f)))"
proof -
  have st: "fst f = fromServiceSpecificError ResponseCode_SYSTEM_ERROR"
    unfolding assms(13) self_sign_finish_def
    by (rule finish_undelivered [OF assms(14)])
  have "\<not> isOk (fst f)"
    by (simp add: st)
  from step_sign_finish_failed [OF assms(1-13) this] show ?thesis
    by (simp add: st split: sum.splits)
qed

text \<open>
  Claim C3, as stated, fails: when \<^verbatim>\<open>exportKey\<close> reports INVALID_KEY_BLOB for the new
  RSA key, \<^verbatim>\<open>generateKey\<close> deletes the key and returns INVALID_KEY_BLOB, not
  UNKNOWN_ERROR.
\<close>

theorem failed_synthesis_reports_backend_code:
  "fst (KeyMintDevice_generateKey
          (sample_env\<lparr>km_exportKey := \<lambda>_ _. Delivered (ErrorCode_INVALID_KEY_BLOB, [])\<rparr>)
          [algorithm_param RSA] empty_result (sample_device 15)) =
     fromServiceSpecificError ErrorCode_INVALID_KEY_BLOB \<and>
   fromServiceSpecificError ErrorCode_INVALID_KEY_BLOB \<noteq>
     fromServiceSpecificError ErrorCode_UNKNOWN_ERROR \<and>
   halCalls (snd (snd (KeyMintDevice_generateKey
          (sample_env\<lparr>km_exportKey := \<lambda>_ _. Delivered (ErrorCode_INVALID_KEY_BLOB, [])\<rparr>)
          [algorithm_param RSA] empty_result (sample_device 15)))) =
     [Call_generateKey [algorithm_param RSA], Call_exportKey X509 [1] [] [], Call_deleteKey [1]]"
  by (simp add: KeyMintDevice_generateKey_def certify_created_key_def getCertificate_def
      makeCert_def KeyMintDevice_deleteKey_def convertErrorCode_def Let_def sample_defs TAG_defs
      code_defs)

text \<open>
  Claim C3, amended. \<^verbatim>\<open>generateKey\<close> and \<^verbatim>\<open>importKey\<close>, once the backend has created
  the key, run the same code on the creation result \<open>out\<close> and the device \<open>d\<close>
  (\<open>certify_created_key\<close>). When a step of certificate synthesis fails there, the request
  ends as \<open>key_deleted code out d'\<close>: \<^verbatim>\<open>deleteKey\<close> on the new blob is the last
  backend call and the status carries \<open>code\<close>, which is not OK. The steps are: the
  algorithm parameter is missing; \<^verbatim>\<open>attestKey\<close> or \<^verbatim>\<open>exportKey\<close> is not delivered
  (UNKNOWN_ERROR) or reports an error (that error); building the certificate, setting
  its issuer, signing it with the throwaway key, preparing or installing the signature
  of the self-signing path, or encoding the certificate fails (UNKNOWN_ERROR); the
  \<^verbatim>\<open>begin\<close> or the \<^verbatim>\<open>finish\<close> call of the self-signing operation fails
  (UNKNOWN_ERROR when the signing helper refuses the empty signature, the code of the
  failed call otherwise). Nothing is said about a failing \<^verbatim>\<open>update\<close> call of the
  self-signing operation, whose status the callback does not read.
\<close>

theorem failed_synthesis_deletes_key:
  fixes env :: "('lp, 'x, 'pk) collaborators"
    and d :: "('d, 'lp) KeyMintDevice"
    and dev :: "('d, 'lp) KeyMintDevice"
    and run unknown acall ecall d1 callback begun
  defines "run \<equiv> \<lambda>keyParams out. certify_created_key env keyParams ErrorCode_OK out d"
    and "unknown \<equiv> ErrorCode_UNKNOWN_ERROR"
    and "acall \<equiv> \<lambda>keyParams out. attestKey_call env keyParams (keyBlob out)"
    and "ecall \<equiv> \<lambda>keyParams out. exportKey_call keyParams (keyBlob out)"
    and "d1 \<equiv> \<lambda>keyParams out. issue (exportKey_call keyParams (keyBlob out)) d"
    and "callback \<equiv> \<lambda>keyParams out tbs.
           sign_callback env (keyBlob out) RSA_PSS SHA_2_256 tbs ErrorCode_OK
             (issue (exportKey_call keyParams (keyBlob out)) d)"
    and "begun \<equiv> \<lambda>keyParams out.
           self_sign_begin env (keyBlob out) (issue (exportKey_call keyParams (keyBlob out)) d)"
  shows
   "(km_generateKey env (halCalls dev)
        (Call_generateKey (convertKeyParametersToLegacy env keyParams)) =
       Delivered (ErrorCode_OK, blob, characteristics) \<longrightarrow>
     KeyMintDevice_generateKey env keyParams passed dev =
       certify_created_key env keyParams ErrorCode_OK
         (passed\<lparr> keyBlob := blob,
               keyCharacteristics :=
                 convertKeyCharacteristicsFromLegacy env (m_securityLevel dev) characteristics \<rparr>)
         (issue (Call_generateKey (convertKeyParametersToLegacy env keyParams)) dev)) \<and>
    (km_importKey env (halCalls dev)
        (Call_importKey (convertKeyParametersToLegacy env keyParams) keyFormat keyData) =
       Delivered (ErrorCode_OK, blob, characteristics) \<longrightarrow>
     KeyMintDevice_importKey env keyParams keyFormat keyData passed dev =
       certify_created_key env keyParams ErrorCode_OK
         (passed\<lparr> keyBlob := blob,
               keyCharacteristics :=
                 convertKeyCharacteristicsFromLegacy env (m_securityLevel dev) characteristics \<rparr>)
         (issue (Call_importKey (convertKeyParametersToLegacy env keyParams) keyFormat keyData)
            dev)) \<and>
    (getParam keyParams TAG_ALGORITHM = None \<longrightarrow> run keyParams out = key_deleted unknown out d) \<and>
    (asymmetric keyParams \<and> attestation_requested keyParams \<longrightarrow>
       (km_attestKey env (halCalls d) (acall keyParams out) = NotDelivered \<longrightarrow>
          run keyParams out = key_deleted unknown out (issue (acall keyParams out) d)) \<and>
       (\<forall>errorCode certChain.
          km_attestKey env (halCalls d) (acall keyParams out) = Delivered (errorCode, certChain) \<and>
          errorCode \<noteq> ErrorCode_OK \<longrightarrow>
          run keyParams out = key_deleted errorCode out (issue (acall keyParams out) d))) \<and>
    (asymmetric keyParams \<and> \<not> attestation_requested keyParams \<longrightarrow>
       (km_exportKey env (halCalls d) (ecall keyParams out) = NotDelivered \<longrightarrow>
          run keyParams out = key_deleted unknown out (d1 keyParams out)) \<and>
       (\<forall>errorCode keyMaterial.
          km_exportKey env (halCalls d) (ecall keyParams out) = Delivered (errorCode, keyMaterial) \<and>
          errorCode \<noteq> ErrorCode_OK \<longrightarrow>
          run keyParams out = key_deleted errorCode out (d1 keyParams out)) \<and>
       (\<forall>keyMaterial.
          km_exportKey env (halCalls d) (ecall keyParams out) =
            Delivered (ErrorCode_OK, keyMaterial) \<longrightarrow>
          (isl (unsigned_cert env keyParams keyMaterial) \<longrightarrow>
             run keyParams out = key_deleted unknown out (d1 keyParams out)) \<and>
          (\<forall>cert. unsigned_cert env keyParams keyMaterial = Inr cert \<longrightarrow>
             (isl (keystore_setIssuer env cert cert False) \<longrightarrow>
                run keyParams out = key_deleted unknown out (d1 keyParams out)) \<and>
             (\<forall>cert1. keystore_setIssuer env cert cert False = Inr cert1 \<longrightarrow>
                (\<not> self_signing keyParams \<longrightarrow>
                   (isl (keystore_signCert env cert1 (EVP_PKEY_keygen env)) \<longrightarrow>
                      run keyParams out = key_deleted unknown out (d1 keyParams out)) \<and>
                   (\<forall>cert2. keystore_signCert env cert1 (EVP_PKEY_keygen env) = Inr cert2 \<and>
                      isl (keystore_encodeCert env cert2) \<longrightarrow>
                      run keyParams out = key_deleted unknown out (d1 keyParams out))) \<and>
                (self_signing keyParams \<longrightarrow>
                   (isl (signCertWith_before env cert1 (sign_algo keyParams) Padding_PSS
                           Digest_SHA256) \<longrightarrow>
                      run keyParams out = key_deleted unknown out (d1 keyParams out)) \<and>
                   (\<forall>tbs. signCertWith_before env cert1 (sign_algo keyParams) Padding_PSS
                            Digest_SHA256 = Inr tbs \<longrightarrow>
                      (\<not> isOk (fst (begun keyParams out)) \<longrightarrow>
                         getServiceSpecificError (fst (begun keyParams out)) \<noteq> ErrorCode_OK \<and>
                         run keyParams out =
                           key_deleted
                             (case signCertWith_after env cert1 [] of
                                Inl _ \<Rightarrow> unknown
                              | Inr _ \<Rightarrow> getServiceSpecificError (fst (begun keyParams out)))
                             out (snd (snd (begun keyParams out)))) \<and>
                      (\<forall>oper.
                         let u = self_sign_update env tbs oper (snd (snd (begun keyParams out)));
                             f = self_sign_finish env (fst (snd (snd u))) (snd (snd (snd u)))
                         in isOk (fst (begun keyParams out)) \<and>
                            begun_operation (begun keyParams out) = Some oper \<and>
                            self_sign_status env u \<noteq> 0 \<and> \<not> isOk (fst f) \<longrightarrow>
                            getServiceSpecificError (fst f) \<noteq> ErrorCode_OK \<and>
                            run keyParams out =
                              key_deleted
                                (case signCertWith_after env cert1 [] of
                                   Inl _ \<Rightarrow> unknown
                                 | Inr _ \<Rightarrow> getServiceSpecificError (fst f))
                                out (snd (snd (snd f)))) \<and>
                      (isl (signCertWith_after env cert1 (fst (callback keyParams out tbs))) \<longrightarrow>
                         run keyParams out =
                           key_deleted unknown out (snd (snd (callback keyParams out tbs)))) \<and>
                      (\<forall>cert2.
                         signCertWith_after env cert1 (fst (callback keyParams out tbs)) = Inr cert2 \<and>
                         fst (snd (callback keyParams out tbs)) = ErrorCode_OK \<and>
                         isl (keystore_encodeCert env cert2) \<longrightarrow>
                         run keyParams out =
                           key_deleted unknown out (snd (snd (callback keyParams out tbs))))))))))"
  unfolding run_def unknown_def acall_def ecall_def d1_def callback_def begun_def Let_def
  apply (intro conjI impI allI)
  subgoal by (rule created_generateKey)
  subgoal by (rule created_importKey)
  subgoal by (rule step_no_algorithm)
  subgoal by (rule step_attest_undelivered) simp_all
  subgoal by (rule step_attest_error) auto
  subgoal by (rule step_export_undelivered) simp_all
  subgoal by (rule step_export_error) auto
  subgoal by (rule step_build_failed) auto
  subgoal by (rule step_issuer_failed) auto
  subgoal by (rule step_sign_ephemeral_failed) auto
  subgoal by (rule step_encode_ephemeral_failed) auto
  subgoal by (rule step_sign_prepare_failed) auto
  subgoal using begin_failed(2) by (simp add: self_sign_begin_def)
  subgoal by (rule step_sign_begin_failed) auto
  subgoal unfolding self_sign_finish_def by (rule finish_failed(2)) simp
  subgoal by (rule step_sign_finish_failed) auto
  subgoal by (rule step_sign_install_failed) auto
  subgoal by (rule step_encode_self_failed) auto
  done

lemmas eval_defs =
  sample_defs TAG_defs asymmetric_def attestation_requested_def self_signing_def canSelfSign_def
  exportKey_call_def attestKey_call_def unsigned_cert_def sign_algo_def
  self_signing_params_def attested_params_def generated_result_def generated_device_def
  key_deleted_def begin_call_def update_call_def finish_call_def
  self_sign_begin_def self_sign_update_def self_sign_finish_def self_sign_status_def
  begun_operation_def sign_callback_def scope_exit_def KeyMintDevice_begin_def
  KeyMintOperation_update_def KeyMintOperation_finish_def KeyMintOperation_destructor_def
  KeyMintOperation_abort_def op_freeSlot_def OperationSlot_freeSlot_def freeSlot_def claimSlot_def
  hasSlot_def convertErrorCode_def HardwareAuthToken0_def VerificationToken0_def
  convertAuthTokenToLegacy_def convertVerificationTokenToLegacy_def Let_def code_defs

theorem failed_synthesis_deletes_key_witness:
  "fst (KeyMintDevice_generateKey sample_env [makeKeyParameter PURPOSE (V_keyPurpose SIGN)] empty_result (sample_device 15)) =
     fromServiceSpecificError ErrorCode_UNKNOWN_ERROR \<and>
   halCalls (snd (snd (KeyMintDevice_generateKey sample_env [makeKeyParameter PURPOSE (V_keyPurpose SIGN)] empty_result (sample_device 15)))) =
     [Call_generateKey [makeKeyParameter PURPOSE (V_keyPurpose SIGN)], Call_deleteKey [1]] \<and>
   fst (KeyMintDevice_generateKey (sample_env\<lparr>km_attestKey := \<lambda>_ _. NotDelivered\<rparr>) attested_params empty_result (sample_device 15)) =
     fromServiceSpecificError ErrorCode_UNKNOWN_ERROR \<and>
   halCalls (snd (snd (KeyMintDevice_generateKey (sample_env\<lparr>km_attestKey := \<lambda>_ _. NotDelivered\<rparr>) attested_params empty_result (sample_device 15)))) =
     [Call_generateKey attested_params, Call_attestKey [1] attested_params, Call_deleteKey [1]] \<and>
   fst (KeyMintDevice_generateKey (sample_env\<lparr>km_attestKey := \<lambda>_ _. Delivered (ErrorCode_INVALID_KEY_BLOB, [])\<rparr>) attested_params empty_result (sample_device 15)) =
     fromServiceSpecificError ErrorCode_INVALID_KEY_BLOB \<and>
   halCalls (snd (snd (KeyMintDevice_generateKey (sample_env\<lparr>km_attestKey := \<lambda>_ _. Delivered (ErrorCode_INVALID_KEY_BLOB, [])\<rparr>) attested_params empty_result (sample_device 15)))) =
     [Call_generateKey attested_params, Call_attestKey [1] attested_params, Call_deleteKey [1]] \<and>
   fst (KeyMintDevice_generateKey (sample_env\<lparr>km_exportKey := \<lambda>_ _. NotDelivered\<rparr>) [algorithm_param RSA] empty_result (sample_device 15)) =
     fromServiceSpecificError ErrorCode_UNKNOWN_ERROR \<and>
   halCalls (snd (snd (KeyMintDevice_generateKey (sample_env\<lparr>km_exportKey := \<lambda>_ _. NotDelivered\<rparr>) [algorithm_param RSA] empty_result (sample_device 15)))) =
     [Call_generateKey [algorithm_param RSA], Call_exportKey X509 [1] [] [], Call_deleteKey [1]] \<and>
   fst (KeyMintDevice_generateKey (sample_env\<lparr>km_exportKey := \<lambda>_ _. Delivered (ErrorCode_INVALID_KEY_BLOB, [])\<rparr>) [algorithm_param RSA] empty_result (sample_device 15)) =
     fromServiceSpecificError ErrorCode_INVALID_KEY_BLOB \<and>
   halCalls (snd (snd (KeyMintDevice_generateKey (sample_env\<lparr>km_exportKey := \<lambda>_ _. Delivered (ErrorCode_INVALID_KEY_BLOB, [])\<rparr>) [algorithm_param RSA] empty_result (sample_device 15)))) =
     [Call_generateKey [algorithm_param RSA], Call_exportKey X509 [1] [] [], Call_deleteKey [1]] \<and>
   fst (KeyMintDevice_generateKey (sample_env\<lparr>keystore_makeCert := \<lambda>_ _ _ _ _. Inl 1\<rparr>) [algorithm_param RSA] empty_result (sample_device 15)) =
     fromServiceSpecificError ErrorCode_UNKNOWN_ERROR \<and>
   halCalls (snd (snd (KeyMintDevice_generateKey (sample_env\<lparr>keystore_makeCert := \<lambda>_ _ _ _ _. Inl 1\<rparr>) [algorithm_param RSA] empty_result (sample_device 15)))) =
     [Call_generateKey [algorithm_param RSA], Call_exportKey X509 [1] [] [], Call_deleteKey [1]] \<and>
   fst (KeyMintDevice_generateKey (sample_env\<lparr>keystore_setIssuer := \<lambda>_ _ _. Inl 1\<rparr>) [algorithm_param RSA] empty_result (sample_device 15)) =
     fromServiceSpecificError ErrorCode_UNKNOWN_ERROR \<and>
   halCalls (snd (snd (KeyMintDevice_generateKey (sample_env\<lparr>keystore_setIssuer := \<lambda>_ _ _. Inl 1\<rparr>) [algorithm_param RSA] empty_result (sample_device 15)))) =
     [Call_generateKey [algorithm_param RSA], Call_exportKey X509 [1] [] [], Call_deleteKey [1]] \<and>
   fst (KeyMintDevice_generateKey (sample_env\<lparr>keystore_signCert := \<lambda>_ _. Inl 1\<rparr>) [algorithm_param RSA] empty_result (sample_device 15)) =
     fromServiceSpecificError ErrorCode_UNKNOWN_ERROR \<and>
   halCalls (snd (snd (KeyMintDevice_generateKey (sample_env\<lparr>keystore_signCert := \<lambda>_ _. Inl 1\<rparr>) [algorithm_param RSA] empty_result (sample_device 15)))) =
     [Call_generateKey [algorithm_param RSA], Call_exportKey X509 [1] [] [], Call_deleteKey [1]] \<and>
   fst (KeyMintDevice_generateKey (sample_env\<lparr>keystore_encodeCert := \<lambda>_. Inl 1\<rparr>) [algorithm_param RSA] empty_result (sample_device 15)) =
     fromServiceSpecificError ErrorCode_UNKNOWN_ERROR \<and>
   halCalls (snd (snd (KeyMintDevice_generateKey (sample_env\<lparr>keystore_encodeCert := \<lambda>_. Inl 1\<rparr>) [algorithm_param RSA] empty_result (sample_device 15)))) =
     [Call_generateKey [algorithm_param RSA], Call_exportKey X509 [1] [] [], Call_deleteKey [1]] \<and>
   fst (KeyMintDevice_generateKey (sample_env\<lparr>signCertWith_before := \<lambda>_ _ _ _. Inl 1\<rparr>) self_signing_params empty_result (sample_device 15)) =
     fromServiceSpecificError ErrorCode_UNKNOWN_ERROR \<and>
   halCalls (snd (snd (KeyMintDevice_generateKey (sample_env\<lparr>signCertWith_before := \<lambda>_ _ _ _. Inl 1\<rparr>) self_signing_params empty_result (sample_device 15)))) =
     [Call_generateKey self_signing_params, Call_exportKey X509 [1] [] [], Call_deleteKey [1]] \<and>
   fst (KeyMintDevice_generateKey (sample_env\<lparr>km_begin := \<lambda>_ _. Delivered (ErrorCode_INVALID_KEY_BLOB, [], 0)\<rparr>) self_signing_params empty_result (sample_device 15)) =
     fromServiceSpecificError ErrorCode_UNKNOWN_ERROR \<and>
   halCalls (snd (snd (KeyMintDevice_generateKey (sample_env\<lparr>km_begin := \<lambda>_ _. Delivered (ErrorCode_INVALID_KEY_BLOB, [], 0)\<rparr>) self_signing_params empty_result (sample_device 15)))) =
     [Call_generateKey self_signing_params, Call_exportKey X509 [1] [] [], begin_call sample_env SIGN [1] [makeKeyParameter PADDING (V_paddingMode RSA_PSS), makeKeyParameter DIGEST (V_digest SHA_2_256)] HardwareAuthToken0, Call_deleteKey [1]] \<and>
   fst (KeyMintDevice_generateKey (sample_env\<lparr>km_finish := \<lambda>_ _. Delivered (ErrorCode_INVALID_KEY_BLOB, [], [])\<rparr>) self_signing_params empty_result (sample_device 15)) =
     fromServiceSpecificError ErrorCode_UNKNOWN_ERROR \<and>
   halCalls (snd (snd (KeyMintDevice_generateKey (sample_env\<lparr>km_finish := \<lambda>_ _. Delivered (ErrorCode_INVALID_KEY_BLOB, [], [])\<rparr>) self_signing_params empty_result (sample_device 15)))) =
     [Call_generateKey self_signing_params, Call_exportKey X509 [1] [] [], begin_call sample_env SIGN [1] [makeKeyParameter PADDING (V_paddingMode RSA_PSS), makeKeyParameter DIGEST (V_digest SHA_2_256)] HardwareAuthToken0, update_call sample_env None (Some [5]) (Some HardwareAuthToken0) (Some VerificationToken0) \<lparr> mOperationHandle = 9, mOperationSlot = \<lparr> mIsActive = True \<rparr> \<rparr>, finish_call sample_env None None None None None \<lparr> mOperationHandle = 9, mOperationSlot = \<lparr> mIsActive = True \<rparr> \<rparr>, Call_deleteKey [1]] \<and>
   fst (KeyMintDevice_generateKey (sample_env\<lparr>signCertWith_after := \<lambda>_ _. Inl 1\<rparr>) self_signing_params empty_result (sample_device 15)) =
     fromServiceSpecificError ErrorCode_UNKNOWN_ERROR \<and>
   halCalls (snd (snd (KeyMintDevice_generateKey (sample_env\<lparr>signCertWith_after := \<lambda>_ _. Inl 1\<rparr>) self_signing_params empty_result (sample_device 15)))) =
     [Call_generateKey self_signing_params, Call_exportKey X509 [1] [] [], begin_call sample_env SIGN [1] [makeKeyParameter PADDING (V_paddingMode RSA_PSS), makeKeyParameter DIGEST (V_digest SHA_2_256)] HardwareAuthToken0, update_call sample_env None (Some [5]) (Some HardwareAuthToken0) (Some VerificationToken0) \<lparr> mOperationHandle = 9, mOperationSlot = \<lparr> mIsActive = True \<rparr> \<rparr>, finish_call sample_env None None None None None \<lparr> mOperationHandle = 9, mOperationSlot = \<lparr> mIsActive = True \<rparr> \<rparr>, Call_deleteKey [1]] \<and>
   fst (KeyMintDevice_generateKey (sample_env\<lparr>keystore_encodeCert := \<lambda>_. Inl 1\<rparr>) self_signing_params empty_result (sample_device 15)) =
     fromServiceSpecificError ErrorCode_UNKNOWN_ERROR \<and>
   halCalls (snd (snd (KeyMintDevice_generateKey (sample_env\<lparr>keystore_encodeCert := \<lambda>_. Inl 1\<rparr>) self_signing_params empty_result (sample_device 15)))) =
     [Call_generateKey self_signing_params, Call_exportKey X509 [1] [] [], begin_call sample_env SIGN [1] [makeKeyParameter PADDING (V_paddingMode RSA_PSS), makeKeyParameter DIGEST (V_digest SHA_2_256)] HardwareAuthToken0, update_call sample_env None (Some [5]) (Some HardwareAuthToken0) (Some VerificationToken0) \<lparr> mOperationHandle = 9, mOperationSlot = \<lparr> mIsActive = True \<rparr> \<rparr>, finish_call sample_env None None None None None \<lparr> mOperationHandle = 9, mOperationSlot = \<lparr> mIsActive = True \<rparr> \<rparr>, Call_deleteKey [1]] \<and>
   fst (KeyMintDevice_importKey (sample_env\<lparr>km_exportKey := \<lambda>_ _. Delivered (ErrorCode_INVALID_KEY_BLOB, [])\<rparr>) [algorithm_param RSA] RAW [0] empty_result (sample_device 15)) =
     fromServiceSpecificError ErrorCode_INVALID_KEY_BLOB \<and>
   halCalls (snd (snd (KeyMintDevice_importKey (sample_env\<lparr>km_exportKey := \<lambda>_ _. Delivered (ErrorCode_INVALID_KEY_BLOB, [])\<rparr>) [algorithm_param RSA] RAW [0] empty_result (sample_device 15)))) =
     [Call_importKey [algorithm_param RSA] RAW [0], Call_exportKey X509 [2] [] [], Call_deleteKey [2]]"
proof -
  have no_algorithm:
    "fst (KeyMintDevice_generateKey sample_env [makeKeyParameter PURPOSE (V_keyPurpose SIGN)] empty_result (sample_device 15)) =
       fromServiceSpecificError ErrorCode_UNKNOWN_ERROR"
    "halCalls (snd (snd (KeyMintDevice_generateKey sample_env [makeKeyParameter PURPOSE (V_keyPurpose SIGN)] empty_result (sample_device 15)))) =
       [Call_generateKey [makeKeyParameter PURPOSE (V_keyPurpose SIGN)], Call_deleteKey [1]]"
    using failed_synthesis_deletes_key [where env = "sample_env"
        and keyParams = "[makeKeyParameter PURPOSE (V_keyPurpose SIGN)]" and passed = empty_result
        and dev = "sample_device 15" and blob = "[1]"
        and characteristics = "\<lparr> softwareEnforced = [], hardwareEnforced = [] \<rparr>"
        and keyFormat = RAW and keyData = "[0]"
        and out = "generated_result" and d = "generated_device ([makeKeyParameter PURPOSE (V_keyPurpose SIGN)])"]
    by (simp_all add: eval_defs)
  have attest_undelivered:
    "fst (KeyMintDevice_generateKey (sample_env\<lparr>km_attestKey := \<lambda>_ _. NotDelivered\<rparr>) attested_params empty_result (sample_device 15)) =
       fromServiceSpecificError ErrorCode_UNKNOWN_ERROR"
    "halCalls (snd (snd (KeyMintDevice_generateKey (sample_env\<lparr>km_attestKey := \<lambda>_ _. NotDelivered\<rparr>) attested_params empty_result (sample_device 15)))) =
       [Call_generateKey attested_params, Call_attestKey [1] attested_params, Call_deleteKey [1]]"
    using failed_synthesis_deletes_key [where env = "sample_env\<lparr>km_attestKey := \<lambda>_ _. NotDelivered\<rparr>"
        and keyParams = "attested_params" and passed = empty_result
        and dev = "sample_device 15" and blob = "[1]"
        and characteristics = "\<lparr> softwareEnforced = [], hardwareEnforced = [] \<rparr>"
        and keyFormat = RAW and keyData = "[0]"
        and out = "generated_result" and d = "generated_device attested_params"]
    by (simp_all add: eval_defs)
  have attest_error:
    "fst (KeyMintDevice_generateKey (sample_env\<lparr>km_attestKey := \<lambda>_ _. Delivered (ErrorCode_INVALID_KEY_BLOB, [])\<rparr>) attested_params empty_result (sample_device 15)) =
       fromServiceSpecificError ErrorCode_INVALID_KEY_BLOB"
    "halCalls (snd (snd (KeyMintDevice_generateKey (sample_env\<lparr>km_attestKey := \<lambda>_ _. Delivered (ErrorCode_INVALID_KEY_BLOB, [])\<rparr>) attested_params empty_result (sample_device 15)))) =
       [Call_generateKey attested_params, Call_attestKey [1] attested_params, Call_deleteKey [1]]"
    using failed_synthesis_deletes_key [where env = "sample_env\<lparr>km_attestKey := \<lambda>_ _. Delivered (ErrorCode_INVALID_KEY_BLOB, [])\<rparr>"
        and keyParams = "attested_params" and passed = empty_result
        and dev = "sample_device 15" and blob = "[1]"
        and characteristics = "\<lparr> softwareEnforced = [], hardwareEnforced = [] \<rparr>"
        and keyFormat = RAW and keyData = "[0]"
        and out = "generated_result" and d = "generated_device attested_params"]
    by (simp_all add: eval_defs)
  have export_undelivered:
    "fst (KeyMintDevice_generateKey (sample_env\<lparr>km_exportKey := \<lambda>_ _. NotDelivered\<rparr>) [algorithm_param RSA] empty_result (sample_device 15)) =
       fromServiceSpecificError ErrorCode_UNKNOWN_ERROR"
    "halCalls (snd (snd (KeyMintDevice_generateKey (sample_env\<lparr>km_exportKey := \<lambda>_ _. NotDelivered\<rparr>) [algorithm_param RSA] empty_result (sample_device 15)))) =
       [Call_generateKey [algorithm_param RSA], Call_exportKey X509 [1] [] [], Call_deleteKey [1]]"
    using failed_synthesis_deletes_key [where env = "sample_env\<lparr>km_exportKey := \<lambda>_ _. NotDelivered\<rparr>"
        and keyParams = "[algorithm_param RSA]" and passed = empty_result
        and dev = "sample_device 15" and blob = "[1]"
        and characteristics = "\<lparr> softwareEnforced = [], hardwareEnforced = [] \<rparr>"
        and keyFormat = RAW and keyData = "[0]"
        and out = "generated_result" and d = "generated_device ([algorithm_param RSA])"]
    by (simp_all add: eval_defs)
  have export_error:
    "fst (KeyMintDevice_generateKey (sample_env\<lparr>km_exportKey := \<lambda>_ _. Delivered (ErrorCode_INVALID_KEY_BLOB, [])\<rparr>) [algorithm_param RSA] empty_result (sample_device 15)) =
       fromServiceSpecificError ErrorCode_INVALID_KEY_BLOB"
    "halCalls (snd (snd (KeyMintDevice_generateKey (sample_env\<lparr>km_exportKey := \<lambda>_ _. Delivered (ErrorCode_INVALID_KEY_BLOB, [])\<rparr>) [algorithm_param RSA] empty_result (sample_device 15)))) =
       [Call_generateKey [algorithm_param RSA], Call_exportKey X509 [1] [] [], Call_deleteKey [1]]"
    using failed_synthesis_deletes_key [where env = "sample_env\<lparr>km_exportKey := \<lambda>_ _. Delivered (ErrorCode_INVALID_KEY_BLOB, [])\<rparr>"
        and keyParams = "[algorithm_param RSA]" and passed = empty_result
        and dev = "sample_device 15" and blob = "[1]"
        and characteristics = "\<lparr> softwareEnforced = [], hardwareEnforced = [] \<rparr>"
        and keyFormat = RAW and keyData = "[0]"
        and out = "generated_result" and d = "generated_device ([algorithm_param RSA])"]
    by (simp_all add: eval_defs)
  have build:
    "fst (KeyMintDevice_generateKey (sample_env\<lparr>keystore_makeCert := \<lambda>_ _ _ _ _. Inl 1\<rparr>) [algorithm_param RSA] empty_result (sample_device 15)) =
       fromServiceSpecificError ErrorCode_UNKNOWN_ERROR"
    "halCalls (snd (snd (KeyMintDevice_generateKey (sample_env\<lparr>keystore_makeCert := \<lambda>_ _ _ _ _. Inl 1\<rparr>) [algorithm_param RSA] empty_result (sample_device 15)))) =
       [Call_generateKey [algorithm_param RSA], Call_exportKey X509 [1] [] [], Call_deleteKey [1]]"
    using failed_synthesis_deletes_key [where env = "sample_env\<lparr>keystore_makeCert := \<lambda>_ _ _ _ _. Inl 1\<rparr>"
        and keyParams = "[algorithm_param RSA]" and passed = empty_result
        and dev = "sample_device 15" and blob = "[1]"
        and characteristics = "\<lparr> softwareEnforced = [], hardwareEnforced = [] \<rparr>"
        and keyFormat = RAW and keyData = "[0]"
        and out = "generated_result" and d = "generated_device ([algorithm_param RSA])"]
    by (simp_all add: eval_defs)
  have issuer:
    "fst (KeyMintDevice_generateKey (sample_env\<lparr>keystore_setIssuer := \<lambda>_ _ _. Inl 1\<rparr>) [algorithm_param RSA] empty_result (sample_device 15)) =
       fromServiceSpecificError ErrorCode_UNKNOWN_ERROR"
    "halCalls (snd (snd (KeyMintDevice_generateKey (sample_env\<lparr>keystore_setIssuer := \<lambda>_ _ _. Inl 1\<rparr>) [algorithm_param RSA] empty_result (sample_device 15)))) =
       [Call_generateKey [algorithm_param RSA], Call_exportKey X509 [1] [] [], Call_deleteKey [1]]"
    using failed_synthesis_deletes_key [where env = "sample_env\<lparr>keystore_setIssuer := \<lambda>_ _ _. Inl 1\<rparr>"
        and keyParams = "[algorithm_param RSA]" and passed = empty_result
        and dev = "sample_device 15" and blob = "[1]"
        and characteristics = "\<lparr> softwareEnforced = [], hardwareEnforced = [] \<rparr>"
        and keyFormat = RAW and keyData = "[0]"
        and out = "generated_result" and d = "generated_device ([algorithm_param RSA])"]
    by (simp_all add: eval_defs)
  have sign_ephemeral:
    "fst (KeyMintDevice_generateKey (sample_env\<lparr>keystore_signCert := \<lambda>_ _. Inl 1\<rparr>) [algorithm_param RSA] empty_result (sample_device 15)) =
       fromServiceSpecificError ErrorCode_UNKNOWN_ERROR"
    "halCalls (snd (snd (KeyMintDevice_generateKey (sample_env\<lparr>keystore_signCert := \<lambda>_ _. Inl 1\<rparr>) [algorithm_param RSA] empty_result (sample_device 15)))) =
       [Call_generateKey [algorithm_param RSA], Call_exportKey X509 [1] [] [], Call_deleteKey [1]]"
    using failed_synthesis_deletes_key [where env = "sample_env\<lparr>keystore_signCert := \<lambda>_ _. Inl 1\<rparr>"
        and keyParams = "[algorithm_param RSA]" and passed = empty_result
        and dev = "sample_device 15" and blob = "[1]"
        and characteristics = "\<lparr> softwareEnforced = [], hardwareEnforced = [] \<rparr>"
        and keyFormat = RAW and keyData = "[0]"
        and out = "generated_result" and d = "generated_device ([algorithm_param RSA])"]
    by (simp_all add: eval_defs)
  have encode_ephemeral:
    "fst (KeyMintDevice_generateKey (sample_env\<lparr>keystore_encodeCert := \<lambda>_. Inl 1\<rparr>) [algorithm_param RSA] empty_result (sample_device 15)) =
       fromServiceSpecificError ErrorCode_UNKNOWN_ERROR"
    "halCalls (snd (snd (KeyMintDevice_generateKey (sample_env\<lparr>keystore_encodeCert := \<lambda>_. Inl 1\<rparr>) [algorithm_param RSA] empty_result (sample_device 15)))) =
       [Call_generateKey [algorithm_param RSA], Call_exportKey X509 [1] [] [], Call_deleteKey [1]]"
    using failed_synthesis_deletes_key [where env = "sample_env\<lparr>keystore_encodeCert := \<lambda>_. Inl 1\<rparr>"
        and keyParams = "[algorithm_param RSA]" and passed = empty_result
        and dev = "sample_device 15" and blob = "[1]"
        and characteristics = "\<lparr> softwareEnforced = [], hardwareEnforced = [] \<rparr>"
        and keyFormat = RAW and keyData = "[0]"
        and out = "generated_result" and d = "generated_device ([algorithm_param RSA])"]
    by (simp_all add: eval_defs)
  have sign_prepare:
    "fst (KeyMintDevice_generateKey (sample_env\<lparr>signCertWith_before := \<lambda>_ _ _ _. Inl 1\<rparr>) self_signing_params empty_result (sample_device 15)) =
       fromServiceSpecificError ErrorCode_UNKNOWN_ERROR"
    "halCalls (snd (snd (KeyMintDevice_generateKey (sample_env\<lparr>signCertWith_before := \<lambda>_ _ _ _. Inl 1\<rparr>) self_signing_params empty_result (sample_device 15)))) =
       [Call_generateKey self_signing_params, Call_exportKey X509 [1] [] [], Call_deleteKey [1]]"
    using failed_synthesis_deletes_key [where env = "sample_env\<lparr>signCertWith_before := \<lambda>_ _ _ _. Inl 1\<rparr>"
        and keyParams = "self_signing_params" and passed = empty_result
        and dev = "sample_device 15" and blob = "[1]"
        and characteristics = "\<lparr> softwareEnforced = [], hardwareEnforced = [] \<rparr>"
        and keyFormat = RAW and keyData = "[0]"
        and out = "generated_result" and d = "generated_device self_signing_params"]
    by (simp_all add: eval_defs)
  have sign_begin:
    "fst (KeyMintDevice_generateKey (sample_env\<lparr>km_begin := \<lambda>_ _. Delivered (ErrorCode_INVALID_KEY_BLOB, [], 0)\<rparr>) self_signing_params empty_result (sample_device 15)) =
       fromServiceSpecificError ErrorCode_UNKNOWN_ERROR"
    "halCalls (snd (snd (KeyMintDevice_generateKey (sample_env\<lparr>km_begin := \<lambda>_ _. Delivered (ErrorCode_INVALID_KEY_BLOB, [], 0)\<rparr>) self_signing_params empty_result (sample_device 15)))) =
       [Call_generateKey self_signing_params, Call_exportKey X509 [1] [] [], begin_call sample_env SIGN [1] [makeKeyParameter PADDING (V_paddingMode RSA_PSS), makeKeyParameter DIGEST (V_digest SHA_2_256)] HardwareAuthToken0, Call_deleteKey [1]]"
    using failed_synthesis_deletes_key [where env = "sample_env\<lparr>km_begin := \<lambda>_ _. Delivered (ErrorCode_INVALID_KEY_BLOB, [], 0)\<rparr>"
        and keyParams = "self_signing_params" and passed = empty_result
        and dev = "sample_device 15" and blob = "[1]"
        and characteristics = "\<lparr> softwareEnforced = [], hardwareEnforced = [] \<rparr>"
        and keyFormat = RAW and keyData = "[0]"
        and out = "generated_result" and d = "generated_device self_signing_params"]
    by (simp_all add: eval_defs)
  have sign_finish:
    "fst (KeyMintDevice_generateKey (sample_env\<lparr>km_finish := \<lambda>_ _. Delivered (ErrorCode_INVALID_KEY_BLOB, [], [])\<rparr>) self_signing_params empty_result (sample_device 15)) =
       fromServiceSpecificError ErrorCode_UNKNOWN_ERROR"
    "halCalls (snd (snd (KeyMintDevice_generateKey (sample_env\<lparr>km_finish := \<lambda>_ _. Delivered (ErrorCode_INVALID_KEY_BLOB, [], [])\<rparr>) self_signing_params empty_result (sample_device 15)))) =
       [Call_generateKey self_signing_params, Call_exportKey X509 [1] [] [], begin_call sample_env SIGN [1] [makeKeyParameter PADDING (V_paddingMode RSA_PSS), makeKeyParameter DIGEST (V_digest SHA_2_256)] HardwareAuthToken0, update_call sample_env None (Some [5]) (Some HardwareAuthToken0) (Some VerificationToken0) \<lparr> mOperationHandle = 9, mOperationSlot = \<lparr> mIsActive = True \<rparr> \<rparr>, finish_call sample_env None None None None None \<lparr> mOperationHandle = 9, mOperationSlot = \<lparr> mIsActive = True \<rparr> \<rparr>, Call_deleteKey [1]]"
    using failed_synthesis_deletes_key [where env = "sample_env\<lparr>km_finish := \<lambda>_ _. Delivered (ErrorCode_INVALID_KEY_BLOB, [], [])\<rparr>"
        and keyParams = "self_signing_params" and passed = empty_result
        and dev = "sample_device 15" and blob = "[1]"
        and characteristics = "\<lparr> softwareEnforced = [], hardwareEnforced = [] \<rparr>"
        and keyFormat = RAW and keyData = "[0]"
        and out = "generated_result" and d = "generated_device self_signing_params"]
    by (simp_all add: eval_defs)
  have sign_install:
    "fst (KeyMintDevice_generateKey (sample_env\<lparr>signCertWith_after := \<lambda>_ _. Inl 1\<rparr>) self_signing_params empty_result (sample_device 15)) =
       fromServiceSpecificError ErrorCode_UNKNOWN_ERROR"
    "halCalls (snd (snd (KeyMintDevice_generateKey (sample_env\<lparr>signCertWith_after := \<lambda>_ _. Inl 1\<rparr>) self_signing_params empty_result (sample_device 15)))) =
       [Call_generateKey self_signing_params, Call_exportKey X509 [1] [] [], begin_call sample_env SIGN [1] [makeKeyParameter PADDING (V_paddingMode RSA_PSS), makeKeyParameter DIGEST (V_digest SHA_2_256)] HardwareAuthToken0, update_call sample_env None (Some [5]) (Some HardwareAuthToken0) (Some VerificationToken0) \<lparr> mOperationHandle = 9, mOperationSlot = \<lparr> mIsActive = True \<rparr> \<rparr>, finish_call sample_env None None None None None \<lparr> mOperationHandle = 9, mOperationSlot = \<lparr> mIsActive = True \<rparr> \<rparr>, Call_deleteKey [1]]"
    using failed_synthesis_deletes_key [where env = "sample_env\<lparr>signCertWith_after := \<lambda>_ _. Inl 1\<rparr>"
        and keyParams = "self_signing_params" and passed = empty_result
        and dev = "sample_device 15" and blob = "[1]"
        and characteristics = "\<lparr> softwareEnforced = [], hardwareEnforced = [] \<rparr>"
        and keyFormat = RAW and keyData = "[0]"
        and out = "generated_result" and d = "generated_device self_signing_params"]
    by (simp_all add: eval_defs)
  have encode_self:
    "fst (KeyMintDevice_generateKey (sample_env\<lparr>keystore_encodeCert := \<lambda>_. Inl 1\<rparr>) self_signing_params empty_result (sample_device 15)) =
       fromServiceSpecificError ErrorCode_UNKNOWN_ERROR"
    "halCalls (snd (snd (KeyMintDevice_generateKey (sample_env\<lparr>keystore_encodeCert := \<lambda>_. Inl 1\<rparr>) self_signing_params empty_result (sample_device 15)))) =
       [Call_generateKey self_signing_params, Call_exportKey X509 [1] [] [], begin_call sample_env SIGN [1] [makeKeyParameter PADDING (V_paddingMode RSA_PSS), makeKeyParameter DIGEST (V_digest SHA_2_256)] HardwareAuthToken0, update_call sample_env None (Some [5]) (Some HardwareAuthToken0) (Some VerificationToken0) \<lparr> mOperationHandle = 9, mOperationSlot = \<lparr> mIsActive = True \<rparr> \<rparr>, finish_call sample_env None None None None None \<lparr> mOperationHandle = 9, mOperationSlot = \<lparr> mIsActive = True \<rparr> \<rparr>, Call_deleteKey [1]]"
    using failed_synthesis_deletes_key [where env = "sample_env\<lparr>keystore_encodeCert := \<lambda>_. Inl 1\<rparr>"
        and keyParams = "self_signing_params" and passed = empty_result
        and dev = "sample_device 15" and blob = "[1]"
        and characteristics = "\<lparr> softwareEnforced = [], hardwareEnforced = [] \<rparr>"
        and keyFormat = RAW and keyData = "[0]"
        and out = "generated_result" and d = "generated_device self_signing_params"]
    by (simp_all add: eval_defs)
  have imported:
    "fst (KeyMintDevice_importKey (sample_env\<lparr>km_exportKey := \<lambda>_ _. Delivered (ErrorCode_INVALID_KEY_BLOB, [])\<rparr>) [algorithm_param RSA] RAW [0] empty_result (sample_device 15)) =
       fromServiceSpecificError ErrorCode_INVALID_KEY_BLOB"
    "halCalls (snd (snd (KeyMintDevice_importKey (sample_env\<lparr>km_exportKey := \<lambda>_ _. Delivered (ErrorCode_INVALID_KEY_BLOB, [])\<rparr>) [algorithm_param RSA] RAW [0] empty_result (sample_device 15)))) =
       [Call_importKey [algorithm_param RSA] RAW [0], Call_exportKey X509 [2] [] [], Call_deleteKey [2]]"
    using failed_synthesis_deletes_key [where env = "sample_env\<lparr>km_exportKey := \<lambda>_ _. Delivered (ErrorCode_INVALID_KEY_BLOB, [])\<rparr>"
        and keyParams = "[algorithm_param RSA]" and passed = empty_result
        and dev = "sample_device 15" and blob = "[2]"
        and characteristics = "\<lparr> softwareEnforced = [], hardwareEnforced = [] \<rparr>"
        and keyFormat = RAW and keyData = "[0]"
        and out = "generated_result\<lparr>keyBlob := [2]\<rparr>" and d = "issue (Call_importKey [algorithm_param RSA] RAW [0]) (sample_device 15)"]
    by (simp_all add: eval_defs)
  show ?thesis
    by (intro conjI) (fact no_algorithm attest_undelivered attest_error export_undelivered export_error build issuer sign_ephemeral encode_ephemeral sign_prepare sign_begin sign_finish sign_install encode_self imported)+
qed

section \<open>Transport failures\<close>

text \<open>
  Claim C6, as stated, fails: when \<^verbatim>\<open>exportKey\<close> cannot be delivered during the
  certificate synthesis for a new RSA key, \<^verbatim>\<open>generateKey\<close> returns the legacy code
  UNKNOWN_ERROR, not SYSTEM_ERROR.
\<close>

theorem export_transport_failure_reports_legacy_code:
  "fst (KeyMintDevice_generateKey (sample_env\<lparr>km_exportKey := \<lambda>_ _. NotDelivered\<rparr>)
          [algorithm_param RSA] empty_result (sample_device 15)) =
     fromServiceSpecificError ErrorCode_UNKNOWN_ERROR \<and>
   fromServiceSpecificError ErrorCode_UNKNOWN_ERROR \<noteq>
     fromServiceSpecificError ResponseCode_SYSTEM_ERROR"
  by (simp add: KeyMintDevice_generateKey_def certify_created_key_def getCertificate_def
      makeCert_def KeyMintDevice_deleteKey_def convertErrorCode_def Let_def sample_defs TAG_defs
      code_defs)

text \<open>
  Claim C6, amended. An entry point that issues a backend call of its own and checks its
  delivery returns SYSTEM_ERROR when that call is not delivered: \<^verbatim>\<open>getHardwareInfo\<close>,
  \<^verbatim>\<open>generateKey\<close>, \<^verbatim>\<open>importKey\<close>, \<^verbatim>\<open>importWrappedKey\<close>, \<^verbatim>\<open>upgradeKey\<close>,
  \<^verbatim>\<open>begin\<close> once a slot is claimed, \<^verbatim>\<open>update\<close> and \<^verbatim>\<open>finish\<close>. The entry points
  \<^verbatim>\<open>deleteKey\<close>, \<^verbatim>\<open>deleteAllKeys\<close>, \<^verbatim>\<open>addRngEntropy\<close> and \<^verbatim>\<open>abort\<close> have no
  branch for an undelivered call: each returns the conversion of the error code read
  from the reply. Within the certificate synthesis of \<^verbatim>\<open>generateKey\<close> and
  \<^verbatim>\<open>importKey\<close>, which run \<open>certify_created_key\<close> once the backend has created the
  key, an undelivered \<^verbatim>\<open>attestKey\<close> or \<^verbatim>\<open>exportKey\<close> ends the request as
  \<open>key_deleted\<close> with the legacy code UNKNOWN_ERROR; an undelivered \<^verbatim>\<open>begin\<close> or
  \<^verbatim>\<open>finish\<close> call of the self-signing operation ends it as \<open>key_deleted\<close> with
  UNKNOWN_ERROR when the signing helper refuses the empty signature, and with
  SYSTEM_ERROR when it accepts it. Nothing is said about an undelivered \<^verbatim>\<open>update\<close>
  call of the self-signing operation, whose status the callback does not read.
\<close>

theorem transport_failure_codes:
  fixes env :: "('lp, 'x, 'pk) collaborators"
    and d :: "('d, 'lp) KeyMintDevice"
    and dev :: "('d, 'lp) KeyMintDevice"
    and system_error unknown run d1 begun
  defines "system_error \<equiv> fromServiceSpecificError ResponseCode_SYSTEM_ERROR"
    and "unknown \<equiv> ErrorCode_UNKNOWN_ERROR"
    and "run \<equiv> \<lambda>keyParams out. certify_created_key env keyParams ErrorCode_OK out d"
    and "d1 \<equiv> \<lambda>keyParams out. issue (exportKey_call keyParams (keyBlob out)) d"
    and "begun \<equiv> \<lambda>keyParams out.
           self_sign_begin env (keyBlob out) (issue (exportKey_call keyParams (keyBlob out)) d)"
  shows
   "(km_getHardwareInfo env (halCalls dev) Call_getHardwareInfo = NotDelivered \<longrightarrow>
       fst (KeyMintDevice_getHardwareInfo env dev) = system_error) \<and>
    (km_generateKey env (halCalls dev)
        (Call_generateKey (convertKeyParametersToLegacy env keyParams)) = NotDelivered \<longrightarrow>
       fst (KeyMintDevice_generateKey env keyParams passed dev) = system_error) \<and>
    (km_importKey env (halCalls dev)
        (Call_importKey (convertKeyParametersToLegacy env keyParams) keyFormat keyData) =
       NotDelivered \<longrightarrow>
       fst (KeyMintDevice_importKey env keyParams keyFormat keyData passed dev) = system_error) \<and>
    (km_importWrappedKey env (halCalls dev)
        (Call_importWrappedKey wrapped wrapping masking
           (convertKeyParametersToLegacy env keyParams) psid bsid) = NotDelivered \<longrightarrow>
       fst (KeyMintDevice_importWrappedKey env wrapped wrapping masking keyParams psid bsid
              passed dev) = system_error) \<and>
    (km_upgradeKey env (halCalls dev)
        (Call_upgradeKey blob (convertKeyParametersToLegacy env keyParams)) = NotDelivered \<longrightarrow>
       fst (KeyMintDevice_upgradeKey env blob keyParams dev) = system_error) \<and>
    (mNumFreeSlots (mOperationSlots dev) \<noteq> 0 \<and>
     km_begin env (halCalls dev) (begin_call env purpose blob keyParams authToken) =
       NotDelivered \<longrightarrow>
       fst (KeyMintDevice_begin env purpose blob keyParams authToken dev) = system_error) \<and>
    (km_update env (halCalls dev) (update_call env p i a v oper) = NotDelivered \<longrightarrow>
       fst (KeyMintOperation_update env p i a v oper dev) = system_error) \<and>
    (km_finish env (halCalls dev) (finish_call env p i s a v oper) = NotDelivered \<longrightarrow>
       fst (KeyMintOperation_finish env p i s a v oper dev) = system_error) \<and>
    fst (KeyMintDevice_deleteKey env blob dev) =
      convertErrorCode (km_deleteKey env (halCalls dev) (Call_deleteKey blob)) \<and>
    fst (KeyMintDevice_deleteAllKeys env dev) =
      convertErrorCode (km_deleteAllKeys env (halCalls dev) Call_deleteAllKeys) \<and>
    fst (KeyMintDevice_addRngEntropy env blob dev) =
      convertErrorCode (km_addRngEntropy env (halCalls dev) (Call_addRngEntropy blob)) \<and>
    fst (KeyMintOperation_abort env oper dev) =
      convertErrorCode (km_abort env (halCalls dev) (Call_abort (mOperationHandle oper))) \<and>
    (km_generateKey env (halCalls dev)
        (Call_generateKey (convertKeyParametersToLegacy env keyParams)) =
       Delivered (ErrorCode_OK, blob, characteristics) \<longrightarrow>
     KeyMintDevice_generateKey env keyParams passed dev =
       certify_created_key env keyParams ErrorCode_OK
         (passed\<lparr> keyBlob := blob,
               keyCharacteristics :=
                 convertKeyCharacteristicsFromLegacy env (m_securityLevel dev) characteristics \<rparr>)
         (issue (Call_generateKey (convertKeyParametersToLegacy env keyParams)) dev)) \<and>
    (km_importKey env (halCalls dev)
        (Call_importKey (convertKeyParametersToLegacy env keyParams) keyFormat keyData) =
       Delivered (ErrorCode_OK, blob, characteristics) \<longrightarrow>
     KeyMintDevice_importKey env keyParams keyFormat keyData passed dev =
       certify_created_key env keyParams ErrorCode_OK
         (passed\<lparr> keyBlob := blob,
               keyCharacteristics :=
                 convertKeyCharacteristicsFromLegacy env (m_securityLevel dev) characteristics \<rparr>)
         (issue (Call_importKey (convertKeyParametersToLegacy env keyParams) keyFormat keyData)
            dev)) \<and>
    (asymmetric keyParams \<and> attestation_requested keyParams \<and>
     km_attestKey env (halCalls d) (attestKey_call env keyParams (keyBlob out)) = NotDelivered \<longrightarrow>
       run keyParams out =
         key_deleted unknown out (issue (attestKey_call env keyParams (keyBlob out)) d)) \<and>
    (asymmetric keyParams \<and> \<not> attestation_requested keyParams \<and>
     km_exportKey env (halCalls d) (exportKey_call keyParams (keyBlob out)) = NotDelivered \<longrightarrow>
       run keyParams out = key_deleted unknown out (d1 keyParams out)) \<and>
    (asymmetric keyParams \<and> \<not> attestation_requested keyParams \<and> self_signing keyParams \<and>
     km_exportKey env (halCalls d) (exportKey_call keyParams (keyBlob out)) =
       Delivered (ErrorCode_OK, keyMaterial) \<and>
     unsigned_cert env keyParams keyMaterial = Inr cert \<and>
     keystore_setIssuer env cert cert False = Inr cert1 \<and>
     signCertWith_before env cert1 (sign_algo keyParams) Padding_PSS Digest_SHA256 = Inr tbs \<longrightarrow>
       (mNumFreeSlots (mOperationSlots d) \<noteq> 0 \<and>
        km_begin env (halCalls (d1 keyParams out))
          (begin_call env SIGN (keyBlob out)
             [makeKeyParameter PADDING (V_paddingMode RSA_PSS),
              makeKeyParameter DIGEST (V_digest SHA_2_256)] HardwareAuthToken0) =
          NotDelivered \<longrightarrow>
          run keyParams out =
            key_deleted
              (case signCertWith_after env cert1 [] of
                 Inl _ \<Rightarrow> unknown | Inr _ \<Rightarrow> ResponseCode_SYSTEM_ERROR)
              out (snd (snd (begun keyParams out)))) \<and>
       (\<forall>signing.
          let u = self_sign_update env tbs signing (snd (snd (begun keyParams out)));
              f = self_sign_finish env (fst (snd (snd u))) (snd (snd (snd u)))
          in isOk (fst (begun keyParams out)) \<and>
             begun_operation (begun keyParams out) = Some signing \<and>
             self_sign_status env u \<noteq> 0 \<and>
             km_finish env (halCalls (snd (snd (snd u))))
               (finish_call env None None None None None (fst (snd (snd u)))) = NotDelivered \<longrightarrow>
             run keyParams out =
               key_deleted
                 (case signCertWith_after env cert1 [] of
                    Inl _ \<Rightarrow> unknown | Inr _ \<Rightarrow> ResponseCode_SYSTEM_ERROR)
                 out (snd (snd (snd f)))))"
  unfolding system_error_def unknown_def run_def d1_def begun_def Let_def
  apply (intro conjI impI allI)
  subgoal by (simp add: KeyMintDevice_getHardwareInfo_def Let_def)
  subgoal by (simp add: KeyMintDevice_generateKey_def Let_def)
  subgoal by (simp add: KeyMintDevice_importKey_def Let_def)
  subgoal by (simp add: KeyMintDevice_importWrappedKey_def Let_def)
  subgoal by (simp add: KeyMintDevice_upgradeKey_def Let_def)
  subgoal by (rule begin_undelivered) simp_all
  subgoal by (rule update_undelivered)
  subgoal by (rule finish_undelivered)
  subgoal by (simp add: KeyMintDevice_deleteKey_def Let_def)
  subgoal by (simp add: KeyMintDevice_deleteAllKeys_def Let_def)
  subgoal by (simp add: KeyMintDevice_addRngEntropy_def Let_def)
  subgoal by (simp add: KeyMintOperation_abort_def Let_def)
  subgoal by (rule created_generateKey)
  subgoal by (rule created_importKey)
  subgoal by (rule step_attest_undelivered) simp_all
  subgoal by (rule step_export_undelivered) simp_all
  subgoal by (rule step_sign_begin_undelivered) auto
  subgoal by (rule step_sign_finish_undelivered) auto
  done

theorem transport_failure_codes_witness:
  "fst (KeyMintDevice_getHardwareInfo unreachable_env (sample_device 15)) =
     fromServiceSpecificError ResponseCode_SYSTEM_ERROR \<and>
   fst (KeyMintDevice_generateKey unreachable_env [algorithm_param RSA] empty_result
          (sample_device 15)) = fromServiceSpecificError ResponseCode_SYSTEM_ERROR \<and>
   fst (KeyMintDevice_importKey unreachable_env [algorithm_param RSA] RAW [0] empty_result
          (sample_device 15)) = fromServiceSpecificError ResponseCode_SYSTEM_ERROR \<and>
   fst (KeyMintDevice_importWrappedKey unreachable_env [1] [2] [3] [algorithm_param RSA] 0 0
          empty_result (sample_device 15)) = fromServiceSpecificError ResponseCode_SYSTEM_ERROR \<and>
   fst (KeyMintDevice_upgradeKey unreachable_env [1] [algorithm_param RSA] (sample_device 15)) =
     fromServiceSpecificError ResponseCode_SYSTEM_ERROR \<and>
   fst (KeyMintDevice_begin unreachable_env SIGN [1] [algorithm_param RSA] HardwareAuthToken0
          (sample_device 15)) = fromServiceSpecificError ResponseCode_SYSTEM_ERROR \<and>
   fst (KeyMintOperation_update unreachable_env None (Some [1]) None None
          \<lparr> mOperationHandle = 9, mOperationSlot = \<lparr> mIsActive = True \<rparr> \<rparr> (sample_device 15)) =
     fromServiceSpecificError ResponseCode_SYSTEM_ERROR \<and>
   fst (KeyMintOperation_finish unreachable_env None (Some [1]) None None None
          \<lparr> mOperationHandle = 9, mOperationSlot = \<lparr> mIsActive = True \<rparr> \<rparr> (sample_device 15)) =
     fromServiceSpecificError ResponseCode_SYSTEM_ERROR \<and>
   fst (KeyMintDevice_generateKey (sample_env\<lparr>km_attestKey := \<lambda>_ _. NotDelivered\<rparr>) attested_params empty_result (sample_device 15)) =
     fromServiceSpecificError ErrorCode_UNKNOWN_ERROR \<and>
   halCalls (snd (snd (KeyMintDevice_generateKey (sample_env\<lparr>km_attestKey := \<lambda>_ _. NotDelivered\<rparr>) attested_params empty_result (sample_device 15)))) =
     [Call_generateKey attested_params, Call_attestKey [1] attested_params, Call_deleteKey [1]] \<and>
   fst (KeyMintDevice_importKey (sample_env\<lparr>km_exportKey := \<lambda>_ _. NotDelivered\<rparr>) [algorithm_param RSA] RAW [0] empty_result (sample_device 15)) =
     fromServiceSpecificError ErrorCode_UNKNOWN_ERROR \<and>
   halCalls (snd (snd (KeyMintDevice_importKey (sample_env\<lparr>km_exportKey := \<lambda>_ _. NotDelivered\<rparr>) [algorithm_param RSA] RAW [0] empty_result (sample_device 15)))) =
     [Call_importKey [algorithm_param RSA] RAW [0], Call_exportKey X509 [2] [] [], Call_deleteKey [2]] \<and>
   fst (KeyMintDevice_generateKey (sample_env\<lparr>km_begin := \<lambda>_ _. NotDelivered\<rparr>) self_signing_params empty_result (sample_device 15)) =
     fromServiceSpecificError ErrorCode_UNKNOWN_ERROR \<and>
   halCalls (snd (snd (KeyMintDevice_generateKey (sample_env\<lparr>km_begin := \<lambda>_ _. NotDelivered\<rparr>) self_signing_params empty_result (sample_device 15)))) =
     [Call_generateKey self_signing_params, Call_exportKey X509 [1] [] [], begin_call sample_env SIGN [1] [makeKeyParameter PADDING (V_paddingMode RSA_PSS), makeKeyParameter DIGEST (V_digest SHA_2_256)] HardwareAuthToken0, Call_deleteKey [1]] \<and>
   fst (KeyMintDevice_generateKey (sample_env\<lparr>km_begin := \<lambda>_ _. NotDelivered, signCertWith_after := \<lambda>cert signature. Inr (cert @ signature)\<rparr>) self_signing_params empty_result (sample_device 15)) =
     fromServiceSpecificError ResponseCode_SYSTEM_ERROR \<and>
   halCalls (snd (snd (KeyMintDevice_generateKey (sample_env\<lparr>km_begin := \<lambda>_ _. NotDelivered, signCertWith_after := \<lambda>cert signature. Inr (cert @ signature)\<rparr>) self_signing_params empty_result (sample_device 15)))) =
     [Call_generateKey self_signing_params, Call_exportKey X509 [1] [] [], begin_call sample_env SIGN [1] [makeKeyParameter PADDING (V_paddingMode RSA_PSS), makeKeyParameter DIGEST (V_digest SHA_2_256)] HardwareAuthToken0, Call_deleteKey [1]] \<and>
   fst (KeyMintDevice_generateKey (sample_env\<lparr>km_finish := \<lambda>_ _. NotDelivered\<rparr>) self_signing_params empty_result (sample_device 15)) =
     fromServiceSpecificError ErrorCode_UNKNOWN_ERROR \<and>
   halCalls (snd (snd (KeyMintDevice_generateKey (sample_env\<lparr>km_finish := \<lambda>_ _. NotDelivered\<rparr>) self_signing_params empty_result (sample_device 15)))) =
     [Call_generateKey self_signing_params, Call_exportKey X509 [1] [] [], begin_call sample_env SIGN [1] [makeKeyParameter PADDING (V_paddingMode RSA_PSS), makeKeyParameter DIGEST (V_digest SHA_2_256)] HardwareAuthToken0, update_call sample_env None (Some [5]) (Some HardwareAuthToken0) (Some VerificationToken0) \<lparr> mOperationHandle = 9, mOperationSlot = \<lparr> mIsActive = True \<rparr> \<rparr>, finish_call sample_env None None None None None \<lparr> mOperationHandle = 9, mOperationSlot = \<lparr> mIsActive = True \<rparr> \<rparr>, Call_deleteKey [1]] \<and>
   fst (KeyMintDevice_generateKey (sample_env\<lparr>km_finish := \<lambda>_ _. NotDelivered, signCertWith_after := \<lambda>cert signature. Inr (cert @ signature)\<rparr>) self_signing_params empty_result (sample_device 15)) =
     fromServiceSpecificError ResponseCode_SYSTEM_ERROR \<and>
   halCalls (snd (snd (KeyMintDevice_generateKey (sample_env\<lparr>km_finish := \<lambda>_ _. NotDelivered, signCertWith_after := \<lambda>cert signature. Inr (cert @ signature)\<rparr>) self_signing_params empty_result (sample_device 15)))) =
     [Call_generateKey self_signing_params, Call_exportKey X509 [1] [] [], begin_call sample_env SIGN [1] [makeKeyParameter PADDING (V_paddingMode RSA_PSS), makeKeyParameter DIGEST (V_digest SHA_2_256)] HardwareAuthToken0, update_call sample_env None (Some [5]) (Some HardwareAuthToken0) (Some VerificationToken0) \<lparr> mOperationHandle = 9, mOperationSlot = \<lparr> mIsActive = True \<rparr> \<rparr>, finish_call sample_env None None None None None \<lparr> mOperationHandle = 9, mOperationSlot = \<lparr> mIsActive = True \<rparr> \<rparr>, Call_deleteKey [1]]"
proof -
  have direct:
    "fst (KeyMintDevice_getHardwareInfo unreachable_env (sample_device 15)) =
       fromServiceSpecificError ResponseCode_SYSTEM_ERROR"
    "fst (KeyMintDevice_generateKey unreachable_env [algorithm_param RSA] empty_result
            (sample_device 15)) = fromServiceSpecificError ResponseCode_SYSTEM_ERROR"
    "fst (KeyMintDevice_importKey unreachable_env [algorithm_param RSA] RAW [0] empty_result
            (sample_device 15)) = fromServiceSpecificError ResponseCode_SYSTEM_ERROR"
    "fst (KeyMintDevice_importWrappedKey unreachable_env [1] [2] [3] [algorithm_param RSA] 0 0
            empty_result (sample_device 15)) = fromServiceSpecificError ResponseCode_SYSTEM_ERROR"
    "fst (KeyMintDevice_upgradeKey unreachable_env [1] [algorithm_param RSA] (sample_device 15)) =
       fromServiceSpecificError ResponseCode_SYSTEM_ERROR"
    "fst (KeyMintDevice_begin unreachable_env SIGN [1] [algorithm_param RSA] HardwareAuthToken0
            (sample_device 15)) = fromServiceSpecificError ResponseCode_SYSTEM_ERROR"
    "fst (KeyMintOperation_update unreachable_env None (Some [1]) None None
            \<lparr> mOperationHandle = 9, mOperationSlot = \<lparr> mIsActive = True \<rparr> \<rparr> (sample_device 15)) =
       fromServiceSpecificError ResponseCode_SYSTEM_ERROR"
    "fst (KeyMintOperation_finish unreachable_env None (Some [1]) None None None
            \<lparr> mOperationHandle = 9, mOperationSlot = \<lparr> mIsActive = True \<rparr> \<rparr> (sample_device 15)) =
       fromServiceSpecificError ResponseCode_SYSTEM_ERROR"
    using transport_failure_codes [where env = "unreachable_env"
        and keyParams = "[algorithm_param RSA]"
        and passed = "empty_result"
        and dev = "sample_device 15"
        and blob = "[1]"
        and characteristics = "\<lparr> softwareEnforced = [], hardwareEnforced = [] \<rparr>"
        and out = "generated_result"
        and d = "sample_device 15"
        and keyFormat = "RAW"
        and keyData = "[0]"
        and wrapped = "[1]"
        and wrapping = "[2]"
        and masking = "[3]"
        and psid = "0"
        and bsid = "0"
        and purpose = "SIGN"
        and authToken = "HardwareAuthToken0"
        and p = "None"
        and i = "Some [1]"
        and a = "None"
        and v = "None"
        and s = "None"
        and oper = "\<lparr> mOperationHandle = 9, mOperationSlot = \<lparr> mIsActive = True \<rparr> \<rparr>"
        and keyMaterial = "[5]"
        and cert = "[5]"
        and tbs = "[5]"
        and ?cert1.0 = "[5]"]
    by (simp_all add: eval_defs unreachable_env_def)
  have attest:
    "fst (KeyMintDevice_generateKey (sample_env\<lparr>km_attestKey := \<lambda>_ _. NotDelivered\<rparr>) attested_params empty_result (sample_device 15)) =
       fromServiceSpecificError ErrorCode_UNKNOWN_ERROR"
    "halCalls (snd (snd (KeyMintDevice_generateKey (sample_env\<lparr>km_attestKey := \<lambda>_ _. NotDelivered\<rparr>) attested_params empty_result (sample_device 15)))) =
       [Call_generateKey attested_params, Call_attestKey [1] attested_params, Call_deleteKey [1]]"
    using transport_failure_codes [where env = "sample_env\<lparr>km_attestKey := \<lambda>_ _. NotDelivered\<rparr>"
        and keyParams = "attested_params"
        and passed = "empty_result"
        and dev = "sample_device 15"
        and blob = "[1]"
        and characteristics = "\<lparr> softwareEnforced = [], hardwareEnforced = [] \<rparr>"
        and out = "generated_result"
        and d = "generated_device attested_params"
        and keyFormat = "RAW"
        and keyData = "[0]"
        and wrapped = "[1]"
        and wrapping = "[2]"
        and masking = "[3]"
        and psid = "0"
        and bsid = "0"
        and purpose = "SIGN"
        and authToken = "HardwareAuthToken0"
        and p = "None"
        and i = "Some [1]"
        and a = "None"
        and v = "None"
        and s = "None"
        and oper = "\<lparr> mOperationHandle = 9, mOperationSlot = \<lparr> mIsActive = True \<rparr> \<rparr>"
        and keyMaterial = "[5]"
        and cert = "[5]"
        and tbs = "[5]"
        and ?cert1.0 = "[5]"]
    by (simp_all add: eval_defs unreachable_env_def)
  have export:
    "fst (KeyMintDevice_importKey (sample_env\<lparr>km_exportKey := \<lambda>_ _. NotDelivered\<rparr>) [algorithm_param RSA] RAW [0] empty_result (sample_device 15)) =
       fromServiceSpecificError ErrorCode_UNKNOWN_ERROR"
    "halCalls (snd (snd (KeyMintDevice_importKey (sample_env\<lparr>km_exportKey := \<lambda>_ _. NotDelivered\<rparr>) [algorithm_param RSA] RAW [0] empty_result (sample_device 15)))) =
       [Call_importKey [algorithm_param RSA] RAW [0], Call_exportKey X509 [2] [] [], Call_deleteKey [2]]"
    using transport_failure_codes [where env = "sample_env\<lparr>km_exportKey := \<lambda>_ _. NotDelivered\<rparr>"
        and keyParams = "[algorithm_param RSA]"
        and passed = "empty_result"
        and dev = "sample_device 15"
        and blob = "[2]"
        and characteristics = "\<lparr> softwareEnforced = [], hardwareEnforced = [] \<rparr>"
        and out = "generated_result\<lparr>keyBlob := [2]\<rparr>"
        and d = "issue (Call_importKey [algorithm_param RSA] RAW [0]) (sample_device 15)"
        and keyFormat = "RAW"
        and keyData = "[0]"
        and wrapped = "[1]"
        and wrapping = "[2]"
        and masking = "[3]"
        and psid = "0"
        and bsid = "0"
        and purpose = "SIGN"
        and authToken = "HardwareAuthToken0"
        and p = "None"
        and i = "Some [1]"
        and a = "None"
        and v = "None"
        and s = "None"
        and oper = "\<lparr> mOperationHandle = 9, mOperationSlot = \<lparr> mIsActive = True \<rparr> \<rparr>"
        and keyMaterial = "[5]"
        and cert = "[5]"
        and tbs = "[5]"
        and ?cert1.0 = "[5]"]
    by (simp_all add: eval_defs unreachable_env_def)
  have sign_begin:
    "fst (KeyMintDevice_generateKey (sample_env\<lparr>km_begin := \<lambda>_ _. NotDelivered\<rparr>) self_signing_params empty_result (sample_device 15)) =
       fromServiceSpecificError ErrorCode_UNKNOWN_ERROR"
    "halCalls (snd (snd (KeyMintDevice_generateKey (sample_env\<lparr>km_begin := \<lambda>_ _. NotDelivered\<rparr>) self_signing_params empty_result (sample_device 15)))) =
       [Call_generateKey self_signing_params, Call_exportKey X509 [1] [] [], begin_call sample_env SIGN [1] [makeKeyParameter PADDING (V_paddingMode RSA_PSS), makeKeyParameter DIGEST (V_digest SHA_2_256)] HardwareAuthToken0, Call_deleteKey [1]]"
    using transport_failure_codes [where env = "sample_env\<lparr>km_begin := \<lambda>_ _. NotDelivered\<rparr>"
        and keyParams = "self_signing_params"
        and passed = "empty_result"
        and dev = "sample_device 15"
        and blob = "[1]"
        and characteristics = "\<lparr> softwareEnforced = [], hardwareEnforced = [] \<rparr>"
        and out = "generated_result"
        and d = "generated_device self_signing_params"
        and keyFormat = "RAW"
        and keyData = "[0]"
        and wrapped = "[1]"
        and wrapping = "[2]"
        and masking = "[3]"
        and psid = "0"
        and bsid = "0"
        and purpose = "SIGN"
        and authToken = "HardwareAuthToken0"
        and p = "None"
        and i = "Some [1]"
        and a = "None"
        and v = "None"
        and s = "None"
        and oper = "\<lparr> mOperationHandle = 9, mOperationSlot = \<lparr> mIsActive = True \<rparr> \<rparr>"
        and keyMaterial = "[5]"
        and cert = "[5]"
        and tbs = "[5]"
        and ?cert1.0 = "[5]"]
    by (simp_all add: eval_defs unreachable_env_def)
  have sign_begin_accepted:
    "fst (KeyMintDevice_generateKey (sample_env\<lparr>km_begin := \<lambda>_ _. NotDelivered, signCertWith_after := \<lambda>cert signature. Inr (cert @ signature)\<rparr>) self_signing_params empty_result (sample_device 15)) =
       fromServiceSpecificError ResponseCode_SYSTEM_ERROR"
    "halCalls (snd (snd (KeyMintDevice_generateKey (sample_env\<lparr>km_begin := \<lambda>_ _. NotDelivered, signCertWith_after := \<lambda>cert signature. Inr (cert @ signature)\<rparr>) self_signing_params empty_result (sample_device 15)))) =
       [Call_generateKey self_signing_params, Call_exportKey X509 [1] [] [], begin_call sample_env SIGN [1] [makeKeyParameter PADDING (V_paddingMode RSA_PSS), makeKeyParameter DIGEST (V_digest SHA_2_256)] HardwareAuthToken0, Call_deleteKey [1]]"
    using transport_failure_codes [where env = "sample_env\<lparr>km_begin := \<lambda>_ _. NotDelivered, signCertWith_after := \<lambda>cert signature. Inr (cert @ signature)\<rparr>"
        and keyParams = "self_signing_params"
        and passed = "empty_result"
        and dev = "sample_device 15"
        and blob = "[1]"
        and characteristics = "\<lparr> softwareEnforced = [], hardwareEnforced = [] \<rparr>"
        and out = "generated_result"
        and d = "generated_device self_signing_params"
        and keyFormat = "RAW"
        and keyData = "[0]"
        and wrapped = "[1]"
        and wrapping = "[2]"
        and masking = "[3]"
        and psid = "0"
        and bsid = "0"
        and purpose = "SIGN"
        and authToken = "HardwareAuthToken0"
        and p = "None"
        and i = "Some [1]"
        and a = "None"
        and v = "None"
        and s = "None"
        and oper = "\<lparr> mOperationHandle = 9, mOperationSlot = \<lparr> mIsActive = True \<rparr> \<rparr>"
        and keyMaterial = "[5]"
        and cert = "[5]"
        and tbs = "[5]"
        and ?cert1.0 = "[5]"]
    by (simp_all add: eval_defs unreachable_env_def)
  have sign_finish:
    "fst (KeyMintDevice_generateKey (sample_env\<lparr>km_finish := \<lambda>_ _. NotDelivered\<rparr>) self_signing_params empty_result (sample_device 15)) =
       fromServiceSpecificError ErrorCode_UNKNOWN_ERROR"
    "halCalls (snd (snd (KeyMintDevice_generateKey (sample_env\<lparr>km_finish := \<lambda>_ _. NotDelivered\<rparr>) self_signing_params empty_result (sample_device 15)))) =
       [Call_generateKey self_signing_params, Call_exportKey X509 [1] [] [], begin_call sample_env SIGN [1] [makeKeyParameter PADDING (V_paddingMode RSA_PSS), makeKeyParameter DIGEST (V_digest SHA_2_256)] HardwareAuthToken0, update_call sample_env None (Some [5]) (Some HardwareAuthToken0) (Some VerificationToken0) \<lparr> mOperationHandle = 9, mOperationSlot = \<lparr> mIsActive = True \<rparr> \<rparr>, finish_call sample_env None None None None None \<lparr> mOperationHandle = 9, mOperationSlot = \<lparr> mIsActive = True \<rparr> \<rparr>, Call_deleteKey [1]]"
    using transport_failure_codes [where env = "sample_env\<lparr>km_finish := \<lambda>_ _. NotDelivered\<rparr>"
        and keyParams = "self_signing_params"
        and passed = "empty_result"
        and dev = "sample_device 15"
        and blob = "[1]"
        and characteristics = "\<lparr> softwareEnforced = [], hardwareEnforced = [] \<rparr>"
        and out = "generated_result"
        and d = "generated_device self_signing_params"
        and keyFormat = "RAW"
        and keyData = "[0]"
        and wrapped = "[1]"
        and wrapping = "[2]"
        and masking = "[3]"
        and psid = "0"
        and bsid = "0"
        and purpose = "SIGN"
        and authToken = "HardwareAuthToken0"
        and p = "None"
        and i = "Some [1]"
        and a = "None"
        and v = "None"
        and s = "None"
        and oper = "\<lparr> mOperationHandle = 9, mOperationSlot = \<lparr> mIsActive = True \<rparr> \<rparr>"
        and keyMaterial = "[5]"
        and cert = "[5]"
        and tbs = "[5]"
        and ?cert1.0 = "[5]"]
    by (simp_all add: eval_defs unreachable_env_def)
  have sign_finish_accepted:
    "fst (KeyMintDevice_generateKey (sample_env\<lparr>km_finish := \<lambda>_ _. NotDelivered, signCertWith_after := \<lambda>cert signature. Inr (cert @ signature)\<rparr>) self_signing_params empty_result (sample_device 15)) =
       fromServiceSpecificError ResponseCode_SYSTEM_ERROR"
    "halCalls (snd (snd (KeyMintDevice_generateKey (sample_env\<lparr>km_finish := \<lambda>_ _. NotDelivered, signCertWith_after := \<lambda>cert signature. Inr (cert @ signature)\<rparr>) self_signing_params empty_result (sample_device 15)))) =
       [Call_generateKey self_signing_params, Call_exportKey X509 [1] [] [], begin_call sample_env SIGN [1] [makeKeyParameter PADDING (V_paddingMode RSA_PSS), makeKeyParameter DIGEST (V_digest SHA_2_256)] HardwareAuthToken0, update_call sample_env None (Some [5]) (Some HardwareAuthToken0) (Some VerificationToken0) \<lparr> mOperationHandle = 9, mOperationSlot = \<lparr> mIsActive = True \<rparr> \<rparr>, finish_call sample_env None None None None None \<lparr> mOperationHandle = 9, mOperationSlot = \<lparr> mIsActive = True \<rparr> \<rparr>, Call_deleteKey [1]]"
    using transport_failure_codes [where env = "sample_env\<lparr>km_finish := \<lambda>_ _. NotDelivered, signCertWith_after := \<lambda>cert signature. Inr (cert @ signature)\<rparr>"
        and keyParams = "self_signing_params"
        and passed = "empty_result"
        and dev = "sample_device 15"
        and blob = "[1]"
        and characteristics = "\<lparr> softwareEnforced = [], hardwareEnforced = [] \<rparr>"
        and out = "generated_result"
        and d = "generated_device self_signing_params"
        and keyFormat = "RAW"
        and keyData = "[0]"
        and wrapped = "[1]"
        and wrapping = "[2]"
        and masking = "[3]"
        and psid = "0"
        and bsid = "0"
        and purpose = "SIGN"
        and authToken = "HardwareAuthToken0"
        and p = "None"
        and i = "Some [1]"
        and a = "None"
        and v = "None"
        and s = "None"
        and oper = "\<lparr> mOperationHandle = 9, mOperationSlot = \<lparr> mIsActive = True \<rparr> \<rparr>"
        and keyMaterial = "[5]"
        and cert = "[5]"
        and tbs = "[5]"
        and ?cert1.0 = "[5]"]
    by (simp_all add: eval_defs unreachable_env_def)
  show ?thesis
    by (intro conjI) (fact direct attest export sign_begin sign_begin_accepted sign_finish sign_finish_accepted)+
qed

section \<open>Backend discovery\<close>

text \<open>
  Claim C8. When discovery finds no trusted-execution instance under either protocol
  version and a software-only instance under one of them (the newer one taking
  precedence), the table \<^verbatim>\<open>initializeKeymasters\<close> returns holds that instance in the
  trusted-execution slot and nothing in the software-only slot.
\<close>

theorem software_only_promoted:
  assumes "IServiceManager_getService sm"
    and "enumerateKeymasterDevices (Keymaster4_services sm) = Some r4"
    and "enumerateKeymasterDevices (Keymaster3_services sm) = Some r3"
    and "r4 TRUSTED_ENVIRONMENT = None"
    and "r3 TRUSTED_ENVIRONMENT = None"
    and "(if r4 SOFTWARE = None then r3 SOFTWARE else r4 SOFTWARE) = Some soft"
  shows "map_option (\<lambda>result. (result SOFTWARE, result TRUSTED_ENVIRONMENT, result STRONGBOX))
           (initializeKeymasters sm) =
         Some (None, Some soft, r3 STRONGBOX)"
  using assms
  by (auto simp: initializeKeymasters_def Let_def level_defs split: if_splits)

theorem software_only_promoted_witness:
  "map_option (\<lambda>result. (result SOFTWARE, result TRUSTED_ENVIRONMENT, result STRONGBOX))
     (initializeKeymasters software_only_manager) = Some (None, Some ''soft'', None)"
proof -
  have g: "IServiceManager_getService software_only_manager"
    by (simp add: software_only_manager_def)
  have r4: "enumerateKeymasterDevices (Keymaster4_services software_only_manager) = Some (\<lambda>_. None)"
    by (simp add: software_only_manager_def enumerateKeymasterDevices_def try_get_device_def)
  have r3: "enumerateKeymasterDevices (Keymaster3_services software_only_manager) =
      Some ((\<lambda>_. None)(SOFTWARE \<mapsto> ''soft''))"
    by (simp add: software_only_manager_def enumerateKeymasterDevices_def try_get_device_def
        level_defs)
  have t4: "(\<lambda>_. None :: string option) TRUSTED_ENVIRONMENT = None" by simp
  have t3: "((\<lambda>_. None)(SOFTWARE \<mapsto> ''soft'')) TRUSTED_ENVIRONMENT = None"
    by (simp add: level_defs)
  have sw: "(if (\<lambda>_. None :: string option) SOFTWARE = None
             then ((\<lambda>_. None)(SOFTWARE \<mapsto> ''soft'')) SOFTWARE
             else (\<lambda>_. None) SOFTWARE) = Some ''soft''"
    by simp
  from software_only_promoted [OF g r4 r3 t4 t3 sw]
  show ?thesis by (simp add: level_defs)
qed

section \<open>The device cache\<close>

lemma createKeyMintDevice_cached:
  "createKeyMintDevice sm securityLevel (Some d) = Some (Some d, Some d)"
  by (simp add: createKeyMintDevice_def)

text \<open>
  Claim C5. With a trusted-execution and an isolated-hardware backend both discovered,
  a request for the trusted-execution device followed by a request for the
  isolated-hardware device returns the trusted-execution device both times: the static
  \<^verbatim>\<open>device_ptr\<close> of \<^verbatim>\<open>createKeyMintDevice\<close> is shared by all levels. The device
  built for the isolated-hardware backend, with its 3 slots, is a different one.
\<close>

theorem device_cache_returns_first_level:
  "request_devices two_tier_manager [TRUSTED_ENVIRONMENT, STRONGBOX]
     (\<lparr> mDeviceCache = \<lambda>_. None \<rparr>, None) =
     Some [Some (KeyMintDevice_new ''default'' TRUSTED_ENVIRONMENT :: (string, unit) KeyMintDevice),
           Some (KeyMintDevice_new ''default'' TRUSTED_ENVIRONMENT)] \<and>
   map_option (\<lambda>devices. devices STRONGBOX) (initializeKeymasters two_tier_manager) =
     Some (Some ''strongbox'') \<and>
   mNumFreeSlots (mOperationSlots
     (KeyMintDevice_new ''default'' TRUSTED_ENVIRONMENT :: (string, unit) KeyMintDevice)) = 15 \<and>
   mNumFreeSlots (mOperationSlots
     (KeyMintDevice_new ''strongbox'' STRONGBOX :: (string, unit) KeyMintDevice)) = 3"
  by (simp add: getKeyMintDevice_def createKeyMintDevice_def initializeKeymasters_def
      enumerateKeymasterDevices_def try_get_device_def two_tier_manager_def KeyMintDevice_new_def
      setNumFreeSlots_def level_defs Let_def)

end
